theory Spec2Isabelle
  imports Main "HOL-Library.Word"
begin

unbundle bit_operations_syntax

section \<open>Data representation\<close>

text \<open>
  The repository is JavaScript (Node.js). The embedding below follows three modules:
  the script model (``HTLC Script Generation'', \<^verbatim>\<open>lib/htlc.js\<close>), the
  ``Cryptographic Core'' (the module required as \<^verbatim>\<open>./crypto\<close>) and the
  ``Swap Coordinator'' (the module that requires \<^verbatim>\<open>./crypto\<close>,
  \<^verbatim>\<open>./htlc\<close>, \<^verbatim>\<open>./bsv\<close>, \<^verbatim>\<open>./btc\<close> and \<^verbatim>\<open>./sol\<close>),
  together with the parts of the ledger adapters \<^verbatim>\<open>lib/bsv.js\<close> and
  \<^verbatim>\<open>lib/btc.js\<close> that the coordinator calls synchronously.

  \<^item> A \<^verbatim>\<open>Buffer\<close> is a list of bytes (\<open>8 word\<close>).
  \<^item> A JavaScript string is a \<open>string\<close>; every string the modelled functions
    build themselves is ASCII.
  \<^item> JavaScript numbers are IEEE doubles. All numbers that occur here are integers and are
    modelled as \<open>int\<close>. The operations applied to them (\<^verbatim>\<open>& 0xff\<close>,
    \<^verbatim>\<open>Math.floor(n / 256)\<close>, \<^verbatim>\<open>r * 256 + b\<close>, comparison,
    subtraction of timestamps) are exact on integer-valued doubles in the ranges the
    theorems speak about. \<^verbatim>\<open>NaN\<close> is written as \<open>None\<close> where it can occur.
  \<^item> A thrown exception is the \<open>Inl\<close> of a sum type. The constructors of \<open>error\<close>
    name the message templates of the source; interpolated values are constructor arguments.
  \<^item> SHA-256, RIPEMD-160 and Base58Check come from Node's \<^verbatim>\<open>crypto\<close> module and
    from the \<^verbatim>\<open>bs58check\<close> package; they are parameters of the model
    (record \<open>prims\<close>).
\<close>

type_synonym byte = "8 word"

subsection \<open>Hexadecimal strings: \<^verbatim>\<open>buf.toString('hex')\<close> and \<^verbatim>\<open>Buffer.from(s, 'hex')\<close>\<close>

definition hexDigit :: "nat \<Rightarrow> char" where
  "hexDigit d = ''0123456789abcdef'' ! d"

definition byteToHex :: "byte \<Rightarrow> string" where
  "byteToHex b = [hexDigit (unat b div 16), hexDigit (unat b mod 16)]"

text \<open>\<^verbatim>\<open>buf.toString('hex')\<close>: two lower-case digits per byte.\<close>

definition bytesToHex :: "byte list \<Rightarrow> string" where
  "bytesToHex bs = concat (map byteToHex bs)"

definition hexVal :: "char \<Rightarrow> nat option" where
  "hexVal c = (let k = of_char c :: nat in
     if 48 \<le> k \<and> k \<le> 57 then Some (k - 48)
     else if 97 \<le> k \<and> k \<le> 102 then Some (k - 87)
     else if 65 \<le> k \<and> k \<le> 70 then Some (k - 55)
     else None)"

text \<open>
  \<^verbatim>\<open>Buffer.from(s, 'hex')\<close>: decodes pairs of hex digits (either case) and stops at the
  first pair that is not two hex digits; a single trailing character is dropped.
\<close>

fun hexToBytes :: "string \<Rightarrow> byte list" where
  "hexToBytes (a # b # rest) =
     (case (hexVal a, hexVal b) of
        (Some x, Some y) \<Rightarrow> of_nat (16 * x + y) # hexToBytes rest
      | _ \<Rightarrow> [])"
| "hexToBytes _ = []"

text \<open>
  \<^verbatim>\<open>buf[i] = v\<close> on a \<^verbatim>\<open>Buffer\<close> (a typed array): a write past the end is
  ignored. \<^verbatim>\<open>buf[i]\<close> past the end (or at \<open>-1\<close>) is \<^verbatim>\<open>undefined\<close>.
\<close>

definition bufSet :: "byte list \<Rightarrow> nat \<Rightarrow> byte \<Rightarrow> byte list" where
  "bufSet buf i v = (if i < length buf then buf[i := v] else buf)"

definition bufGet :: "byte list \<Rightarrow> int \<Rightarrow> byte option" where
  "bufGet buf i = (if 0 \<le> i \<and> nat i < length buf then Some (buf ! nat i) else None)"

subsection \<open>String primitives of the language\<close>

text \<open>
  \<^verbatim>\<open>s.substring(a, b)\<close>: both indices are clamped to \<open>[0, length]\<close> and swapped when
  \<open>a > b\<close>. (A \<^verbatim>\<open>NaN\<close> index counts as \<open>0\<close>; callers pass \<open>0\<close> for it.)
\<close>

definition substring :: "string \<Rightarrow> int \<Rightarrow> int \<Rightarrow> string" where
  "substring s a b =
     (let n = int (length s);
          a' = max 0 (min a n);
          b' = max 0 (min b n);
          lo = min a' b';
          hi = max a' b'
      in take (nat (hi - lo)) (drop (nat lo) s))"

text \<open>
  \<^verbatim>\<open>parseInt(s, 16)\<close>: skips leading white space, reads an optional sign, skips an
  optional \<^verbatim>\<open>0x\<close>/\<^verbatim>\<open>0X\<close> prefix and converts the longest run of hex digits that
  follows; \<^verbatim>\<open>NaN\<close> (here \<open>None\<close>) when that run is empty.
\<close>

definition isWhiteSpace :: "char \<Rightarrow> bool" where
  "isWhiteSpace c = (of_char c \<in> {9, 10, 11, 12, 13, 32, 160 :: nat})"

definition hexDigitsValue :: "string \<Rightarrow> int" where
  "hexDigitsValue ds =
     foldl (\<lambda>acc c. case hexVal c of Some d \<Rightarrow> acc * 16 + int d | None \<Rightarrow> acc) 0 ds"

definition parseIntDigits16 :: "string \<Rightarrow> int option" where
  "parseIntDigits16 s =
     (let s' = (if take 2 s = ''0x'' \<or> take 2 s = ''0X'' then drop 2 s else s);
          ds = takeWhile (\<lambda>c. hexVal c \<noteq> None) s'
      in if ds = [] then None else Some (hexDigitsValue ds))"

definition parseInt16 :: "string \<Rightarrow> int option" where
  "parseInt16 s =
     (case dropWhile isWhiteSpace s of
        [] \<Rightarrow> None
      | c # rest \<Rightarrow>
          if c = CHR ''-'' then map_option uminus (parseIntDigits16 rest)
          else if c = CHR ''+'' then parseIntDigits16 rest
          else parseIntDigits16 (c # rest))"

text \<open>
  \<^verbatim>\<open>n.toString(16).padStart(2, '0')\<close> for a length \<open>n = len2 / 2\<close>, where \<open>len2\<close> is
  the number of characters of a hex string. An odd \<open>len2\<close> gives the half-integer
  \<open>k + 0.5\<close>, which JavaScript prints in base 16 as the digits of \<open>k\<close> followed by
  \<^verbatim>\<open>.8\<close>.
\<close>

function toString16 :: "nat \<Rightarrow> string" where
  "toString16 n = (if n < 16 then [hexDigit n] else toString16 (n div 16) @ [hexDigit (n mod 16)])"
  by pat_completeness auto
termination
  by (relation "measure id") auto

declare toString16.simps [simp del]

definition padStart2 :: "string \<Rightarrow> string" where
  "padStart2 s = replicate (2 - length s) CHR ''0'' @ s"

definition halfToString16 :: "nat \<Rightarrow> string" where
  "halfToString16 len2 =
     (if even len2 then toString16 (len2 div 2) else toString16 (len2 div 2) @ ''.8'')"

subsection \<open>Numbers outside the integers, \<^verbatim>\<open>parseInt\<close> without a radix, dates\<close>

text \<open>
  The amounts of a swap are the results of \<^verbatim>\<open>parseInt(x)\<close>, which can be
  \<^verbatim>\<open>NaN\<close> or infinite; they are values of \<open>jsnumber\<close>.
\<close>

datatype jsnumber = Finite int | NaN | PosInfinity | NegInfinity

text \<open>
  The double nearest to an integer (ties to the even significand, overflow to infinity):
  integers below \<open>2^53\<close> in magnitude are doubles; a larger one keeps its 53 leading bits.
\<close>

function bitLength :: "nat \<Rightarrow> nat" where
  "bitLength n = (if n = 0 then 0 else Suc (bitLength (n div 2)))"
  by pat_completeness auto
termination
  by (relation "measure id") auto

declare bitLength.simps [simp del]

definition roundToDouble :: "int \<Rightarrow> jsnumber" where
  "roundToDouble n =
     (let a = \<bar>n\<bar> in
      if a < 2 ^ 53 then Finite n
      else
        let e = bitLength (nat a) - 53;
            q = a div 2 ^ e;
            r = a mod 2 ^ e;
            q' = (if 2 ^ e < 2 * r \<or> (2 * r = 2 ^ e \<and> odd q) then q + 1 else q);
            v = q' * 2 ^ e
        in if 2 ^ 1024 \<le> v then (if n < 0 then NegInfinity else PosInfinity)
           else Finite (if n < 0 then - v else v))"

text \<open>
  \<^verbatim>\<open>parseInt(x)\<close> with no radix, applied to the string \<open>s\<close> that \<open>x\<close> converts
  to (a string is itself; an integer of magnitude below \<open>10^21\<close> is its decimal
  numeral): leading white space and an optional sign are skipped; after a prefix
  \<^verbatim>\<open>0x\<close>/\<^verbatim>\<open>0X\<close> the digits are hexadecimal, otherwise decimal; the longest run
  of digits is converted and rounded to a double; \<^verbatim>\<open>NaN\<close> when the run is empty.
  Beyond twenty significant decimal digits the language lets an implementation
  approximate the value; here the exact value is rounded. The sign of a zero result
  (\<^verbatim>\<open>parseInt("-0")\<close>) is not kept.
\<close>

definition decVal :: "char \<Rightarrow> nat option" where
  "decVal c = (let k = of_char c :: nat in if 48 \<le> k \<and> k \<le> 57 then Some (k - 48) else None)"

definition digitsValue :: "int \<Rightarrow> (char \<Rightarrow> nat option) \<Rightarrow> string \<Rightarrow> int" where
  "digitsValue radix val ds =
     foldl (\<lambda>acc c. case val c of Some d \<Rightarrow> acc * radix + int d | None \<Rightarrow> acc) 0 ds"

definition parseIntDigits :: "string \<Rightarrow> int option" where
  "parseIntDigits s =
     (if take 2 s = ''0x'' \<or> take 2 s = ''0X'' then
        (let ds = takeWhile (\<lambda>c. hexVal c \<noteq> None) (drop 2 s)
         in if ds = [] then None else Some (digitsValue 16 hexVal ds))
      else
        (let ds = takeWhile (\<lambda>c. decVal c \<noteq> None) s
         in if ds = [] then None else Some (digitsValue 10 decVal ds)))"

definition parseInt :: "string \<Rightarrow> jsnumber" where
  "parseInt s =
     (case dropWhile isWhiteSpace s of
        [] \<Rightarrow> NaN
      | c # rest \<Rightarrow>
          if c = CHR ''-'' then
            (case parseIntDigits rest of None \<Rightarrow> NaN | Some v \<Rightarrow> roundToDouble (- v))
          else if c = CHR ''+'' then
            (case parseIntDigits rest of None \<Rightarrow> NaN | Some v \<Rightarrow> roundToDouble v)
          else
            (case parseIntDigits (c # rest) of None \<Rightarrow> NaN | Some v \<Rightarrow> roundToDouble v))"

text \<open>
  \<^verbatim>\<open>a < b\<close> for an integer \<open>a\<close> and a number \<open>b\<close>: false against \<^verbatim>\<open>NaN\<close>.
\<close>

fun lessNumber :: "int \<Rightarrow> jsnumber \<Rightarrow> bool" where
  "lessNumber a (Finite b) = (a < b)"
| "lessNumber a NaN = False"
| "lessNumber a PosInfinity = True"
| "lessNumber a NegInfinity = False"

text \<open>
  \<^verbatim>\<open>new Date(t * 1000).toISOString()\<close> for a time \<open>t\<close> in seconds throws a
  \<^verbatim>\<open>RangeError\<close> exactly when \<open>t * 1000\<close> lies outside the time values of a
  \<^verbatim>\<open>Date\<close>, \<open>-8.64e15 .. 8.64e15\<close> milliseconds.
\<close>

definition dateThrows :: "int \<Rightarrow> bool" where
  "dateThrows t = (8640000000000000 < \<bar>t * 1000\<bar>)"

section \<open>Errors\<close>

text \<open>
  The coordinator's \<^verbatim>\<open>SwapStatus\<close> enumeration (the status strings of the source,
  in the order of the object literal).
\<close>

datatype SwapStatus =
    INITIATED | COUNTERPARTY_JOINED | INITIATOR_FUNDED | RESPONDER_FUNDED | FULLY_FUNDED
  | CLAIMING | COMPLETED | REFUNDING | REFUNDED | EXPIRED | FAILED

text \<open>
  Every \<^verbatim>\<open>throw new Error(...)\<close> of the modelled functions, one constructor per
  message template:
  \<^item> \<open>InvalidSwapHash\<close>, \<open>InvalidRecipientHash\<close>, \<open>InvalidRefundHash\<close>,
    \<open>InvalidTimeout\<close>: the four validation errors of \<^verbatim>\<open>createHTLCScript\<close>;
  \<^item> \<open>InvalidSwapPreimage\<close>, \<open>InvalidRecipientPreimage\<close>, \<open>InvalidRefundPreimage\<close>:
    the size checks of the scriptSig builders;
  \<^item> \<open>DataTooLarge\<close>: \<^verbatim>\<open>Data too large to push\<close>;
  \<^item> \<open>Expected m\<close>: the parser's \<^verbatim>\<open>Expected ...\<close> errors, \<open>m\<close> the full message;
  \<^item> \<open>InvalidTimeValue\<close>: the \<^verbatim>\<open>RangeError\<close> that
    \<^verbatim>\<open>new Date(x).toISOString()\<close> raises when \<open>x\<close> is outside the range of dates;
  \<^item> \<open>MessageSize n\<close>: \<^verbatim>\<open>Message must be 32 bytes, got ${n}\<close>;
  \<^item> \<open>TypeError\<close>: a property read on \<^verbatim>\<open>undefined\<close>, or
    \<^verbatim>\<open>Buffer.from(undefined)\<close>;
  \<^item> \<open>SwapSecretMismatch\<close>, \<open>RecipientSecretMismatch\<close>, \<open>RefundSecretMismatch\<close>:
    \<^verbatim>\<open>... secret does not match hash in script\<close> of the adapters;
  \<^item> \<open>TimeoutNotReached r\<close>: \<^verbatim>\<open>Timeout not reached. ${r} seconds remaining.\<close>;
  \<^item> \<open>SwapNotFound\<close>, \<open>InvalidFromChain\<close>, \<open>InvalidToChain\<close>, \<open>ChainsMustDiffer\<close>,
    \<open>InvalidRefundAddress e\<close> (\<^verbatim>\<open>Invalid refund address: ${e}\<close>),
    \<open>InvalidDestinationAddress e\<close>, \<open>CannotJoinInStatus s\<close>,
    \<open>InvalidToAddress e\<close> (\<^verbatim>\<open>Invalid toAddress: ${e}\<close>),
    \<open>InvalidRefundAddressJoin e\<close> (\<^verbatim>\<open>Invalid refundAddress: ${e}\<close>),
    \<open>CannotRecordFundingInStatus s\<close>, \<open>InsufficientFunding\<close>,
    \<open>CannotClaimInStatus s\<close>, \<open>NoFundsToClaimResponderHTLC\<close>, \<open>InvalidSwapSecret\<close>,
    \<open>NoFundsToClaimInitiatorHTLC\<close>, \<open>NoFundsToRefund\<close>: the coordinator's errors;
  \<^item> \<open>UnsupportedChain c\<close>: the default branch of \<^verbatim>\<open>getChainModule\<close>; the
    coordinator only calls it with a chain name it has stored, so no operation of the model
    returns it;
  \<^item> \<open>LedgerFailure m\<close>: an error raised by a network call of a ledger adapter
    (balance query, broadcast, RPC) or by its transaction serialiser.
\<close>

datatype error =
    InvalidSwapHash | InvalidRecipientHash | InvalidRefundHash | InvalidTimeout
  | InvalidSwapPreimage | InvalidRecipientPreimage | InvalidRefundPreimage
  | DataTooLarge
  | Expected string
  | InvalidTimeValue
  | MessageSize nat
  | TypeError
  | SwapSecretMismatch | RecipientSecretMismatch | RefundSecretMismatch
  | TimeoutNotReached int
  | SwapNotFound
  | InvalidFromChain | InvalidToChain | ChainsMustDiffer
  | InvalidRefundAddress string | InvalidDestinationAddress string
  | CannotJoinInStatus SwapStatus
  | InvalidToAddress string | InvalidRefundAddressJoin string
  | CannotRecordFundingInStatus SwapStatus
  | InsufficientFunding
  | CannotClaimInStatus SwapStatus
  | NoFundsToClaimResponderHTLC
  | InvalidSwapSecret
  | NoFundsToClaimInitiatorHTLC
  | NoFundsToRefund
  | UnsupportedChain string
  | LedgerFailure string

section \<open>External primitives\<close>

text \<open>
  The hash functions of Node's \<^verbatim>\<open>crypto\<close> module and the Base58Check encoder are
  parameters. \<open>sha256Raw\<close> is \<^verbatim>\<open>crypto.createHash('sha256').update(b).digest()\<close>,
  \<open>ripemd160Raw\<close> the same for \<^verbatim>\<open>'ripemd160'\<close>, \<open>bs58checkEncode\<close> is
  \<^verbatim>\<open>bs58check.encode\<close>.
\<close>

record prims =
  sha256Raw :: "byte list \<Rightarrow> byte list"
  ripemd160Raw :: "byte list \<Rightarrow> byte list"
  bs58checkEncode :: "byte list \<Rightarrow> string"

text \<open>
  A hash argument of the core is \<^verbatim>\<open>Buffer|string\<close>; a string is decoded as hex
  (\<^verbatim>\<open>Buffer.isBuffer(data) ? data : Buffer.from(data, 'hex')\<close>).
\<close>

datatype data = Buf "byte list" | Hex string

fun toBuffer :: "data \<Rightarrow> byte list" where
  "toBuffer (Buf b) = b"
| "toBuffer (Hex s) = hexToBytes s"

definition sha256 :: "prims \<Rightarrow> data \<Rightarrow> byte list" where
  "sha256 P d = sha256Raw P (toBuffer d)"

definition sha256Hex :: "prims \<Rightarrow> data \<Rightarrow> string" where
  "sha256Hex P d = bytesToHex (sha256 P d)"

definition hash256 :: "prims \<Rightarrow> data \<Rightarrow> byte list" where
  "hash256 P d = sha256 P (Buf (sha256 P d))"

definition hash160 :: "prims \<Rightarrow> data \<Rightarrow> byte list" where
  "hash160 P d = ripemd160Raw P (sha256Raw P (toBuffer d))"

text \<open>
  \<^verbatim>\<open>iteratedHash256(data, iterations)\<close>: the \<^verbatim>\<open>for\<close> loop applies
  \<^verbatim>\<open>hash256\<close> once per iteration.
\<close>

fun iteratedHash256 :: "prims \<Rightarrow> byte list \<Rightarrow> nat \<Rightarrow> byte list" where
  "iteratedHash256 P result 0 = result"
| "iteratedHash256 P result (Suc n) = iteratedHash256 P (hash256 P (Buf result)) n"

text \<open>\<^verbatim>\<open>pushData(hexData)\<close> of the cryptographic core.\<close>

definition pushData :: "string \<Rightarrow> error + string" where
  "pushData hexData =
     (let len2 = length hexData in
      if len2 = 0 then Inr ''00''
      else if len2 \<le> 2 * 75 then Inr (padStart2 (halfToString16 len2) @ hexData)
      else if len2 \<le> 2 * 255 then Inr (''4c'' @ padStart2 (halfToString16 len2) @ hexData)
      else if len2 \<le> 2 * 65535 then
        Inr (''4d'' @ bytesToHex [of_nat (len2 div 2), of_nat (len2 div 2 div 256)] @ hexData)
      else Inl DataTooLarge)"

section \<open>The script model\<close>

subsection \<open>Opcodes\<close>

definition OP_FALSE :: string where "OP_FALSE = ''00''"
definition OP_TRUE :: string where "OP_TRUE = ''51''"
definition OP_IF :: string where "OP_IF = ''63''"
definition OP_ELSE :: string where "OP_ELSE = ''67''"
definition OP_ENDIF :: string where "OP_ENDIF = ''68''"
definition OP_DROP :: string where "OP_DROP = ''75''"
definition OP_EQUAL :: string where "OP_EQUAL = ''87''"
definition OP_EQUALVERIFY :: string where "OP_EQUALVERIFY = ''88''"
definition OP_SHA256 :: string where "OP_SHA256 = ''a8''"
definition OP_HASH160 :: string where "OP_HASH160 = ''a9''"
definition OP_CHECKLOCKTIMEVERIFY :: string where "OP_CHECKLOCKTIMEVERIFY = ''b1''"

lemmas OP_defs = OP_FALSE_def OP_TRUE_def OP_IF_def OP_ELSE_def OP_ENDIF_def OP_DROP_def
  OP_EQUAL_def OP_EQUALVERIFY_def OP_SHA256_def OP_HASH160_def OP_CHECKLOCKTIMEVERIFY_def

subsection \<open>Minimal number encoding\<close>

text \<open>
  \<^verbatim>\<open>encodeMinimalNumber(num)\<close>. The \<^verbatim>\<open>while (n > 0)\<close> loop writes
  \<^verbatim>\<open>n & 0xff\<close> into an 8-byte buffer and continues with
  \<^verbatim>\<open>Math.floor(n / 256)\<close>; \<open>encodeLoop\<close> returns the buffer and the index \<open>i\<close>.
\<close>

function encodeLoop :: "byte list \<Rightarrow> nat \<Rightarrow> int \<Rightarrow> byte list \<times> nat" where
  "encodeLoop buf i n =
     (if n > 0 then encodeLoop (bufSet buf i (word_of_int (n AND 255))) (i + 1) (n div 256)
      else (buf, i))"
  by pat_completeness auto
termination
  by (relation "measure (\<lambda>(buf, i, n). nat n)") auto

declare encodeLoop.simps [simp del]

text \<open>
  After the loop, \<^verbatim>\<open>if (buf[i - 1] & 0x80) buf[i++] = 0x00\<close>; an
  \<^verbatim>\<open>undefined\<close> read gives \<^verbatim>\<open>undefined & 0x80 = 0\<close>. The result is
  \<^verbatim>\<open>buf.slice(0, i).toString('hex')\<close>, and \<^verbatim>\<open>slice\<close> clamps \<open>i\<close> to the
  buffer's length.
\<close>

definition encodeMinimalNumber :: "int \<Rightarrow> string" where
  "encodeMinimalNumber num =
     (if num = 0 then []
      else
        (case encodeLoop (replicate 8 0) 0 num of (buf, i) \<Rightarrow>
           (case (case bufGet buf (int i - 1) of
                    Some b \<Rightarrow> if b AND 0x80 \<noteq> 0 then (bufSet buf i 0, i + 1) else (buf, i)
                  | None \<Rightarrow> (buf, i))
            of (buf', i') \<Rightarrow> bytesToHex (take i' buf'))))"

text \<open>
  \<^verbatim>\<open>decodeMinimalNumber(hex)\<close>: \<^verbatim>\<open>result = result * 256 + buf[i]\<close> from the
  last byte down to the first.
\<close>

definition decodeMinimalNumber :: "string \<Rightarrow> int" where
  "decodeMinimalNumber hex =
     (if hex = [] then 0
      else foldr (\<lambda>b result. result * 256 + uint b) (hexToBytes hex) 0)"

text \<open>
  The encoding as the specification words it, for comparison with \<open>encodeMinimalNumber\<close>:
  the little-endian bytes of \<open>n\<close> without trailing zero bytes (\<open>minimalLE\<close>), followed by
  a single zero byte exactly when the most significant used byte has its high bit set
  (\<open>specMinimalEncoding\<close>).
\<close>

fun minimalLE :: "nat \<Rightarrow> byte list" where
  "minimalLE n = (if n = 0 then [] else of_nat (n mod 256) # minimalLE (n div 256))"

declare minimalLE.simps [simp del]

definition specMinimalEncoding :: "nat \<Rightarrow> string" where
  "specMinimalEncoding n =
     bytesToHex (minimalLE n @
       (if n \<noteq> 0 \<and> last (minimalLE n) AND 0x80 \<noteq> 0 then [0] else []))"

subsection \<open>Building the hash-lock script\<close>

record htlc_params =
  swapHash :: string
  recipientHash :: string
  refundHash :: string
  timeout :: int

record htlc_script = htlc_params +
  redeemScript :: string
  redeemScriptHash :: string
  sha256Hash :: string
  timeoutHex :: string
  scriptSize :: nat

text \<open>
  \<^verbatim>\<open>createHTLCScript(params)\<close>. The three hash checks are
  \<^verbatim>\<open>!h || h.length !== 64\<close> (the empty string has length \<open>0\<close>), the timeout check is
  \<^verbatim>\<open>!timeout || timeout < 1\<close>. The script is the concatenation of the fifteen parts
  in the order of the array literal.
\<close>

definition createHTLCScript :: "prims \<Rightarrow> htlc_params \<Rightarrow> error + htlc_script" where
  "createHTLCScript P params =
     (if length (swapHash params) \<noteq> 64 then Inl InvalidSwapHash
      else if length (recipientHash params) \<noteq> 64 then Inl InvalidRecipientHash
      else if length (refundHash params) \<noteq> 64 then Inl InvalidRefundHash
      else if timeout params = 0 \<or> timeout params < 1 then Inl InvalidTimeout
      else
        let tHex = encodeMinimalNumber (timeout params) in
        case pushData (swapHash params) of Inl e \<Rightarrow> Inl e | Inr pSwap \<Rightarrow>
        case pushData (recipientHash params) of Inl e \<Rightarrow> Inl e | Inr pRecipient \<Rightarrow>
        case pushData tHex of Inl e \<Rightarrow> Inl e | Inr pTimeout \<Rightarrow>
        case pushData (refundHash params) of Inl e \<Rightarrow> Inl e | Inr pRefund \<Rightarrow>
        let script = concat
              [OP_IF,
               OP_SHA256, pSwap, OP_EQUALVERIFY,
               OP_SHA256, pRecipient, OP_EQUAL,
               OP_ELSE,
               pTimeout, OP_CHECKLOCKTIMEVERIFY, OP_DROP,
               OP_SHA256, pRefund, OP_EQUAL,
               OP_ENDIF];
            scriptBuffer = hexToBytes script
        in Inr \<lparr> swapHash = swapHash params,
                 recipientHash = recipientHash params,
                 refundHash = refundHash params,
                 timeout = timeout params,
                 redeemScript = script,
                 redeemScriptHash = bytesToHex (hash160 P (Buf scriptBuffer)),
                 sha256Hash = bytesToHex (sha256 P (Buf scriptBuffer)),
                 timeoutHex = tHex,
                 scriptSize = length scriptBuffer \<rparr>)"

text \<open>
  The layout of the scripts that \<^verbatim>\<open>createHTLCScript\<close> produces when the three
  hashes have 64 characters and the encoded timeout \<open>tHex\<close> has \<open>k < 16\<close> bytes:
  the opcodes and push lengths of the array literal around the four operands.
\<close>

definition scriptTemplate :: "string \<Rightarrow> string \<Rightarrow> string \<Rightarrow> nat \<Rightarrow> string \<Rightarrow> string" where
  "scriptTemplate sH rH fH k tHex =
     ''63a820'' @ sH @ ''88a820'' @ rH @ ''8767'' @ [CHR ''0'', hexDigit k] @ tHex
       @ ''b175a820'' @ fH @ ''8768''"

subsection \<open>Parsing the hash-lock script\<close>

record parsed_htlc =
  valid :: bool
  p_swapHash :: string
  p_recipientHash :: string
  p_refundHash :: string
  p_timeout :: int
  p_timeoutHex :: string

text \<open>
  \<^verbatim>\<open>parseHTLCScript(scriptHex)\<close>, with the running index \<open>i\<close> of the source.
  \<^item> When \<^verbatim>\<open>parseInt\<close> yields \<^verbatim>\<open>NaN\<close> for the push length, \<open>i\<close> becomes
    \<^verbatim>\<open>NaN\<close>, the next \<^verbatim>\<open>substring(NaN, NaN)\<close> is the empty string and the
    check for \<^verbatim>\<open>OP_CHECKLOCKTIMEVERIFY\<close> throws.
  \<^item> The returned object holds \<^verbatim>\<open>timeoutDate: new Date(timeout * 1000).toISOString()\<close>.
    The field is not kept, but its evaluation throws a \<^verbatim>\<open>RangeError\<close> when
    \<open>timeout * 1000\<close> exceeds \<open>8.64e15\<close>, the largest time value of a \<^verbatim>\<open>Date\<close>
    (the decoded timeout is never negative).
\<close>

definition parseHTLCScript :: "string \<Rightarrow> error + parsed_htlc" where
  "parseHTLCScript scriptHex =
     (let i = 0 in
      if substring scriptHex i (i + 2) \<noteq> OP_IF then Inl (Expected ''Expected OP_IF at start'')
      else let i = i + 2 in
      if substring scriptHex i (i + 2) \<noteq> OP_SHA256 then Inl (Expected ''Expected OP_SHA256'')
      else let i = i + 2 in
      if substring scriptHex i (i + 2) \<noteq> ''20''
      then Inl (Expected ''Expected 32-byte push for swap hash'')
      else let i = i + 2; swapH = substring scriptHex i (i + 64); i = i + 64 in
      if substring scriptHex i (i + 2) \<noteq> OP_EQUALVERIFY
      then Inl (Expected ''Expected OP_EQUALVERIFY'')
      else let i = i + 2 in
      if substring scriptHex i (i + 2) \<noteq> OP_SHA256 then Inl (Expected ''Expected OP_SHA256'')
      else let i = i + 2 in
      if substring scriptHex i (i + 2) \<noteq> ''20''
      then Inl (Expected ''Expected 32-byte push for recipient hash'')
      else let i = i + 2; recipientH = substring scriptHex i (i + 64); i = i + 64 in
      if substring scriptHex i (i + 2) \<noteq> OP_EQUAL then Inl (Expected ''Expected OP_EQUAL'')
      else let i = i + 2 in
      if substring scriptHex i (i + 2) \<noteq> OP_ELSE then Inl (Expected ''Expected OP_ELSE'')
      else let i = i + 2 in
      case parseInt16 (substring scriptHex i (i + 2)) of
        None \<Rightarrow> Inl (Expected ''Expected OP_CHECKLOCKTIMEVERIFY'')
      | Some timeoutPushLen \<Rightarrow>
      let i = i + 2;
          tHex = substring scriptHex i (i + timeoutPushLen * 2);
          t = decodeMinimalNumber tHex;
          i = i + timeoutPushLen * 2 in
      if substring scriptHex i (i + 2) \<noteq> OP_CHECKLOCKTIMEVERIFY
      then Inl (Expected ''Expected OP_CHECKLOCKTIMEVERIFY'')
      else let i = i + 2 in
      if substring scriptHex i (i + 2) \<noteq> OP_DROP then Inl (Expected ''Expected OP_DROP'')
      else let i = i + 2 in
      if substring scriptHex i (i + 2) \<noteq> OP_SHA256 then Inl (Expected ''Expected OP_SHA256'')
      else let i = i + 2 in
      if substring scriptHex i (i + 2) \<noteq> ''20''
      then Inl (Expected ''Expected 32-byte push for refund hash'')
      else let i = i + 2; refundH = substring scriptHex i (i + 64); i = i + 64 in
      if substring scriptHex i (i + 2) \<noteq> OP_EQUAL then Inl (Expected ''Expected OP_EQUAL'')
      else let i = i + 2 in
      if substring scriptHex i (i + 2) \<noteq> OP_ENDIF then Inl (Expected ''Expected OP_ENDIF'')
      else if t * 1000 > 8640000000000000 then Inl InvalidTimeValue
      else Inr \<lparr> valid = True,
                 p_swapHash = swapH,
                 p_recipientHash = recipientH,
                 p_refundHash = refundH,
                 p_timeout = t,
                 p_timeoutHex = tHex \<rparr>)"

subsection \<open>Unlocking scripts\<close>

text \<open>The ledgers the coordinator supports (\<^verbatim>\<open>SupportedChains\<close>).\<close>

datatype chain = BSV | BTC | SOL

text \<open>
  \<^verbatim>\<open>createClaimScriptSig\<close> and \<^verbatim>\<open>createRefundScriptSig\<close>. A secret may be
  \<^verbatim>\<open>null\<close> (\<open>None\<close>); \<^verbatim>\<open>!s || s.length < 64\<close> rejects it. The redeem
  script is pushed for \<^verbatim>\<open>chain === 'BTC'\<close> only; a \<^verbatim>\<open>null\<close> script there
  makes \<^verbatim>\<open>pushData\<close> read \<^verbatim>\<open>null.length\<close>.
\<close>

definition pushScript :: "string option \<Rightarrow> error + string" where
  "pushScript s = (case s of None \<Rightarrow> Inl TypeError | Some x \<Rightarrow> pushData x)"

definition createClaimScriptSig ::
    "string option \<Rightarrow> string option \<Rightarrow> string option \<Rightarrow> chain \<Rightarrow> error + string" where
  "createClaimScriptSig swapPreimage recipientPreimage redeemScr ch =
     (case swapPreimage of None \<Rightarrow> Inl InvalidSwapPreimage | Some sp \<Rightarrow>
      if length sp < 64 then Inl InvalidSwapPreimage else
      case recipientPreimage of None \<Rightarrow> Inl InvalidRecipientPreimage | Some rp \<Rightarrow>
      if length rp < 64 then Inl InvalidRecipientPreimage else
      case pushData sp of Inl e \<Rightarrow> Inl e | Inr p1 \<Rightarrow>
      case pushData rp of Inl e \<Rightarrow> Inl e | Inr p2 \<Rightarrow>
      if ch = BTC then
        (case pushScript redeemScr of Inl e \<Rightarrow> Inl e
         | Inr p3 \<Rightarrow> Inr (concat [p1, p2, OP_TRUE, p3]))
      else Inr (concat [p1, p2, OP_TRUE]))"

definition createRefundScriptSig :: "string option \<Rightarrow> string option \<Rightarrow> chain \<Rightarrow> error + string" where
  "createRefundScriptSig refundPreimage redeemScr ch =
     (case refundPreimage of None \<Rightarrow> Inl InvalidRefundPreimage | Some rp \<Rightarrow>
      if length rp < 64 then Inl InvalidRefundPreimage else
      case pushData rp of Inl e \<Rightarrow> Inl e | Inr p1 \<Rightarrow>
      if ch = BTC then
        (case pushScript redeemScr of Inl e \<Rightarrow> Inl e
         | Inr p3 \<Rightarrow> Inr (concat [p1, OP_FALSE, p3]))
      else Inr (concat [p1, OP_FALSE]))"

subsection \<open>\<^verbatim>\<open>createHTLC\<close>: the script with its ledger-specific address\<close>

record htlc = htlc_script +
  h_chain :: chain
  outputType :: string
  h_lockingScript :: "string option"
  h_scriptHash :: "string option"
  h_address :: "string option"

text \<open>
  \<^verbatim>\<open>scriptHashToP2SH(scriptHash, 'mainnet')\<close>: Base58Check of the version byte
  \<open>0x05\<close> followed by the decoded script hash.
\<close>

definition scriptHashToP2SH :: "prims \<Rightarrow> string \<Rightarrow> string" where
  "scriptHashToP2SH P h = bs58checkEncode P (0x05 # hexToBytes h)"

text \<open>
  \<^verbatim>\<open>createHTLC(params, chain, 'mainnet')\<close>. Every chain other than \<^verbatim>\<open>'BSV'\<close>
  takes the P2SH branch, whose result is labelled \<^verbatim>\<open>'BTC'\<close>. The disassembly
  \<^verbatim>\<open>scriptASM\<close> (\<^verbatim>\<open>decodeScriptToASM\<close>) is a diagnostic string and is not part of
  the model: on a script built by \<^verbatim>\<open>createHTLCScript\<close> its walk meets the named
  opcodes and the direct pushes of the layout only.
\<close>

definition createHTLC :: "prims \<Rightarrow> htlc_params \<Rightarrow> chain \<Rightarrow> error + htlc" where
  "createHTLC P params ch =
     (case createHTLCScript P params of
        Inl e \<Rightarrow> Inl e
      | Inr s \<Rightarrow>
          if ch = BSV then
            Inr (htlc_script.extend s
                   \<lparr> h_chain = BSV, outputType = ''bare-script'',
                     h_lockingScript = Some (redeemScript s),
                     h_scriptHash = Some (sha256Hash s),
                     h_address = None \<rparr>)
          else
            Inr (htlc_script.extend s
                   \<lparr> h_chain = BTC, outputType = ''p2sh'',
                     h_lockingScript = None,
                     h_scriptHash = None,
                     h_address = Some (scriptHashToP2SH P (redeemScriptHash s)) \<rparr>))"

section \<open>The cryptographic core\<close>

definition WOTS_CHUNKS :: nat where "WOTS_CHUNKS = 32"
definition WOTS_ITERATIONS :: nat where "WOTS_ITERATIONS = 256"
definition SCALAR_SIZE :: nat where "SCALAR_SIZE = 32"

record private_key =
  scalars :: "byte list list"
  scalarsHex :: "string list"

record public_key =
  commitments :: "byte list list"
  commitmentsHex :: "string list"

record keypair =
  privateKey :: private_key
  publicKey :: public_key
  publicKeyHash :: string
  publicKeyPreimage :: string

text \<open>
  \<^verbatim>\<open>generateWinternitzKeypair()\<close>. The entropy is an argument: \<open>rnd i\<close> is the buffer
  that the \<open>i\<close>-th call of \<^verbatim>\<open>randomBytes(SCALAR_SIZE)\<close> returns.
\<close>

definition generateWinternitzKeypair :: "prims \<Rightarrow> (nat \<Rightarrow> byte list) \<Rightarrow> keypair" where
  "generateWinternitzKeypair P rnd =
     (let privateScalars = map rnd [0..<WOTS_CHUNKS];
          publicCommitments = map (\<lambda>scalar. iteratedHash256 P scalar WOTS_ITERATIONS) privateScalars;
          pkHash = sha256 P (Buf (concat publicCommitments))
      in \<lparr> privateKey = \<lparr> scalars = privateScalars, scalarsHex = map bytesToHex privateScalars \<rparr>,
           publicKey = \<lparr> commitments = publicCommitments,
                         commitmentsHex = map bytesToHex publicCommitments \<rparr>,
           publicKeyHash = bytesToHex pkHash,
           publicKeyPreimage = bytesToHex (concat publicCommitments) \<rparr>)"

record chunk =
  revealed :: "byte list"
  offset :: nat
  revealedHex :: string

record signature =
  chunks :: "chunk list"
  message :: string
  signaturePreimage :: string
  offsets :: "nat list"

text \<open>
  The body of the signing loop for the chain positions \<open>is\<close>. Reading
  \<^verbatim>\<open>privateKey.scalars[i]\<close> past the end gives \<^verbatim>\<open>undefined\<close>, on which
  \<^verbatim>\<open>Buffer.from\<close> throws.
\<close>

fun signChunks :: "prims \<Rightarrow> byte list \<Rightarrow> byte list list \<Rightarrow> nat list \<Rightarrow> error + chunk list" where
  "signChunks P m sc [] = Inr []"
| "signChunks P m sc (i # is) =
     (if i < length sc then
        (let messageByte = unat (m ! i);
             hashCount = WOTS_ITERATIONS - messageByte;
             r = iteratedHash256 P (sc ! i) hashCount
         in case signChunks P m sc is of
              Inl e \<Rightarrow> Inl e
            | Inr cs \<Rightarrow> Inr (\<lparr> revealed = r, offset = messageByte, revealedHex = bytesToHex r \<rparr> # cs))
      else Inl TypeError)"

definition signWinternitz :: "prims \<Rightarrow> data \<Rightarrow> private_key \<Rightarrow> error + signature" where
  "signWinternitz P msg pk =
     (let m = toBuffer msg in
      if length m \<noteq> 32 then Inl (MessageSize (length m))
      else case signChunks P m (scalars pk) [0..<WOTS_CHUNKS] of
             Inl e \<Rightarrow> Inl e
           | Inr cs \<Rightarrow>
               Inr \<lparr> chunks = cs,
                     message = bytesToHex m,
                     signaturePreimage = bytesToHex (concat (map revealed cs)),
                     offsets = map offset cs \<rparr>)"

text \<open>
  The verification loop. A missing chunk makes \<^verbatim>\<open>chunk.offset\<close> throw, a missing
  commitment makes \<^verbatim>\<open>computed.equals(undefined)\<close> throw.
\<close>

fun verifyChunks ::
    "prims \<Rightarrow> byte list \<Rightarrow> chunk list \<Rightarrow> byte list list \<Rightarrow> nat list \<Rightarrow> error + bool" where
  "verifyChunks P m cs cm [] = Inr True"
| "verifyChunks P m cs cm (i # is) =
     (if i < length cs then
        (let c = cs ! i; expectedOffset = unat (m ! i) in
         if offset c \<noteq> expectedOffset then Inr False
         else let computed = iteratedHash256 P (revealed c) (offset c) in
           if i < length cm then
             (if computed \<noteq> cm ! i then Inr False else verifyChunks P m cs cm is)
           else Inl TypeError)
      else Inl TypeError)"

definition verifyWinternitz :: "prims \<Rightarrow> data \<Rightarrow> signature \<Rightarrow> public_key \<Rightarrow> error + bool" where
  "verifyWinternitz P msg sig pub =
     (let m = toBuffer msg in
      if length m \<noteq> 32 then Inr False
      else verifyChunks P m (chunks sig) (commitments pub) [0..<WOTS_CHUNKS])"

subsection \<open>Swap secrets\<close>

record initiator_secrets =
  is_swap_secret :: string
  is_swap_hash :: string
  is_refund_secret :: string
  is_refund_hash :: string
  is_claim_secret :: string
  is_claim_hash :: string

record responder_secrets =
  rs_recipient_secret :: string
  rs_recipient_hash :: string
  rs_refund_secret :: string
  rs_refund_hash :: string

text \<open>
  \<^verbatim>\<open>generateInitiatorSecrets()\<close> and \<^verbatim>\<open>generateResponderSecrets()\<close>: one keypair
  per role, each drawing the next \<open>WOTS_CHUNKS\<close> buffers of entropy. The flat
  (``backward compatibility'') fields are the ones the coordinator reads.
\<close>

definition generateInitiatorSecrets :: "prims \<Rightarrow> (nat \<Rightarrow> byte list) \<Rightarrow> initiator_secrets" where
  "generateInitiatorSecrets P rnd =
     (let swapKeypair = generateWinternitzKeypair P rnd;
          refundKeypair = generateWinternitzKeypair P (\<lambda>i. rnd (WOTS_CHUNKS + i));
          claimKeypair = generateWinternitzKeypair P (\<lambda>i. rnd (2 * WOTS_CHUNKS + i))
      in \<lparr> is_swap_secret = publicKeyPreimage swapKeypair,
           is_swap_hash = publicKeyHash swapKeypair,
           is_refund_secret = publicKeyPreimage refundKeypair,
           is_refund_hash = publicKeyHash refundKeypair,
           is_claim_secret = publicKeyPreimage claimKeypair,
           is_claim_hash = publicKeyHash claimKeypair \<rparr>)"

definition generateResponderSecrets :: "prims \<Rightarrow> (nat \<Rightarrow> byte list) \<Rightarrow> responder_secrets" where
  "generateResponderSecrets P rnd =
     (let recipientKeypair = generateWinternitzKeypair P rnd;
          refundKeypair = generateWinternitzKeypair P (\<lambda>i. rnd (WOTS_CHUNKS + i))
      in \<lparr> rs_recipient_secret = publicKeyPreimage recipientKeypair,
           rs_recipient_hash = publicKeyHash recipientKeypair,
           rs_refund_secret = publicKeyPreimage refundKeypair,
           rs_refund_hash = publicKeyHash refundKeypair \<rparr>)"

subsection \<open>Preimage verification\<close>

text \<open>
  \<^verbatim>\<open>String.prototype.toLowerCase\<close> on code units below 256: the ASCII capitals and the
  Latin-1 capitals \<open>0xC0..0xDE\<close> (without the multiplication sign \<open>0xD7\<close>) move up by 32.
\<close>

definition toLowerChar :: "char \<Rightarrow> char" where
  "toLowerChar c = (let k = of_char c :: nat in
     if (65 \<le> k \<and> k \<le> 90) \<or> (192 \<le> k \<and> k \<le> 222 \<and> k \<noteq> 215) then char_of (k + 32) else c)"

definition toLowerCase :: "string \<Rightarrow> string" where
  "toLowerCase s = map toLowerChar s"

definition verifyPreimage :: "prims \<Rightarrow> data \<Rightarrow> string \<Rightarrow> bool" where
  "verifyPreimage P secret expectedHash =
     (let actualHash = sha256Hex P secret
      in toLowerCase actualHash = toLowerCase expectedHash)"

section \<open>Ledger adapters\<close>

text \<open>
  The adapters talk to block explorers and RPC nodes. Their network calls and their
  transaction serialiser are oracles, collected in the record \<open>ledger\<close>; each returns
  either the error it throws or its value:
  \<^item> \<open>validateAddressOf c a\<close>: \<^verbatim>\<open>validateAddress(a)\<close> of the adapter of chain \<open>c\<close>;
  \<^item> \<open>bsvUTXOsByScriptHash h\<close> and \<open>btcUTXOs a\<close>: the unspent outputs behind
    \<^verbatim>\<open>bsv.getHTLCBalance\<close> and \<^verbatim>\<open>btc.getBalance\<close>;
  \<^item> \<open>solLamports a\<close>: the value behind \<^verbatim>\<open>sol.getBalance\<close>;
  \<^item> \<open>sweepTransaction c p\<close>: \<^verbatim>\<open>buildSweepTransaction(p).txHex\<close> (fee computation
    and serialisation; it throws when the output would be dust);
  \<^item> \<open>broadcast c tx\<close>: \<^verbatim>\<open>broadcastTransaction(tx)\<close>;
  \<^item> \<open>solHTLCInfo p\<close>: the address and account data that \<^verbatim>\<open>sol.createHTLCInfo\<close>
    derives after two RPC calls.
\<close>

record validation =
  v_valid :: bool
  v_error :: string

record utxo =
  u_txid :: string
  u_vout :: int
  u_satoshis :: int

record balance =
  b_satoshis :: "int option"
  b_lamports :: "int option"
  b_utxos :: "utxo list option"

record sweep_params =
  sw_utxo :: utxo
  sw_lockingScript :: "string option"
  sw_scriptSig :: string
  sw_toAddress :: "string option"
  sw_locktime :: int

record sol_htlc_params =
  sol_swapHash :: string
  sol_recipientHash :: string
  sol_refundHash :: string
  sol_initiator :: string
  sol_recipient :: string
  sol_lamports :: jsnumber
  sol_timeoutSeconds :: int

record ledger =
  validateAddressOf :: "chain \<Rightarrow> string \<Rightarrow> validation"
  bsvUTXOsByScriptHash :: "string option \<Rightarrow> error + utxo list"
  btcUTXOs :: "string option \<Rightarrow> error + utxo list"
  solLamports :: "string option \<Rightarrow> error + int"
  sweepTransaction :: "chain \<Rightarrow> sweep_params \<Rightarrow> error + string"
  broadcast :: "chain \<Rightarrow> string \<Rightarrow> error + string"
  solHTLCInfo :: "sol_htlc_params \<Rightarrow> error + string \<times> string"

text \<open>
  \<^verbatim>\<open>bsv.getHTLCBalance\<close>, \<^verbatim>\<open>btc.getBalance\<close>, \<^verbatim>\<open>sol.getBalance\<close>: the first two
  sum the outputs' values into \<^verbatim>\<open>satoshis\<close> and return the outputs as
  \<^verbatim>\<open>utxos\<close>; the third returns \<^verbatim>\<open>lamports\<close> only.
\<close>

definition utxoBalance :: "utxo list \<Rightarrow> balance" where
  "utxoBalance us =
     \<lparr> b_satoshis = Some (foldl (\<lambda>sum u. sum + u_satoshis u) 0 us),
       b_lamports = None,
       b_utxos = Some us \<rparr>"

definition getHTLCBalance :: "ledger \<Rightarrow> string option \<Rightarrow> error + balance" where
  "getHTLCBalance L h =
     (case bsvUTXOsByScriptHash L h of Inl e \<Rightarrow> Inl e | Inr us \<Rightarrow> Inr (utxoBalance us))"

definition btcGetBalance :: "ledger \<Rightarrow> string option \<Rightarrow> error + balance" where
  "btcGetBalance L a =
     (case btcUTXOs L a of Inl e \<Rightarrow> Inl e | Inr us \<Rightarrow> Inr (utxoBalance us))"

definition solGetBalance :: "ledger \<Rightarrow> string option \<Rightarrow> error + balance" where
  "solGetBalance L a =
     (case solLamports L a of
        Inl e \<Rightarrow> Inl e
      | Inr l \<Rightarrow> Inr \<lparr> b_satoshis = None, b_lamports = Some l, b_utxos = None \<rparr>)"

text \<open>
  \<^verbatim>\<open>buildClaimTransaction\<close> of the BSV and BTC adapters: parse the script, compare the
  hash of each secret with the hash in the script (\<^verbatim>\<open>!==\<close> on the hex strings), build
  the unlocking script, serialise. The Solana adapter has no such function; calling it
  throws. A \<^verbatim>\<open>null\<close> script throws in the parser's first \<^verbatim>\<open>substring\<close>, a
  \<^verbatim>\<open>null\<close> secret throws in \<^verbatim>\<open>Buffer.from\<close>.
\<close>

definition buildClaimTransaction ::
    "prims \<Rightarrow> ledger \<Rightarrow> chain \<Rightarrow> utxo \<Rightarrow> string option \<Rightarrow> string option \<Rightarrow> string option
      \<Rightarrow> string option \<Rightarrow> error + string" where
  "buildClaimTransaction P L ch u swapSecret recipientSecret script toAddr =
     (if ch = SOL then Inl TypeError else
      case script of None \<Rightarrow> Inl TypeError | Some scr \<Rightarrow>
      case parseHTLCScript scr of Inl e \<Rightarrow> Inl e | Inr htlcDetails \<Rightarrow>
      case swapSecret of None \<Rightarrow> Inl TypeError | Some ss \<Rightarrow>
      if sha256Hex P (Hex ss) \<noteq> p_swapHash htlcDetails then Inl SwapSecretMismatch else
      case recipientSecret of None \<Rightarrow> Inl TypeError | Some rs \<Rightarrow>
      if sha256Hex P (Hex rs) \<noteq> p_recipientHash htlcDetails then Inl RecipientSecretMismatch else
      case createClaimScriptSig (Some ss) (Some rs) (Some scr) ch of
        Inl e \<Rightarrow> Inl e
      | Inr scriptSig \<Rightarrow>
          sweepTransaction L ch
            \<lparr> sw_utxo = u,
              sw_lockingScript = (if ch = BSV then Some scr else None),
              sw_scriptSig = scriptSig,
              sw_toAddress = toAddr,
              sw_locktime = 0 \<rparr>)"

text \<open>
  \<^verbatim>\<open>buildRefundTransaction\<close>: as above with the refund secret, and a second timeout
  check against the adapter's own reading \<open>now'\<close> of the clock.
\<close>

definition buildRefundTransaction ::
    "prims \<Rightarrow> ledger \<Rightarrow> int \<Rightarrow> chain \<Rightarrow> utxo \<Rightarrow> string option \<Rightarrow> string option
      \<Rightarrow> string option \<Rightarrow> error + string" where
  "buildRefundTransaction P L now' ch u refundSecret script toAddr =
     (if ch = SOL then Inl TypeError else
      case script of None \<Rightarrow> Inl TypeError | Some scr \<Rightarrow>
      case parseHTLCScript scr of Inl e \<Rightarrow> Inl e | Inr htlcDetails \<Rightarrow>
      case refundSecret of None \<Rightarrow> Inl TypeError | Some rs \<Rightarrow>
      if sha256Hex P (Hex rs) \<noteq> p_refundHash htlcDetails then Inl RefundSecretMismatch else
      if now' < p_timeout htlcDetails then Inl (TimeoutNotReached (p_timeout htlcDetails - now')) else
      case createRefundScriptSig (Some rs) (Some scr) ch of
        Inl e \<Rightarrow> Inl e
      | Inr scriptSig \<Rightarrow>
          sweepTransaction L ch
            \<lparr> sw_utxo = u,
              sw_lockingScript = (if ch = BSV then Some scr else None),
              sw_scriptSig = scriptSig,
              sw_toAddress = toAddr,
              sw_locktime = p_timeout htlcDetails \<rparr>)"

section \<open>The swap coordinator\<close>

subsection \<open>The swap record and the store\<close>

text \<open>
  The swap object. Not kept: the three key pair objects next to the secrets, the constant
  fields \<^verbatim>\<open>version\<close> and \<^verbatim>\<open>quantumSafe\<close>, the ISO time stamps
  \<^verbatim>\<open>createdAt\<close>/\<^verbatim>\<open>updatedAt\<close> and the disassembly \<^verbatim>\<open>scriptASM\<close>. No
  operation reads them; \<^verbatim>\<open>updatedAt\<close> is written only where \<open>status\<close> is written
  to \<open>COUNTERPARTY_JOINED\<close>, a funded state, \<open>COMPLETED\<close> or \<open>REFUNDED\<close>.
  A \<^verbatim>\<open>null\<close> field is \<open>None\<close>.
\<close>

record initiator_info =
  swap_secret :: string
  swap_hash :: string
  refund_secret :: string
  refund_hash :: string
  claim_secret :: string
  claim_hash :: string

record responder_info =
  recipient_secret :: "string option"
  recipient_hash :: "string option"
  r_refund_secret :: "string option"
  r_refund_hash :: "string option"
  r_toAddress :: "string option"
  r_refundAddress :: "string option"

record htlc_info =
  hi_chain :: chain
  address :: "string option"
  lockingScript :: "string option"
  scriptHash :: "string option"
  hi_timeout :: int
  funded :: bool
  fundingTxid :: "string option"
  htlcData :: "string option"

datatype tx_type =
    initiator_funding | responder_funding | initiator_claim | responder_claim
  | initiator_refund | responder_refund

record tx_entry =
  tx_kind :: tx_type
  tx_chain :: chain
  tx_txid :: "string option"
  swapSecretRevealed :: bool

record swap =
  swapId :: string
  status :: SwapStatus
  fromChain :: chain
  toChain :: chain
  fromAmount :: jsnumber
  toAmount :: jsnumber
  toAddress :: string
  refundAddress :: string
  initiator :: initiator_info
  initiatorHTLC :: htlc_info
  responderHTLC :: htlc_info
  responder :: responder_info
  transactions :: "tx_entry list"

text \<open>The module-level \<^verbatim>\<open>const swaps = new Map()\<close>.\<close>

type_synonym swaps = "string \<rightharpoonup> swap"

text \<open>
  What an operation leaves behind: its return value or the error it throws, the store
  (the operations mutate the swap object in place, so a mutation made before a
  \<^verbatim>\<open>throw\<close> stays), and the balance queries and broadcasts it made, in order.
\<close>

datatype ledger_call = BalanceQuery chain | Broadcast chain string

record 'r outcome =
  res :: "error + 'r"
  store :: swaps
  trace :: "ledger_call list"

record config =
  initiatorTimeoutSeconds :: int
  responderTimeoutSeconds :: int

subsection \<open>Initiation\<close>

text \<open>
  ASCII part of \<^verbatim>\<open>toUpperCase\<close>. Chain names are compared after upper-casing; a name
  with a character outside ASCII never upper-cases to one of the three supported names
  within the code units below 256.
\<close>

definition toUpperChar :: "char \<Rightarrow> char" where
  "toUpperChar c = (let k = of_char c :: nat in
     if 97 \<le> k \<and> k \<le> 122 then char_of (k - 32) else c)"

definition toUpperCase :: "string \<Rightarrow> string" where
  "toUpperCase s = map toUpperChar s"

text \<open>
  \<^verbatim>\<open>SupportedChains.includes(name.toUpperCase())\<close> together with the value that is
  stored (\<^verbatim>\<open>name.toUpperCase()\<close>) and the adapter \<^verbatim>\<open>getChainModule\<close> selects.
\<close>

definition supportedChain :: "string \<Rightarrow> chain option" where
  "supportedChain name =
     (let u = toUpperCase name in
      if u = ''BSV'' then Some BSV
      else if u = ''BTC'' then Some BTC
      else if u = ''SOL'' then Some SOL
      else None)"

record initiate_params =
  ip_fromChain :: string
  ip_toChain :: string
  ip_fromAmount :: string
  ip_toAmount :: string
  ip_toAddress :: string
  ip_refundAddress :: string

record initiate_result =
  ir_swapId :: string
  ir_status :: SwapStatus
  ir_fromChain :: chain
  ir_toChain :: chain
  ir_fromAmount :: jsnumber
  ir_toAmount :: jsnumber
  ir_swap_hash :: string
  ir_initiatorTimeout :: int
  ir_responderTimeout :: int
  ir_swap_secret :: string
  ir_refund_secret :: string
  ir_claim_secret :: string

text \<open>
  \<^verbatim>\<open>initiateSwap(params)\<close>. Besides the store it reads the configuration, the entropy
  \<open>rnd\<close>, the string \<open>uuid\<close> that \<^verbatim>\<open>uuidv4()\<close> returns and the clock
  \<open>now = Math.floor(Date.now() / 1000)\<close>. The two amounts are given as the strings
  \<^verbatim>\<open>parseInt\<close> reads; the record stores \<^verbatim>\<open>parseInt(fromAmount)\<close> and
  \<^verbatim>\<open>parseInt(toAmount)\<close>. The returned object holds
  \<^verbatim>\<open>new Date(initiatorTimeout * 1000).toISOString()\<close> and the same for the
  responder's time-out; these are evaluated after \<^verbatim>\<open>swaps.set\<close>, so a
  \<^verbatim>\<open>RangeError\<close> there leaves the new record in the store.
\<close>

definition initiateSwap ::
    "prims \<Rightarrow> ledger \<Rightarrow> config \<Rightarrow> (nat \<Rightarrow> byte list) \<Rightarrow> string \<Rightarrow> int \<Rightarrow> swaps \<Rightarrow> initiate_params
      \<Rightarrow> initiate_result outcome" where
  "initiateSwap P L cfg rnd uuid now sw params =
     (case supportedChain (ip_fromChain params) of
        None \<Rightarrow> \<lparr> res = Inl InvalidFromChain, store = sw, trace = [] \<rparr>
      | Some fromC \<Rightarrow>
      case supportedChain (ip_toChain params) of
        None \<Rightarrow> \<lparr> res = Inl InvalidToChain, store = sw, trace = [] \<rparr>
      | Some toC \<Rightarrow>
      if toUpperCase (ip_fromChain params) = toUpperCase (ip_toChain params)
      then \<lparr> res = Inl ChainsMustDiffer, store = sw, trace = [] \<rparr>
      else let refundValidation = validateAddressOf L fromC (ip_refundAddress params) in
      if \<not> v_valid refundValidation
      then \<lparr> res = Inl (InvalidRefundAddress (v_error refundValidation)), store = sw, trace = [] \<rparr>
      else let toValidation = validateAddressOf L toC (ip_toAddress params) in
      if \<not> v_valid toValidation
      then \<lparr> res = Inl (InvalidDestinationAddress (v_error toValidation)), store = sw, trace = [] \<rparr>
      else
        let sid = ''qswap_'' @ take 16 (filter (\<lambda>c. c \<noteq> CHR ''-'') uuid);
            initiatorSecrets = generateInitiatorSecrets P rnd;
            initiatorTimeout = now + initiatorTimeoutSeconds cfg;
            responderTimeout = now + responderTimeoutSeconds cfg;
            s = \<lparr> swapId = sid,
                  status = INITIATED,
                  fromChain = fromC,
                  toChain = toC,
                  fromAmount = parseInt (ip_fromAmount params),
                  toAmount = parseInt (ip_toAmount params),
                  toAddress = ip_toAddress params,
                  refundAddress = ip_refundAddress params,
                  initiator =
                    \<lparr> swap_secret = is_swap_secret initiatorSecrets,
                      swap_hash = is_swap_hash initiatorSecrets,
                      refund_secret = is_refund_secret initiatorSecrets,
                      refund_hash = is_refund_hash initiatorSecrets,
                      claim_secret = is_claim_secret initiatorSecrets,
                      claim_hash = is_claim_hash initiatorSecrets \<rparr>,
                  initiatorHTLC =
                    \<lparr> hi_chain = fromC, address = None, lockingScript = None, scriptHash = None,
                      hi_timeout = initiatorTimeout, funded = False, fundingTxid = None,
                      htlcData = None \<rparr>,
                  responderHTLC =
                    \<lparr> hi_chain = toC, address = None, lockingScript = None, scriptHash = None,
                      hi_timeout = responderTimeout, funded = False, fundingTxid = None,
                      htlcData = None \<rparr>,
                  responder =
                    \<lparr> recipient_secret = None, recipient_hash = None, r_refund_secret = None,
                      r_refund_hash = None, r_toAddress = None, r_refundAddress = None \<rparr>,
                  transactions = [] \<rparr>
        in
        if dateThrows initiatorTimeout \<or> dateThrows responderTimeout
        then \<lparr> res = Inl InvalidTimeValue, store = sw(sid \<mapsto> s), trace = [] \<rparr>
        else
           \<lparr> res = Inr \<lparr> ir_swapId = sid,
                         ir_status = status s,
                         ir_fromChain = fromChain s,
                         ir_toChain = toChain s,
                         ir_fromAmount = fromAmount s,
                         ir_toAmount = toAmount s,
                         ir_swap_hash = is_swap_hash initiatorSecrets,
                         ir_initiatorTimeout = initiatorTimeout,
                         ir_responderTimeout = responderTimeout,
                         ir_swap_secret = is_swap_secret initiatorSecrets,
                         ir_refund_secret = is_refund_secret initiatorSecrets,
                         ir_claim_secret = is_claim_secret initiatorSecrets \<rparr>,
             store = sw(sid \<mapsto> s),
             trace = [] \<rparr>)"

subsection \<open>Joining\<close>

record join_params =
  jp_swapId :: string
  jp_toAddress :: string
  jp_refundAddress :: string

record join_result =
  jr_swapId :: string
  jr_status :: SwapStatus
  jr_initiatorHTLC :: htlc_info
  jr_responderHTLC :: htlc_info
  jr_recipient_secret :: string
  jr_refund_secret :: string

text \<open>
  The three-way branch of \<^verbatim>\<open>joinSwap\<close> that copies the result of
  \<^verbatim>\<open>createHTLC\<close> into an escrow of the swap object: bare script for BSV, P2SH for BTC,
  and for Solana the address and account data of \<^verbatim>\<open>sol.createHTLCInfo\<close>, which can
  throw.
\<close>

definition installHTLC ::
    "ledger \<Rightarrow> chain \<Rightarrow> htlc \<Rightarrow> sol_htlc_params \<Rightarrow> htlc_info \<Rightarrow> error + htlc_info" where
  "installHTLC L ch h sp hi =
     (if ch = BSV then
        Inr (hi\<lparr> lockingScript := h_lockingScript h, scriptHash := h_scriptHash h, address := None \<rparr>)
      else if ch = BTC then
        Inr (hi\<lparr> address := h_address h,
                 lockingScript := Some (redeemScript h),
                 scriptHash := Some (redeemScriptHash h) \<rparr>)
      else
        (case solHTLCInfo L sp of
           Inl e \<Rightarrow> Inl e
         | Inr (htlcAddress, dat) \<Rightarrow> Inr (hi\<lparr> address := Some htlcAddress, htlcData := Some dat \<rparr>)))"

text \<open>
  \<^verbatim>\<open>joinSwap(params)\<close>. The responder's secrets are written into the swap object
  before the scripts are built, so an error thrown later leaves them in the store. The
  returned object holds \<^verbatim>\<open>new Date(timeout * 1000).toISOString()\<close> for both
  escrows; a \<^verbatim>\<open>RangeError\<close> there is thrown after the status has become
  \<open>COUNTERPARTY_JOINED\<close>.
\<close>

definition joinSwap ::
    "prims \<Rightarrow> ledger \<Rightarrow> (nat \<Rightarrow> byte list) \<Rightarrow> int \<Rightarrow> swaps \<Rightarrow> join_params \<Rightarrow> join_result outcome" where
  "joinSwap P L rnd now sw params =
     (case sw (jp_swapId params) of
        None \<Rightarrow> \<lparr> res = Inl SwapNotFound, store = sw, trace = [] \<rparr>
      | Some s \<Rightarrow>
      if status s \<noteq> INITIATED
      then \<lparr> res = Inl (CannotJoinInStatus (status s)), store = sw, trace = [] \<rparr>
      else let toValidation = validateAddressOf L (fromChain s) (jp_toAddress params) in
      if \<not> v_valid toValidation
      then \<lparr> res = Inl (InvalidToAddress (v_error toValidation)), store = sw, trace = [] \<rparr>
      else let refundValidation = validateAddressOf L (toChain s) (jp_refundAddress params) in
      if \<not> v_valid refundValidation
      then \<lparr> res = Inl (InvalidRefundAddressJoin (v_error refundValidation)), store = sw, trace = [] \<rparr>
      else
        let responderSecrets = generateResponderSecrets P rnd;
            s1 = s\<lparr> responder :=
                      \<lparr> recipient_secret = Some (rs_recipient_secret responderSecrets),
                        recipient_hash = Some (rs_recipient_hash responderSecrets),
                        r_refund_secret = Some (rs_refund_secret responderSecrets),
                        r_refund_hash = Some (rs_refund_hash responderSecrets),
                        r_toAddress = Some (jp_toAddress params),
                        r_refundAddress = Some (jp_refundAddress params) \<rparr> \<rparr>
        in
        case createHTLC P \<lparr> swapHash = swap_hash (initiator s1),
                            recipientHash = rs_recipient_hash responderSecrets,
                            refundHash = refund_hash (initiator s1),
                            timeout = hi_timeout (initiatorHTLC s1) \<rparr> (fromChain s1) of
          Inl e \<Rightarrow> \<lparr> res = Inl e, store = sw(jp_swapId params \<mapsto> s1), trace = [] \<rparr>
        | Inr initiatorHTLCResult \<Rightarrow>
        case installHTLC L (fromChain s1) initiatorHTLCResult
               \<lparr> sol_swapHash = swap_hash (initiator s1),
                 sol_recipientHash = rs_recipient_hash responderSecrets,
                 sol_refundHash = refund_hash (initiator s1),
                 sol_initiator = refundAddress s1,
                 sol_recipient = jp_toAddress params,
                 sol_lamports = fromAmount s1,
                 sol_timeoutSeconds = hi_timeout (initiatorHTLC s1) - now \<rparr>
               (initiatorHTLC s1) of
          Inl e \<Rightarrow> \<lparr> res = Inl e, store = sw(jp_swapId params \<mapsto> s1), trace = [] \<rparr>
        | Inr ih \<Rightarrow>
        let s2 = s1\<lparr> initiatorHTLC := ih \<rparr> in
        case createHTLC P \<lparr> swapHash = swap_hash (initiator s2),
                            recipientHash = claim_hash (initiator s2),
                            refundHash = rs_refund_hash responderSecrets,
                            timeout = hi_timeout (responderHTLC s2) \<rparr> (toChain s2) of
          Inl e \<Rightarrow> \<lparr> res = Inl e, store = sw(jp_swapId params \<mapsto> s2), trace = [] \<rparr>
        | Inr responderHTLCResult \<Rightarrow>
        case installHTLC L (toChain s2) responderHTLCResult
               \<lparr> sol_swapHash = swap_hash (initiator s2),
                 sol_recipientHash = claim_hash (initiator s2),
                 sol_refundHash = rs_refund_hash responderSecrets,
                 sol_initiator = jp_refundAddress params,
                 sol_recipient = toAddress s2,
                 sol_lamports = toAmount s2,
                 sol_timeoutSeconds = hi_timeout (responderHTLC s2) - now \<rparr>
               (responderHTLC s2) of
          Inl e \<Rightarrow> \<lparr> res = Inl e, store = sw(jp_swapId params \<mapsto> s2), trace = [] \<rparr>
        | Inr rh \<Rightarrow>
        let s3 = s2\<lparr> responderHTLC := rh, status := COUNTERPARTY_JOINED \<rparr>
        in
        if dateThrows (hi_timeout (initiatorHTLC s3)) \<or> dateThrows (hi_timeout (responderHTLC s3))
        then \<lparr> res = Inl InvalidTimeValue, store = sw(jp_swapId params \<mapsto> s3), trace = [] \<rparr>
        else
           \<lparr> res = Inr \<lparr> jr_swapId = jp_swapId params,
                         jr_status = status s3,
                         jr_initiatorHTLC = initiatorHTLC s3,
                         jr_responderHTLC = responderHTLC s3,
                         jr_recipient_secret = rs_recipient_secret responderSecrets,
                         jr_refund_secret = rs_refund_secret responderSecrets \<rparr>,
             store = sw(jp_swapId params \<mapsto> s3),
             trace = [] \<rparr>)"

subsection \<open>Recording funding\<close>

record funding_params =
  fp_swapId :: string
  fp_txid :: "string option"

record funding_result =
  fr_swapId :: string
  fr_status :: SwapStatus
  fr_initiatorFunded :: bool
  fr_responderFunded :: bool

text \<open>The balance query of the funding operations, by chain.\<close>

definition escrowBalance :: "ledger \<Rightarrow> chain \<Rightarrow> htlc_info \<Rightarrow> error + balance" where
  "escrowBalance L ch hi =
     (if ch = BSV then getHTLCBalance L (scriptHash hi)
      else if ch = BTC then btcGetBalance L (address hi)
      else solGetBalance L (address hi))"

text \<open>
  \<^verbatim>\<open>recordInitiatorFunding(params)\<close>. In
  \<^verbatim>\<open>balance.satoshis < swap.fromAmount || balance.lamports < swap.fromAmount\<close> a
  comparison with \<^verbatim>\<open>undefined\<close> or \<^verbatim>\<open>NaN\<close> is false.
\<close>

definition recordInitiatorFunding :: "ledger \<Rightarrow> swaps \<Rightarrow> funding_params \<Rightarrow> funding_result outcome" where
  "recordInitiatorFunding L sw params =
     (case sw (fp_swapId params) of
        None \<Rightarrow> \<lparr> res = Inl SwapNotFound, store = sw, trace = [] \<rparr>
      | Some s \<Rightarrow>
      if status s \<noteq> COUNTERPARTY_JOINED \<and> status s \<noteq> RESPONDER_FUNDED
      then \<lparr> res = Inl (CannotRecordFundingInStatus (status s)), store = sw, trace = [] \<rparr>
      else
        case escrowBalance L (fromChain s) (initiatorHTLC s) of
          Inl e \<Rightarrow> \<lparr> res = Inl e, store = sw, trace = [BalanceQuery (fromChain s)] \<rparr>
        | Inr bal \<Rightarrow>
        if (case b_satoshis bal of Some v \<Rightarrow> lessNumber v (fromAmount s) | None \<Rightarrow> False) \<or>
           (case b_lamports bal of Some v \<Rightarrow> lessNumber v (fromAmount s) | None \<Rightarrow> False)
        then \<lparr> res = Inl InsufficientFunding, store = sw, trace = [BalanceQuery (fromChain s)] \<rparr>
        else
          let s1 = s\<lparr> initiatorHTLC := (initiatorHTLC s)\<lparr> funded := True, fundingTxid := fp_txid params \<rparr> \<rparr>;
              s2 = s1\<lparr> status := (if funded (responderHTLC s1) then FULLY_FUNDED else INITIATOR_FUNDED) \<rparr>;
              s3 = s2\<lparr> transactions := transactions s2 @
                        [\<lparr> tx_kind = initiator_funding, tx_chain = fromChain s2,
                           tx_txid = fp_txid params, swapSecretRevealed = False \<rparr>] \<rparr>
          in \<lparr> res = Inr \<lparr> fr_swapId = fp_swapId params, fr_status = status s3,
                           fr_initiatorFunded = True,
                           fr_responderFunded = funded (responderHTLC s3) \<rparr>,
               store = sw(fp_swapId params \<mapsto> s3),
               trace = [BalanceQuery (fromChain s)] \<rparr>)"

text \<open>
  \<^verbatim>\<open>recordResponderFunding(params)\<close>. The observed value is
  \<^verbatim>\<open>balance.satoshis || balance.lamports || 0\<close>: the first of the two that is neither
  \<^verbatim>\<open>undefined\<close> nor \<open>0\<close>.
\<close>

definition observedAmount :: "balance \<Rightarrow> int" where
  "observedAmount bal =
     (case b_satoshis bal of
        Some v \<Rightarrow> if v \<noteq> 0 then v
                  else (case b_lamports bal of Some l \<Rightarrow> l | None \<Rightarrow> 0)
      | None \<Rightarrow> (case b_lamports bal of Some l \<Rightarrow> l | None \<Rightarrow> 0))"

definition recordResponderFunding :: "ledger \<Rightarrow> swaps \<Rightarrow> funding_params \<Rightarrow> funding_result outcome" where
  "recordResponderFunding L sw params =
     (case sw (fp_swapId params) of
        None \<Rightarrow> \<lparr> res = Inl SwapNotFound, store = sw, trace = [] \<rparr>
      | Some s \<Rightarrow>
      if status s \<noteq> COUNTERPARTY_JOINED \<and> status s \<noteq> INITIATOR_FUNDED
      then \<lparr> res = Inl (CannotRecordFundingInStatus (status s)), store = sw, trace = [] \<rparr>
      else
        case escrowBalance L (toChain s) (responderHTLC s) of
          Inl e \<Rightarrow> \<lparr> res = Inl e, store = sw, trace = [BalanceQuery (toChain s)] \<rparr>
        | Inr bal \<Rightarrow>
        if lessNumber (observedAmount bal) (toAmount s)
        then \<lparr> res = Inl InsufficientFunding, store = sw, trace = [BalanceQuery (toChain s)] \<rparr>
        else
          let s1 = s\<lparr> responderHTLC := (responderHTLC s)\<lparr> funded := True, fundingTxid := fp_txid params \<rparr> \<rparr>;
              s2 = s1\<lparr> status := (if funded (initiatorHTLC s1) then FULLY_FUNDED else RESPONDER_FUNDED) \<rparr>;
              s3 = s2\<lparr> transactions := transactions s2 @
                        [\<lparr> tx_kind = responder_funding, tx_chain = toChain s2,
                           tx_txid = fp_txid params, swapSecretRevealed = False \<rparr>] \<rparr>
          in \<lparr> res = Inr \<lparr> fr_swapId = fp_swapId params, fr_status = status s3,
                           fr_initiatorFunded = funded (initiatorHTLC s3),
                           fr_responderFunded = True \<rparr>,
               store = sw(fp_swapId params \<mapsto> s3),
               trace = [BalanceQuery (toChain s)] \<rparr>)"

subsection \<open>Claims and refunds\<close>

record spend_params =
  sp_swapId :: string
  sp_toAddress :: "string option"

record responder_claim_params =
  rc_swapId :: string
  rc_swapSecret :: string
  rc_toAddress :: "string option"

record spend_result =
  sr_swapId :: string
  sr_status :: SwapStatus
  sr_txid :: string
  sr_chain :: chain
  sr_revealedSecret :: "string option"

text \<open>
  The query for an escrow's unspent outputs that opens each claim and refund:
  \<^verbatim>\<open>bsv.getHTLCBalance(scriptHash)\<close> for BSV, \<^verbatim>\<open>btc.getBalance(address)\<close> for BTC,
  and no query for Solana, where \<^verbatim>\<open>utxos\<close> stays \<^verbatim>\<open>undefined\<close>.
\<close>

definition escrowUTXOs :: "ledger \<Rightarrow> chain \<Rightarrow> htlc_info \<Rightarrow> (error + utxo list option) \<times> ledger_call list" where
  "escrowUTXOs L ch hi =
     (if ch = BSV then
        (case getHTLCBalance L (scriptHash hi) of Inl e \<Rightarrow> Inl e | Inr bal \<Rightarrow> Inr (b_utxos bal),
         [BalanceQuery BSV])
      else if ch = BTC then
        (case btcGetBalance L (address hi) of Inl e \<Rightarrow> Inl e | Inr bal \<Rightarrow> Inr (b_utxos bal),
         [BalanceQuery BTC])
      else (Inr None, []))"

text \<open>\<^verbatim>\<open>a || b\<close> on strings: \<open>a\<close> unless it is \<^verbatim>\<open>undefined\<close> or empty.\<close>

definition orElse :: "string option \<Rightarrow> string option \<Rightarrow> string option" where
  "orElse a b = (case a of Some x \<Rightarrow> if x \<noteq> [] then Some x else b | None \<Rightarrow> b)"

text \<open>
  \<^verbatim>\<open>initiatorClaim(params)\<close>. The assignment
  \<^verbatim>\<open>swap.status = SwapStatus.CLAIMING\<close> comes right after the status check, before the
  balance query.
\<close>

definition initiatorClaim :: "prims \<Rightarrow> ledger \<Rightarrow> swaps \<Rightarrow> spend_params \<Rightarrow> spend_result outcome" where
  "initiatorClaim P L sw params =
     (case sw (sp_swapId params) of
        None \<Rightarrow> \<lparr> res = Inl SwapNotFound, store = sw, trace = [] \<rparr>
      | Some s \<Rightarrow>
      if status s \<noteq> FULLY_FUNDED
      then \<lparr> res = Inl (CannotClaimInStatus (status s)), store = sw, trace = [] \<rparr>
      else
        let s1 = s\<lparr> status := CLAIMING \<rparr>;
            sw1 = sw(sp_swapId params \<mapsto> s1)
        in
        case escrowUTXOs L (toChain s1) (responderHTLC s1) of
          (Inl e, tr) \<Rightarrow> \<lparr> res = Inl e, store = sw1, trace = tr \<rparr>
        | (Inr utxos, tr) \<Rightarrow>
        (case utxos of
           None \<Rightarrow> \<lparr> res = Inl NoFundsToClaimResponderHTLC, store = sw1, trace = tr \<rparr>
         | Some [] \<Rightarrow> \<lparr> res = Inl NoFundsToClaimResponderHTLC, store = sw1, trace = tr \<rparr>
         | Some (u # _) \<Rightarrow>
           let destination = orElse (sp_toAddress params) (Some (toAddress s1)) in
           case buildClaimTransaction P L (toChain s1) u
                  (Some (swap_secret (initiator s1))) (Some (claim_secret (initiator s1)))
                  (lockingScript (responderHTLC s1)) destination of
             Inl e \<Rightarrow> \<lparr> res = Inl e, store = sw1, trace = tr \<rparr>
           | Inr txHex \<Rightarrow>
           case broadcast L (toChain s1) txHex of
             Inl e \<Rightarrow> \<lparr> res = Inl e, store = sw1, trace = tr @ [Broadcast (toChain s1) txHex] \<rparr>
           | Inr txid \<Rightarrow>
             let s2 = s1\<lparr> status := COMPLETED \<rparr>;
                 s3 = s2\<lparr> transactions := transactions s2 @
                           [\<lparr> tx_kind = initiator_claim, tx_chain = toChain s2,
                              tx_txid = Some txid, swapSecretRevealed = True \<rparr>] \<rparr>
             in \<lparr> res = Inr \<lparr> sr_swapId = sp_swapId params, sr_status = status s3,
                              sr_txid = txid, sr_chain = toChain s3,
                              sr_revealedSecret = Some (swap_secret (initiator s3)) \<rparr>,
                  store = sw(sp_swapId params \<mapsto> s3),
                  trace = tr @ [Broadcast (toChain s1) txHex] \<rparr>))"

text \<open>
  \<^verbatim>\<open>responderClaim(params)\<close>. There is no status check; the supplied swap secret is
  compared first.
\<close>

definition responderClaim ::
    "prims \<Rightarrow> ledger \<Rightarrow> swaps \<Rightarrow> responder_claim_params \<Rightarrow> spend_result outcome" where
  "responderClaim P L sw params =
     (case sw (rc_swapId params) of
        None \<Rightarrow> \<lparr> res = Inl SwapNotFound, store = sw, trace = [] \<rparr>
      | Some s \<Rightarrow>
      if sha256Hex P (Hex (rc_swapSecret params)) \<noteq> swap_hash (initiator s)
      then \<lparr> res = Inl InvalidSwapSecret, store = sw, trace = [] \<rparr>
      else
        case escrowUTXOs L (fromChain s) (initiatorHTLC s) of
          (Inl e, tr) \<Rightarrow> \<lparr> res = Inl e, store = sw, trace = tr \<rparr>
        | (Inr utxos, tr) \<Rightarrow>
        (case utxos of
           None \<Rightarrow> \<lparr> res = Inl NoFundsToClaimInitiatorHTLC, store = sw, trace = tr \<rparr>
         | Some [] \<Rightarrow> \<lparr> res = Inl NoFundsToClaimInitiatorHTLC, store = sw, trace = tr \<rparr>
         | Some (u # _) \<Rightarrow>
           let destination = orElse (rc_toAddress params) (r_toAddress (responder s)) in
           case buildClaimTransaction P L (fromChain s) u
                  (Some (rc_swapSecret params)) (recipient_secret (responder s))
                  (lockingScript (initiatorHTLC s)) destination of
             Inl e \<Rightarrow> \<lparr> res = Inl e, store = sw, trace = tr \<rparr>
           | Inr txHex \<Rightarrow>
           case broadcast L (fromChain s) txHex of
             Inl e \<Rightarrow> \<lparr> res = Inl e, store = sw, trace = tr @ [Broadcast (fromChain s) txHex] \<rparr>
           | Inr txid \<Rightarrow>
             let s2 = s\<lparr> status := COMPLETED \<rparr>;
                 s3 = s2\<lparr> transactions := transactions s2 @
                           [\<lparr> tx_kind = responder_claim, tx_chain = fromChain s2,
                              tx_txid = Some txid, swapSecretRevealed = False \<rparr>] \<rparr>
             in \<lparr> res = Inr \<lparr> sr_swapId = rc_swapId params, sr_status = status s3,
                              sr_txid = txid, sr_chain = fromChain s3,
                              sr_revealedSecret = None \<rparr>,
                  store = sw(rc_swapId params \<mapsto> s3),
                  trace = tr @ [Broadcast (fromChain s) txHex] \<rparr>))"

text \<open>
  \<^verbatim>\<open>initiatorRefund(params)\<close> and \<^verbatim>\<open>responderRefund(params)\<close>. \<open>now\<close> is the
  coordinator's \<^verbatim>\<open>Math.floor(Date.now() / 1000)\<close>, \<open>now'\<close> the later reading inside
  the adapter's \<^verbatim>\<open>buildRefundTransaction\<close>.
\<close>

definition initiatorRefund ::
    "prims \<Rightarrow> ledger \<Rightarrow> int \<Rightarrow> int \<Rightarrow> swaps \<Rightarrow> spend_params \<Rightarrow> spend_result outcome" where
  "initiatorRefund P L now now' sw params =
     (case sw (sp_swapId params) of
        None \<Rightarrow> \<lparr> res = Inl SwapNotFound, store = sw, trace = [] \<rparr>
      | Some s \<Rightarrow>
      if now < hi_timeout (initiatorHTLC s)
      then (let remaining = hi_timeout (initiatorHTLC s) - now
            in \<lparr> res = Inl (TimeoutNotReached remaining), store = sw, trace = [] \<rparr>)
      else
        case escrowUTXOs L (fromChain s) (initiatorHTLC s) of
          (Inl e, tr) \<Rightarrow> \<lparr> res = Inl e, store = sw, trace = tr \<rparr>
        | (Inr utxos, tr) \<Rightarrow>
        (case utxos of
           None \<Rightarrow> \<lparr> res = Inl NoFundsToRefund, store = sw, trace = tr \<rparr>
         | Some [] \<Rightarrow> \<lparr> res = Inl NoFundsToRefund, store = sw, trace = tr \<rparr>
         | Some (u # _) \<Rightarrow>
           let destination = orElse (sp_toAddress params) (Some (refundAddress s)) in
           case buildRefundTransaction P L now' (fromChain s) u
                  (Some (refund_secret (initiator s)))
                  (lockingScript (initiatorHTLC s)) destination of
             Inl e \<Rightarrow> \<lparr> res = Inl e, store = sw, trace = tr \<rparr>
           | Inr txHex \<Rightarrow>
           case broadcast L (fromChain s) txHex of
             Inl e \<Rightarrow> \<lparr> res = Inl e, store = sw, trace = tr @ [Broadcast (fromChain s) txHex] \<rparr>
           | Inr txid \<Rightarrow>
             let s2 = s\<lparr> status := REFUNDED \<rparr>;
                 s3 = s2\<lparr> transactions := transactions s2 @
                           [\<lparr> tx_kind = initiator_refund, tx_chain = fromChain s2,
                              tx_txid = Some txid, swapSecretRevealed = False \<rparr>] \<rparr>
             in \<lparr> res = Inr \<lparr> sr_swapId = sp_swapId params, sr_status = status s3,
                              sr_txid = txid, sr_chain = fromChain s3,
                              sr_revealedSecret = None \<rparr>,
                  store = sw(sp_swapId params \<mapsto> s3),
                  trace = tr @ [Broadcast (fromChain s) txHex] \<rparr>))"

definition responderRefund ::
    "prims \<Rightarrow> ledger \<Rightarrow> int \<Rightarrow> int \<Rightarrow> swaps \<Rightarrow> spend_params \<Rightarrow> spend_result outcome" where
  "responderRefund P L now now' sw params =
     (case sw (sp_swapId params) of
        None \<Rightarrow> \<lparr> res = Inl SwapNotFound, store = sw, trace = [] \<rparr>
      | Some s \<Rightarrow>
      if now < hi_timeout (responderHTLC s)
      then (let remaining = hi_timeout (responderHTLC s) - now
            in \<lparr> res = Inl (TimeoutNotReached remaining), store = sw, trace = [] \<rparr>)
      else
        case escrowUTXOs L (toChain s) (responderHTLC s) of
          (Inl e, tr) \<Rightarrow> \<lparr> res = Inl e, store = sw, trace = tr \<rparr>
        | (Inr utxos, tr) \<Rightarrow>
        (case utxos of
           None \<Rightarrow> \<lparr> res = Inl NoFundsToRefund, store = sw, trace = tr \<rparr>
         | Some [] \<Rightarrow> \<lparr> res = Inl NoFundsToRefund, store = sw, trace = tr \<rparr>
         | Some (u # _) \<Rightarrow>
           let destination = orElse (sp_toAddress params) (r_refundAddress (responder s)) in
           case buildRefundTransaction P L now' (toChain s) u
                  (r_refund_secret (responder s))
                  (lockingScript (responderHTLC s)) destination of
             Inl e \<Rightarrow> \<lparr> res = Inl e, store = sw, trace = tr \<rparr>
           | Inr txHex \<Rightarrow>
           case broadcast L (toChain s) txHex of
             Inl e \<Rightarrow> \<lparr> res = Inl e, store = sw, trace = tr @ [Broadcast (toChain s) txHex] \<rparr>
           | Inr txid \<Rightarrow>
             let s2 = s\<lparr> status := REFUNDED \<rparr>;
                 s3 = s2\<lparr> transactions := transactions s2 @
                           [\<lparr> tx_kind = responder_refund, tx_chain = toChain s2,
                              tx_txid = Some txid, swapSecretRevealed = False \<rparr>] \<rparr>
             in \<lparr> res = Inr \<lparr> sr_swapId = sp_swapId params, sr_status = status s3,
                              sr_txid = txid, sr_chain = toChain s3,
                              sr_revealedSecret = None \<rparr>,
                  store = sw(sp_swapId params \<mapsto> s3),
                  trace = tr @ [Broadcast (toChain s) txHex] \<rparr>))"

section \<open>Stand-ins for the external parts\<close>

text \<open>
  Concrete instances of the parameters, used to run the model on explicit inputs. The
  stand-in digest repeats the sum of the input bytes; it has the output sizes of the real
  functions (32 and 20 bytes).
\<close>

definition testPrims :: prims where
  "testPrims =
     \<lparr> sha256Raw = (\<lambda>bs. replicate 32 (foldr (+) bs 0)),
       ripemd160Raw = (\<lambda>bs. replicate 20 (foldr (+) bs 0)),
       bs58checkEncode = bytesToHex \<rparr>"

text \<open>Script parameters with three 64-character hashes; the timeout is set per use.\<close>

definition testParams :: "int \<Rightarrow> htlc_params" where
  "testParams t =
     \<lparr> swapHash = replicate 64 CHR ''a'',
       recipientHash = replicate 64 CHR ''b'',
       refundHash = replicate 64 CHR ''c'',
       timeout = t \<rparr>"

text \<open>The script that \<^verbatim>\<open>createHTLCScript\<close> builds for \<open>testParams 1700000000\<close>.\<close>

definition testScript :: string where
  "testScript = ''63a820'' @ replicate 64 CHR ''a'' @ ''88a820'' @ replicate 64 CHR ''b''
     @ ''87670400f15365b175a820'' @ replicate 64 CHR ''c'' @ ''8768''"

text \<open>An entropy source: draw \<open>i\<close> is 32 bytes of value \<open>i\<close>.\<close>

definition testEntropy :: "nat \<Rightarrow> byte list" where
  "testEntropy i = replicate 32 (of_nat i)"

text \<open>
  A ledger on which every address except \<^verbatim>\<open>bad\<close> is valid, every escrow holds one
  unspent output, serialisation succeeds and the broadcast returns a transaction id; and
  the same ledger with the BSV explorer unreachable.
\<close>

definition testLedger :: ledger where
  "testLedger =
     \<lparr> validateAddressOf = (\<lambda>c a. \<lparr> v_valid = (a \<noteq> ''bad''), v_error = ''Invalid checksum'' \<rparr>),
       bsvUTXOsByScriptHash = (\<lambda>h. Inr [\<lparr> u_txid = ''f0'', u_vout = 0, u_satoshis = 95000 \<rparr>]),
       btcUTXOs = (\<lambda>a. Inr [\<lparr> u_txid = ''f1'', u_vout = 1, u_satoshis = 100000 \<rparr>]),
       solLamports = (\<lambda>a. Inr 0),
       sweepTransaction = (\<lambda>c p. Inr ''01000000''),
       broadcast = (\<lambda>c tx. Inr ''txid-1''),
       solHTLCInfo = (\<lambda>p. Inl (LedgerFailure ''rpc unreachable'')) \<rparr>"

definition downLedger :: ledger where
  "downLedger =
     testLedger\<lparr> bsvUTXOsByScriptHash :=
                   (\<lambda>h. Inl (LedgerFailure ''Failed to fetch HTLC balance: timeout'')) \<rparr>"

definition testConfig :: config where
  "testConfig = \<lparr> initiatorTimeoutSeconds = 86400, responderTimeoutSeconds = 43200 \<rparr>"

text \<open>
  A swap from BTC to BSV in the state \<open>FULLY_FUNDED\<close>, consistent under the stand-in
  digest: each secret is 32 equal bytes, each hash is the digest of its secret, and the two
  escrow scripts are the ones \<^verbatim>\<open>joinSwap\<close> derives (time-outs \<open>1700086400\<close> and
  \<open>1700043200\<close>).
\<close>

definition testSwap :: swap where
  "testSwap =
     \<lparr> swapId = ''qswap_test'',
       status = FULLY_FUNDED,
       fromChain = BTC,
       toChain = BSV,
       fromAmount = Finite 100000,
       toAmount = Finite 95000,
       toAddress = ''1InitiatorOnBSV'',
       refundAddress = ''1InitiatorOnBTC'',
       initiator =
         \<lparr> swap_secret = replicate 64 CHR ''1'',
           swap_hash = concat (replicate 32 ''20''),
           refund_secret = replicate 64 CHR ''3'',
           refund_hash = concat (replicate 32 ''60''),
           claim_secret = replicate 64 CHR ''2'',
           claim_hash = concat (replicate 32 ''40'') \<rparr>,
       initiatorHTLC =
         \<lparr> hi_chain = BTC,
           address = Some ''3EscrowOnBTC'',
           lockingScript = Some (scriptTemplate (concat (replicate 32 ''20''))
                                   (concat (replicate 32 ''80'')) (concat (replicate 32 ''60''))
                                   4 ''80425565''),
           scriptHash = Some (replicate 40 CHR ''0''),
           hi_timeout = 1700086400,
           funded = True,
           fundingTxid = Some ''f1'',
           htlcData = None \<rparr>,
       responderHTLC =
         \<lparr> hi_chain = BSV,
           address = None,
           lockingScript = Some (scriptTemplate (concat (replicate 32 ''20''))
                                   (concat (replicate 32 ''40'')) (concat (replicate 32 ''a0''))
                                   4 ''c0995465''),
           scriptHash = Some (replicate 64 CHR ''0''),
           hi_timeout = 1700043200,
           funded = True,
           fundingTxid = Some ''f0'',
           htlcData = None \<rparr>,
       responder =
         \<lparr> recipient_secret = Some (replicate 64 CHR ''4''),
           recipient_hash = Some (concat (replicate 32 ''80'')),
           r_refund_secret = Some (replicate 64 CHR ''5''),
           r_refund_hash = Some (concat (replicate 32 ''a0'')),
           r_toAddress = Some ''1ResponderOnBTC'',
           r_refundAddress = Some ''1ResponderOnBSV'' \<rparr>,
       transactions =
         [\<lparr> tx_kind = initiator_funding, tx_chain = BTC, tx_txid = Some ''f1'',
            swapSecretRevealed = False \<rparr>,
          \<lparr> tx_kind = responder_funding, tx_chain = BSV, tx_txid = Some ''f0'',
            swapSecretRevealed = False \<rparr>] \<rparr>"

definition testStore :: swaps where
  "testStore = [''qswap_test'' \<mapsto> testSwap]"

definition testSpend :: spend_params where
  "testSpend = \<lparr> sp_swapId = ''qswap_test'', sp_toAddress = None \<rparr>"

text \<open>An initiation request with a zero and a negative amount.\<close>

definition testInitiate :: initiate_params where
  "testInitiate =
     \<lparr> ip_fromChain = ''btc'', ip_toChain = ''BSV'', ip_fromAmount = ''0'', ip_toAmount = ''-5'',
       ip_toAddress = ''1InitiatorOnBSV'', ip_refundAddress = ''1InitiatorOnBTC'' \<rparr>"

text \<open>
  The same swap right after \<^verbatim>\<open>initiateSwap\<close>: status \<open>INITIATED\<close>, no responder, no
  scripts, nothing funded; and a join request for it.
\<close>

definition testInitiated :: swap where
  "testInitiated =
     testSwap\<lparr> status := INITIATED,
               initiatorHTLC :=
                 \<lparr> hi_chain = BTC, address = None, lockingScript = None, scriptHash = None,
                   hi_timeout = 1700086400, funded = False, fundingTxid = None, htlcData = None \<rparr>,
               responderHTLC :=
                 \<lparr> hi_chain = BSV, address = None, lockingScript = None, scriptHash = None,
                   hi_timeout = 1700043200, funded = False, fundingTxid = None, htlcData = None \<rparr>,
               responder :=
                 \<lparr> recipient_secret = None, recipient_hash = None, r_refund_secret = None,
                   r_refund_hash = None, r_toAddress = None, r_refundAddress = None \<rparr>,
               transactions := [] \<rparr>"

definition initiatedStore :: swaps where
  "initiatedStore = [''qswap_test'' \<mapsto> testInitiated]"

definition testJoin :: join_params where
  "testJoin =
     \<lparr> jp_swapId = ''qswap_test'', jp_toAddress = ''1ResponderOnBTC'',
       jp_refundAddress = ''1ResponderOnBSV'' \<rparr>"

text \<open>
  The \<open>INITIATED\<close> test swap with an initiator time-out one second beyond the range of
  \<^verbatim>\<open>Date\<close>.
\<close>

definition lateInitiated :: swap where
  "lateInitiated =
     testInitiated\<lparr> initiatorHTLC :=
                       \<lparr> hi_chain = BTC, address = None, lockingScript = None, scriptHash = None,
                         hi_timeout = 8640000000001, funded = False, fundingTxid = None,
                         htlcData = None \<rparr> \<rparr>"

definition lateStore :: swaps where
  "lateStore = [''qswap_test'' \<mapsto> lateInitiated]"

text \<open>A responder's claim that supplies a wrong swap secret.\<close>

definition wrongResponderClaim :: responder_claim_params where
  "wrongResponderClaim =
     \<lparr> rc_swapId = ''qswap_test'', rc_swapSecret = replicate 64 CHR ''0'', rc_toAddress = None \<rparr>"

section \<open>The stores the coordinator can reach\<close>

text \<open>
  The map \<^verbatim>\<open>swaps\<close> is private to the coordinator module: it is created empty, and
  the only code that writes to it or to a record in it is the eight lifecycle operations
  (\<^verbatim>\<open>getSwapStatus\<close> and \<^verbatim>\<open>listSwaps\<close> only read). A store is reachable when it
  results from a sequence of these operations, each with any arguments, ledger answers,
  entropy and clock; the hash primitives are the same throughout.
\<close>

inductive reachable :: "prims \<Rightarrow> swaps \<Rightarrow> bool" for P :: prims where
  reachable_empty: "reachable P Map.empty"
| reachable_initiateSwap:
    "reachable P sw \<Longrightarrow> reachable P (store (initiateSwap P L cfg rnd uuid now sw ip))"
| reachable_joinSwap:
    "reachable P sw \<Longrightarrow> reachable P (store (joinSwap P L rnd now sw jp))"
| reachable_recordInitiatorFunding:
    "reachable P sw \<Longrightarrow> reachable P (store (recordInitiatorFunding L sw fp))"
| reachable_recordResponderFunding:
    "reachable P sw \<Longrightarrow> reachable P (store (recordResponderFunding L sw fp))"
| reachable_initiatorClaim:
    "reachable P sw \<Longrightarrow> reachable P (store (initiatorClaim P L sw sp))"
| reachable_responderClaim:
    "reachable P sw \<Longrightarrow> reachable P (store (responderClaim P L sw rp))"
| reachable_initiatorRefund:
    "reachable P sw \<Longrightarrow> reachable P (store (initiatorRefund P L now now' sw sp))"
| reachable_responderRefund:
    "reachable P sw \<Longrightarrow> reachable P (store (responderRefund P L now now' sw sp))"

text \<open>
  The property of a swap record that the operations maintain: the initiator's stored swap
  and claim secrets hash to the stored swap and claim hashes, and a locking script of the
  responder's escrow, once set, is a script that \<^verbatim>\<open>createHTLCScript\<close> built from
  these two hashes.
\<close>

definition secretsConsistent :: "prims \<Rightarrow> swap \<Rightarrow> bool" where
  "secretsConsistent P s \<longleftrightarrow>
     sha256Hex P (Hex (swap_secret (initiator s))) = swap_hash (initiator s) \<and>
     sha256Hex P (Hex (claim_secret (initiator s))) = claim_hash (initiator s) \<and>
     (\<forall>scr. lockingScript (responderHTLC s) = Some scr \<longrightarrow>
        (\<exists>fH t rh. createHTLCScript P \<lparr> swapHash = swap_hash (initiator s),
                                       recipientHash = claim_hash (initiator s),
                                       refundHash = fH, timeout = t \<rparr> = Inr rh \<and>
                   scr = redeemScript rh))"

text \<open>
  A two-step history for the examples: \<open>testInitiate\<close> on the empty store, then a join
  of the new swap with the next buffers of entropy.
\<close>

definition historyInitiated :: swaps where
  "historyInitiated =
     store (initiateSwap testPrims testLedger testConfig testEntropy
              ''01234567-89ab-cdef-0123-456789abcdef'' 1700000000 Map.empty testInitiate)"

definition historyJoin :: join_params where
  "historyJoin =
     \<lparr> jp_swapId = ''qswap_0123456789abcdef'', jp_toAddress = ''1ResponderOnBTC'',
       jp_refundAddress = ''1ResponderOnBSV'' \<rparr>"

definition historyJoined :: swaps where
  "historyJoined =
     store (joinSwap testPrims testLedger (\<lambda>i. testEntropy (96 + i)) 1700000100
              historyInitiated historyJoin)"

section \<open>Properties of the hex codec and the number encoding\<close>

lemma hexVal_hexDigit: "d < 16 \<Longrightarrow> hexVal (hexDigit d) = Some d"
proof -
  assume "d < 16"
  then have "d \<in> set [0..<16]" by simp
  then show ?thesis unfolding hexDigit_def hexVal_def
    by (simp add: upt_rec) (elim disjE; simp)
qed

lemma hexDigit_not_x: "d < 16 \<Longrightarrow> hexDigit d \<noteq> CHR ''x'' \<and> hexDigit d \<noteq> CHR ''X''"
proof -
  assume "d < 16"
  then have "d \<in> set [0..<16]" by simp
  then show ?thesis unfolding hexDigit_def
    by (simp add: upt_rec) (elim disjE; simp)
qed

lemma hexToBytes_byteToHex: "hexToBytes (byteToHex b @ rest) = b # hexToBytes rest"
proof -
  have "unat b div 16 < 16" using unsigned_less[of b, where ?'a = nat] by simp
  moreover have "unat b mod 16 < 16" by simp
  moreover have "(of_nat (16 * (unat b div 16) + unat b mod 16) :: byte) = b" by simp
  ultimately show ?thesis by (simp add: byteToHex_def hexVal_hexDigit)
qed

lemma hexToBytes_bytesToHex: "hexToBytes (bytesToHex bs) = bs"
  by (induction bs) (simp_all add: bytesToHex_def hexToBytes_byteToHex)

lemma length_bytesToHex: "length (bytesToHex bs) = 2 * length bs"
  by (induction bs) (simp_all add: bytesToHex_def byteToHex_def)

lemma bytesToHex_Nil_iff: "bytesToHex bs = [] \<longleftrightarrow> bs = []"
  by (cases bs) (simp_all add: bytesToHex_def byteToHex_def)

lemma and_255_eq_mod: "(n::int) AND 255 = n mod 256"
  using take_bit_eq_mask[of 8 n] by (simp add: take_bit_eq_mod mask_eq_exp_minus_1)

lemma encodeLoop_minimalLE:
  "length buf = 8 \<Longrightarrow> i + length (minimalLE n) \<le> 8 \<Longrightarrow>
   encodeLoop buf i (int n) =
     (take i buf @ minimalLE n @ drop (i + length (minimalLE n)) buf, i + length (minimalLE n))"
proof (induction n arbitrary: buf i rule: less_induct)
  case (less n)
  show ?case
  proof (cases "n = 0")
    case True
    then show ?thesis by (simp add: encodeLoop.simps minimalLE.simps)
  next
    case False
    then have ml: "minimalLE n = of_nat (n mod 256) # minimalLE (n div 256)"
      by (simp add: minimalLE.simps)
    have lt: "n div 256 < n" using False by simp
    have i8: "i < 8" using less.prems ml by simp
    let ?b = "bufSet buf i (word_of_int (int n AND 255))"
    have lb: "length ?b = 8" using less.prems by (simp add: bufSet_def)
    have bnd: "Suc i + length (minimalLE (n div 256)) \<le> 8" using less.prems ml by simp
    have step: "encodeLoop buf i (int n) = encodeLoop ?b (Suc i) (int (n div 256))"
      using False by (subst encodeLoop.simps) (simp add: zdiv_int)
    have w: "(word_of_int (int n AND 255) :: byte) = of_nat (n mod 256)"
    proof -
      have "int n mod 256 = int (n mod 256)" by (simp add: zmod_int)
      then show ?thesis by (simp add: and_255_eq_mod)
    qed
    have tk: "take (Suc i) ?b = take i buf @ [of_nat (n mod 256)]"
      using i8 less.prems(1) by (simp add: bufSet_def w take_Suc_conv_app_nth)
    have dr: "drop (Suc i + length (minimalLE (n div 256))) ?b =
              drop (Suc i + length (minimalLE (n div 256))) buf"
      using i8 less.prems(1) by (simp add: bufSet_def)
    show ?thesis
      unfolding step less.IH[OF lt lb bnd] tk dr by (simp add: ml)
  qed
qed

lemma length_minimalLE: "n < 256 ^ k \<Longrightarrow> length (minimalLE n) \<le> k"
proof (induction k arbitrary: n)
  case 0
  then show ?case by (simp add: minimalLE.simps)
next
  case (Suc k)
  show ?case
  proof (cases "n = 0")
    case True then show ?thesis by (simp add: minimalLE.simps)
  next
    case False
    have "n div 256 < 256 ^ k" using Suc.prems by (simp add: less_mult_imp_div_less mult.commute)
    from Suc.IH[OF this] show ?thesis using False by (subst minimalLE.simps) simp
  qed
qed

lemma minimalLE_nonempty: "n \<noteq> 0 \<Longrightarrow> minimalLE n \<noteq> []"
  by (subst minimalLE.simps) simp

lemma foldr_minimalLE: "foldr (\<lambda>b result. result * 256 + uint b) (minimalLE n) 0 = int n"
proof (induction n rule: less_induct)
  case (less n)
  show ?case
  proof (cases "n = 0")
    case True then show ?thesis by (simp add: minimalLE.simps)
  next
    case False
    then have lt: "n div 256 < n" by simp
    have u: "uint (of_nat (n mod 256) :: byte) = int (n mod 256)"
      by (simp add: uint_nat unat_of_nat)
    show ?thesis using False less.IH[OF lt]
      by (subst minimalLE.simps) (simp add: u zdiv_int zmod_int)
  qed
qed

lemma encodeMinimalNumber_minimalLE:
  assumes "n < 2 ^ 64"
  shows "encodeMinimalNumber (int n) =
           bytesToHex (minimalLE n @
             (if n \<noteq> 0 \<and> last (minimalLE n) AND 0x80 \<noteq> 0 \<and> length (minimalLE n) < 8
              then [0] else []))"
proof (cases "n = 0")
  case True
  then show ?thesis by (simp add: encodeMinimalNumber_def minimalLE.simps bytesToHex_def)
next
  case False
  let ?m = "minimalLE n"
  let ?k = "length ?m"
  have "n < 256 ^ 8" using assms by simp
  then have k8: "?k \<le> 8" by (rule length_minimalLE)
  have ne: "?m \<noteq> []" using False by (rule minimalLE_nonempty)
  then have k0: "0 < ?k" by simp
  let ?buf = "?m @ replicate (8 - ?k) 0"
  have loop: "encodeLoop (replicate 8 0) 0 (int n) = (?buf, ?k)"
    using encodeLoop_minimalLE[of "replicate 8 0" 0 n] k8 by simp
  have get: "bufGet ?buf (int ?k - 1) = Some (last ?m)"
    using k0 ne by (simp add: bufGet_def nth_append last_conv_nth nat_diff_distrib')
  show ?thesis
  proof (cases "last ?m AND 0x80 \<noteq> 0")
    case hi: True
    show ?thesis
    proof (cases "?k < 8")
      case True
      then have "bufSet ?buf ?k 0 = ?buf"
        by (simp add: bufSet_def list_update_append nth_append list_eq_iff_nth_eq nth_list_update)
      moreover have "take (?k + 1) ?buf = ?m @ [0]"
        using True by (simp add: take_Suc_conv_app_nth nth_append)
      ultimately show ?thesis
        using False hi True loop get by (simp add: encodeMinimalNumber_def)
    next
      case full: False
      then have "?k = 8" using k8 by simp
      then show ?thesis
        using False hi loop get by (simp add: encodeMinimalNumber_def bufSet_def)
    qed
  next
    case lo: False
    then show ?thesis
      using False loop get by (simp add: encodeMinimalNumber_def)
  qed
qed

lemma decode_encode_nat:
  assumes "n < 2 ^ 64"
  shows "decodeMinimalNumber (encodeMinimalNumber (int n)) = int n"
proof (cases "n = 0")
  case True
  then show ?thesis by (simp add: encodeMinimalNumber_def decodeMinimalNumber_def)
next
  case False
  then have ne: "minimalLE n \<noteq> []" by (rule minimalLE_nonempty)
  have "foldr (\<lambda>b result. result * 256 + uint b) (minimalLE n @ [0]) 0 = int n"
    by (simp add: foldr_minimalLE)
  then show ?thesis
    unfolding encodeMinimalNumber_minimalLE[OF assms] decodeMinimalNumber_def
    using ne by (simp add: hexToBytes_bytesToHex bytesToHex_Nil_iff foldr_minimalLE)
qed

lemma length_concat_replicate: "length (concat (replicate n xs)) = n * length xs"
  by (induction n) simp_all

lemma last_minimalLE:
  "n \<noteq> 0 \<Longrightarrow> last (minimalLE n) = of_nat (n div 256 ^ (length (minimalLE n) - 1))"
proof (induction n rule: less_induct)
  case (less n)
  have ml: "minimalLE n = of_nat (n mod 256) # minimalLE (n div 256)"
    using less.prems by (simp add: minimalLE.simps)
  show ?case
  proof (cases "n div 256 = 0")
    case True
    then have "n < 256" by (simp add: div_eq_0_iff)
    then show ?thesis using True less.prems by (simp add: ml minimalLE.simps)
  next
    case False
    then have lt: "n div 256 < n" using less.prems by simp
    have ne: "minimalLE (n div 256) \<noteq> []" using False by (rule minimalLE_nonempty)
    then have len: "length (minimalLE (n div 256)) = Suc (length (minimalLE (n div 256)) - 1)" by simp
    have "n div 256 div 256 ^ (length (minimalLE (n div 256)) - 1) = n div 256 ^ (length (minimalLE (n div 256)))"
      by (subst (2) len) (simp add: div_mult2_eq)
    then show ?thesis using less.IH[OF lt False] ne by (simp add: ml)
  qed
qed

lemma high_bit_clear: "m < 128 \<Longrightarrow> (of_nat m :: byte) AND 0x80 = 0"
proof -
  assume "m < 128"
  then have "m \<in> set [0..<128]" by simp
  then show ?thesis
    by (simp add: upt_rec) (elim disjE; simp)
qed

lemma minimalLE_full_high_bit:
  assumes "n < 2 ^ 63" "n \<noteq> 0" "last (minimalLE n) AND 0x80 \<noteq> 0"
  shows "length (minimalLE n) < 8"
proof (rule ccontr)
  assume "\<not> length (minimalLE n) < 8"
  moreover have "n < 256 ^ 8" using assms(1) by simp
  then have "length (minimalLE n) \<le> 8" by (rule length_minimalLE)
  ultimately have l8: "length (minimalLE n) = 8" by simp
  have "n div 256 ^ 7 < 128" using assms(1) by (simp add: less_mult_imp_div_less)
  then have "last (minimalLE n) AND 0x80 = 0"
    using last_minimalLE[OF assms(2)] l8 high_bit_clear by simp
  with assms(3) show False by simp
qed

lemma encode_eq_spec:
  assumes "n < 2 ^ 63"
  shows "encodeMinimalNumber (int n) = specMinimalEncoding n"
proof -
  have "n < 2 ^ 64" using assms by simp
  from encodeMinimalNumber_minimalLE[OF this] show ?thesis
    unfolding specMinimalEncoding_def using minimalLE_full_high_bit[OF assms] by auto
qed


section \<open>Properties of the script builder and parser\<close>

lemma substring_take_drop:
  "0 \<le> a \<Longrightarrow> a \<le> b \<Longrightarrow> substring s a b = take (nat (b - a)) (drop (nat a) s)"
  unfolding substring_def Let_def
  by (cases "a \<le> int (length s)"; cases "b \<le> int (length s)")
     (auto simp: min_def max_def nat_diff_distrib')

lemma parseInt16_push: "k < 16 \<Longrightarrow> parseInt16 [CHR ''0'', hexDigit k] = Some (int k)"
  using hexDigit_not_x[of k]
  by (simp add: parseInt16_def isWhiteSpace_def parseIntDigits16_def hexDigitsValue_def
      hexVal_hexDigit) (simp add: hexVal_def)

lemma substring_mid:
  assumes "int (length pre) = a" "b = a + int (length mid)"
  shows "substring (pre @ mid @ post) a b = mid"
proof -
  have "0 \<le> a" "a \<le> b" using assms by auto
  then show ?thesis
    using assms by (simp add: substring_take_drop)
qed

lemma parse_template:
  assumes sH: "length sH = 64" and rH: "length rH = 64" and fH: "length fH = 64"
    and tH: "length tHex = 2 * k" and k: "k < 16"
  shows "parseHTLCScript (''63a820'' @ sH @ ''88a820'' @ rH @ ''8767'' @ [CHR ''0'', hexDigit k] @ tHex
            @ ''b175a820'' @ fH @ ''8768'' @ extra)
         = (if decodeMinimalNumber tHex * 1000 > 8640000000000000 then Inl InvalidTimeValue
            else Inr \<lparr> valid = True, p_swapHash = sH, p_recipientHash = rH, p_refundHash = fH,
                       p_timeout = decodeMinimalNumber tHex, p_timeoutHex = tHex \<rparr>)"
proof -
  define s where "s = ''63a820'' @ sH @ ''88a820'' @ rH @ ''8767'' @ [CHR ''0'', hexDigit k] @ tHex
            @ ''b175a820'' @ fH @ ''8768'' @ extra"
  let ?L = "[CHR ''0'', hexDigit k]"
  have f1: "substring s 0 2 = ''63''"
    using substring_mid[of "[]" 0 2 "''63''" "''a820'' @ sH @ ''88a820'' @ rH @ ''8767'' @ ?L @ tHex @ ''b175a820'' @ fH @ ''8768'' @ extra"]
    by (simp add: s_def)
  have f2: "substring s 2 4 = ''a8''"
    using substring_mid[of "''63''" 2 4 "''a8''" "''20'' @ sH @ ''88a820'' @ rH @ ''8767'' @ ?L @ tHex @ ''b175a820'' @ fH @ ''8768'' @ extra"]
    by (simp add: s_def)
  have f3: "substring s 4 6 = ''20''"
    using substring_mid[of "''63a8''" 4 6 "''20''" "sH @ ''88a820'' @ rH @ ''8767'' @ ?L @ tHex @ ''b175a820'' @ fH @ ''8768'' @ extra"]
    by (simp add: s_def)
  have f4: "substring s 6 70 = sH"
    using substring_mid[of "''63a820''" 6 70 sH "''88a820'' @ rH @ ''8767'' @ ?L @ tHex @ ''b175a820'' @ fH @ ''8768'' @ extra"] sH
    by (simp add: s_def)
  have f5: "substring s 70 72 = ''88''"
    using substring_mid[of "''63a820'' @ sH" 70 72 "''88''" "''a820'' @ rH @ ''8767'' @ ?L @ tHex @ ''b175a820'' @ fH @ ''8768'' @ extra"] sH
    by (simp add: s_def)
  have f6: "substring s 72 74 = ''a8''"
    using substring_mid[of "''63a820'' @ sH @ ''88''" 72 74 "''a8''" "''20'' @ rH @ ''8767'' @ ?L @ tHex @ ''b175a820'' @ fH @ ''8768'' @ extra"] sH
    by (simp add: s_def)
  have f7: "substring s 74 76 = ''20''"
    using substring_mid[of "''63a820'' @ sH @ ''88a8''" 74 76 "''20''" "rH @ ''8767'' @ ?L @ tHex @ ''b175a820'' @ fH @ ''8768'' @ extra"] sH
    by (simp add: s_def)
  have f8: "substring s 76 140 = rH"
    using substring_mid[of "''63a820'' @ sH @ ''88a820''" 76 140 rH "''8767'' @ ?L @ tHex @ ''b175a820'' @ fH @ ''8768'' @ extra"] sH rH
    by (simp add: s_def)
  have f9: "substring s 140 142 = ''87''"
    using substring_mid[of "''63a820'' @ sH @ ''88a820'' @ rH" 140 142 "''87''" "''67'' @ ?L @ tHex @ ''b175a820'' @ fH @ ''8768'' @ extra"] sH rH
    by (simp add: s_def)
  have f10: "substring s 142 144 = ''67''"
    using substring_mid[of "''63a820'' @ sH @ ''88a820'' @ rH @ ''87''" 142 144 "''67''" "?L @ tHex @ ''b175a820'' @ fH @ ''8768'' @ extra"] sH rH
    by (simp add: s_def)
  have f11: "substring s 144 146 = ?L"
    using substring_mid[of "''63a820'' @ sH @ ''88a820'' @ rH @ ''8767''" 144 146 ?L "tHex @ ''b175a820'' @ fH @ ''8768'' @ extra"] sH rH
    by (simp add: s_def)
  let ?P = "''63a820'' @ sH @ ''88a820'' @ rH @ ''8767'' @ ?L"
  have lP: "int (length ?P) = 146" using sH rH by simp
  have f12: "substring s 146 (146 + int k * 2) = tHex"
    using substring_mid[of ?P 146 "146 + int k * 2" tHex "''b175a820'' @ fH @ ''8768'' @ extra"] sH rH tH
    by (simp add: s_def)
  have f13: "substring s (146 + int k * 2) (148 + int k * 2) = ''b1''"
    using substring_mid[of "?P @ tHex" "146 + int k * 2" "148 + int k * 2" "''b1''" "''75a820'' @ fH @ ''8768'' @ extra"] sH rH tH
    by (simp add: s_def)
  have f14: "substring s (148 + int k * 2) (150 + int k * 2) = ''75''"
    using substring_mid[of "?P @ tHex @ ''b1''" "148 + int k * 2" "150 + int k * 2" "''75''" "''a820'' @ fH @ ''8768'' @ extra"] sH rH tH
    by (simp add: s_def)
  have f15: "substring s (150 + int k * 2) (152 + int k * 2) = ''a8''"
    using substring_mid[of "?P @ tHex @ ''b175''" "150 + int k * 2" "152 + int k * 2" "''a8''" "''20'' @ fH @ ''8768'' @ extra"] sH rH tH
    by (simp add: s_def)
  have f16: "substring s (152 + int k * 2) (154 + int k * 2) = ''20''"
    using substring_mid[of "?P @ tHex @ ''b175a8''" "152 + int k * 2" "154 + int k * 2" "''20''" "fH @ ''8768'' @ extra"] sH rH tH
    by (simp add: s_def)
  have f17: "substring s (154 + int k * 2) (218 + int k * 2) = fH"
    using substring_mid[of "?P @ tHex @ ''b175a820''" "154 + int k * 2" "218 + int k * 2" fH "''8768'' @ extra"] sH rH tH fH
    by (simp add: s_def)
  have f18: "substring s (218 + int k * 2) (220 + int k * 2) = ''87''"
    using substring_mid[of "?P @ tHex @ ''b175a820'' @ fH" "218 + int k * 2" "220 + int k * 2" "''87''" "''68'' @ extra"] sH rH tH fH
    by (simp add: s_def)
  have f19: "substring s (220 + int k * 2) (222 + int k * 2) = ''68''"
    using substring_mid[of "?P @ tHex @ ''b175a820'' @ fH @ ''87''" "220 + int k * 2" "222 + int k * 2" "''68''" extra] sH rH tH fH
    by (simp add: s_def)
  have "parseHTLCScript s =
         (if decodeMinimalNumber tHex * 1000 > 8640000000000000 then Inl InvalidTimeValue
          else Inr \<lparr> valid = True, p_swapHash = sH, p_recipientHash = rH, p_refundHash = fH,
                     p_timeout = decodeMinimalNumber tHex, p_timeoutHex = tHex \<rparr>)"
    unfolding parseHTLCScript_def Let_def OP_defs
    by (simp add: f1 f2 f3 f4 f5 f6 f7 f8 f9 f10 f11 f12 f13 f14 f15 f16 f17 f18 f19
        parseInt16_push[OF k])
  then show ?thesis by (simp add: s_def)
qed

lemma toString16_digit: "k < 16 \<Longrightarrow> toString16 k = [hexDigit k]"
  by (simp add: toString16.simps)

lemma pushData_hash: "length h = 64 \<Longrightarrow> pushData h = Inr (''20'' @ h)"
proof -
  assume l: "length h = 64"
  have "toString16 32 = ''20''"
    by (subst toString16.simps) (simp add: toString16_digit hexDigit_def)
  then show ?thesis using l
    by (simp add: pushData_def halfToString16_def padStart2_def)
qed

lemma pushData_short:
  "length h = 2 * k \<Longrightarrow> 0 < k \<Longrightarrow> k < 16 \<Longrightarrow> pushData h = Inr ([CHR ''0'', hexDigit k] @ h)"
  by (simp add: pushData_def halfToString16_def padStart2_def toString16_digit)

lemma encode_shape:
  assumes "0 < n" "n < 2 ^ 64"
  shows "\<exists>bs. encodeMinimalNumber (int n) = bytesToHex bs \<and> 0 < length bs \<and> length bs \<le> 8"
proof -
  have ne: "minimalLE n \<noteq> []" using assms(1) by (simp add: minimalLE_nonempty)
  have "n < 256 ^ 8" using assms(2) by simp
  then have l8: "length (minimalLE n) \<le> 8" by (rule length_minimalLE)
  let ?bs = "minimalLE n @
             (if n \<noteq> 0 \<and> last (minimalLE n) AND 0x80 \<noteq> 0 \<and> length (minimalLE n) < 8
              then [0] else [])"
  have "encodeMinimalNumber (int n) = bytesToHex ?bs"
    by (rule encodeMinimalNumber_minimalLE[OF assms(2)])
  moreover have "0 < length ?bs" using ne by simp
  moreover have "length ?bs \<le> 8" using l8 by simp
  ultimately show ?thesis by blast
qed

lemma createHTLCScript_template:
  assumes sH: "length sH = 64" and rH: "length rH = 64" and fH: "length fH = 64"
    and t: "1 \<le> t"
    and enc: "encodeMinimalNumber t = tHex" "length tHex = 2 * k" "0 < k" "k < 16"
  shows "createHTLCScript P \<lparr> swapHash = sH, recipientHash = rH, refundHash = fH, timeout = t \<rparr> =
           Inr \<lparr> swapHash = sH, recipientHash = rH, refundHash = fH, timeout = t,
                 redeemScript = scriptTemplate sH rH fH k tHex,
                 redeemScriptHash = bytesToHex (hash160 P (Buf (hexToBytes (scriptTemplate sH rH fH k tHex)))),
                 sha256Hash = bytesToHex (sha256 P (Buf (hexToBytes (scriptTemplate sH rH fH k tHex)))),
                 timeoutHex = tHex,
                 scriptSize = length (hexToBytes (scriptTemplate sH rH fH k tHex)) \<rparr>"
proof -
  have pt: "pushData tHex = Inr ([CHR ''0'', hexDigit k] @ tHex)"
    using enc by (intro pushData_short) auto
  have script: "concat [OP_IF, OP_SHA256, ''20'' @ sH, OP_EQUALVERIFY, OP_SHA256, ''20'' @ rH, OP_EQUAL,
                 OP_ELSE, [CHR ''0'', hexDigit k] @ tHex, OP_CHECKLOCKTIMEVERIFY, OP_DROP,
                 OP_SHA256, ''20'' @ fH, OP_EQUAL, OP_ENDIF] = scriptTemplate sH rH fH k tHex"
    by (simp add: OP_defs scriptTemplate_def)
  show ?thesis
    unfolding createHTLCScript_def
    using sH rH fH t
    by (simp only: htlc_params.simps enc(1) pushData_hash pt Let_def sum.case script)
       simp
qed

section \<open>Properties of the cryptographic core\<close>

lemma iteratedHash256_add:
  "iteratedHash256 P (iteratedHash256 P x a) b = iteratedHash256 P x (a + b)"
  by (induction a arbitrary: x) simp_all

lemma signChunks_ok:
  assumes "\<forall>i \<in> set is. i < length sc"
  shows "signChunks P m sc is =
     Inr (map (\<lambda>i. \<lparr> revealed = iteratedHash256 P (sc ! i) (WOTS_ITERATIONS - unat (m ! i)),
                      offset = unat (m ! i),
                      revealedHex = bytesToHex (iteratedHash256 P (sc ! i) (WOTS_ITERATIONS - unat (m ! i))) \<rparr>) is)"
  using assms by (induction "is") (simp_all add: Let_def)

lemma unat_byte_le: "unat (b :: byte) \<le> 256"
  using unsigned_less[of b, where ?'a = nat] by simp

lemma verifyChunks_ok:
  assumes "\<forall>i \<in> set is. i < length cs \<and> i < length cm \<and> offset (cs ! i) = unat (m ! i)
             \<and> iteratedHash256 P (revealed (cs ! i)) (unat (m ! i)) = cm ! i"
  shows "verifyChunks P m cs cm is = Inr True"
  using assms by (induction "is") (simp_all add: Let_def)


lemma toLowerChar_hexDigit: "d < 16 \<Longrightarrow> toLowerChar (hexDigit d) = hexDigit d"
proof -
  assume "d < 16"
  then have "d \<in> set [0..<16]" by simp
  then show ?thesis unfolding hexDigit_def toLowerChar_def
    by (simp add: upt_rec) (elim disjE; simp)
qed

lemma toLowerCase_bytesToHex: "toLowerCase (bytesToHex bs) = bytesToHex bs"
proof (induction bs)
  case Nil
  then show ?case by (simp add: toLowerCase_def bytesToHex_def)
next
  case (Cons b bs)
  have "unat b div 16 < 16" using unsigned_less[of b, where ?'a = nat] by simp
  moreover have "unat b mod 16 < 16" by simp
  ultimately show ?case using Cons
    by (simp add: toLowerCase_def bytesToHex_def byteToHex_def toLowerChar_hexDigit)
qed

lemma toLowerChar_toUpperChar: "toLowerChar (toUpperChar c) = toLowerChar c"
proof (cases "97 \<le> (of_char c :: nat) \<and> (of_char c :: nat) \<le> 122")
  case True
  let ?k = "of_char c :: nat"
  have u: "toUpperChar c = char_of (?k - 32)" using True by (simp add: toUpperChar_def)
  have o: "(of_char (char_of (?k - 32) :: char) :: nat) = ?k - 32"
  proof -
    have "?k - 32 < 256" using True by linarith
    then show ?thesis by (simp add: of_char_of)
  qed
  have rng: "65 \<le> ?k - 32 \<and> ?k - 32 \<le> 90" using True by linarith
  have "toLowerChar (char_of (?k - 32)) = char_of (?k - 32 + 32)"
    unfolding toLowerChar_def Let_def o using rng by simp
  also have "?k - 32 + 32 = ?k" using True by linarith
  also have "char_of ?k = c" by simp
  finally have "toLowerChar (toUpperChar c) = c" by (simp add: u)
  moreover have "toLowerChar c = c" using True by (simp add: toLowerChar_def)
  ultimately show ?thesis by simp
next
  case False
  then show ?thesis by (auto simp: toUpperChar_def)
qed

lemma toLowerCase_toUpperCase: "toLowerCase (toUpperCase s) = toLowerCase s"
  by (simp add: toLowerCase_def toUpperCase_def toLowerChar_toUpperChar)


text \<open>
  \<^verbatim>\<open>iteratedHash256(data, n)\<close> is the \<open>n\<close>-fold application of double SHA-256.
\<close>

lemma iteratedHash256_funpow:
  "iteratedHash256 P x n = ((\<lambda>y. sha256Raw P (sha256Raw P y)) ^^ n) x"
proof -
  define f where "f = (\<lambda>y. sha256Raw P (sha256Raw P y))"
  have "iteratedHash256 P x n = (f ^^ n) x"
  proof (induction n arbitrary: x)
    case 0
    show ?case by simp
  next
    case (Suc n)
    have "iteratedHash256 P x (Suc n) = iteratedHash256 P (f x) n"
      by (simp add: hash256_def sha256_def f_def)
    also have "\<dots> = (f ^^ n) (f x)" by (rule Suc.IH)
    also have "\<dots> = (f ^^ Suc n) x" by (simp only: funpow_Suc_right o_apply)
    finally show ?case .
  qed
  then show ?thesis by (simp only: f_def)
qed
section \<open>Properties of the coordinator\<close>

text \<open>
  Both funding operations, the responder's claim and both refunds write to the swap object
  only after the broadcast (or, for funding, the balance check) has succeeded: whenever one
  of them throws, the store is the one it started from.
\<close>

lemma failure_preserves_store:
  "isl (res (recordInitiatorFunding L sw fp)) \<Longrightarrow> store (recordInitiatorFunding L sw fp) = sw"
  "isl (res (recordResponderFunding L sw fp)) \<Longrightarrow> store (recordResponderFunding L sw fp) = sw"
  "isl (res (responderClaim P L sw rp)) \<Longrightarrow> store (responderClaim P L sw rp) = sw"
  "isl (res (initiatorRefund P L now now' sw p)) \<Longrightarrow> store (initiatorRefund P L now now' sw p) = sw"
  "isl (res (responderRefund P L now now' sw p)) \<Longrightarrow> store (responderRefund P L now now' sw p) = sw"
  by (auto simp: recordInitiatorFunding_def recordResponderFunding_def responderClaim_def
        initiatorRefund_def responderRefund_def Let_def
      split: option.splits sum.splits list.splits prod.splits if_splits)


lemma supportedChain_upper:
  "supportedChain a = Some x \<Longrightarrow> supportedChain b = Some y \<Longrightarrow>
   (toUpperCase a = toUpperCase b) = (x = y)"
  by (auto simp: supportedChain_def Let_def split: if_splits)

lemma supportedChain_None_upper:
  "toUpperCase a = toUpperCase b \<Longrightarrow> supportedChain a = None \<longleftrightarrow> supportedChain b = None"
  by (simp add: supportedChain_def Let_def)

lemma supportedChain_examples: "supportedChain ''btc'' = Some BTC" "supportedChain ''BSV'' = Some BSV"
  by code_simp+


lemma createHTLC_Inr:
  assumes "createHTLC P prm ch = Inr h"
  shows "\<exists>s. createHTLCScript P prm = Inr s \<and> redeemScript h = redeemScript s
           \<and> h_lockingScript h = (if ch = BSV then Some (redeemScript s) else None)"
  using assms
  by (auto simp: createHTLC_def htlc_script.defs split: sum.splits if_splits)

lemma installHTLC_lockingScript:
  assumes "createHTLC P prm ch = Inr h" "installHTLC L ch h sp hi = Inr hi'" "ch \<noteq> SOL"
  shows "lockingScript hi' = Some (redeemScript h)"
  using assms createHTLC_Inr[OF assms(1)]
  by (cases ch) (auto simp: installHTLC_def split: if_splits)

lemma createHTLCScript_swapHash_position:
  assumes "createHTLCScript P prm = Inr s"
  shows "substring (redeemScript s) 6 70 = swapHash prm"
proof -
  have l: "length (swapHash prm) = 64"
    using assms by (auto simp: createHTLCScript_def split: if_splits)
  obtain rest where r: "redeemScript s = ''63a820'' @ swapHash prm @ rest"
    using assms l
    by (auto simp: createHTLCScript_def Let_def pushData_hash OP_defs split: if_splits sum.splits)
  show ?thesis
    unfolding r using substring_mid[of "''63a820''" 6 70 "swapHash prm" rest] l by simp
qed


lemma generated_hash_length:
  assumes "\<forall>x. length (sha256Raw P x) = 32"
  shows "length (rs_recipient_hash (generateResponderSecrets P rnd)) = 64"
    "length (rs_refund_hash (generateResponderSecrets P rnd)) = 64"
  using assms
  by (simp_all add: generateResponderSecrets_def generateWinternitzKeypair_def Let_def
      length_bytesToHex sha256_def)

lemma createHTLCScript_succeeds:
  assumes "length (swapHash prm) = 64" "length (recipientHash prm) = 64"
    "length (refundHash prm) = 64" "1 \<le> timeout prm" "timeout prm < 2 ^ 64"
  shows "\<exists>s. createHTLCScript P prm = Inr s"
proof -
  have t64: "nat (timeout prm) < 2 ^ 64" "0 < nat (timeout prm)" "int (nat (timeout prm)) = timeout prm"
    using assms(4,5) by auto
  obtain bs where bs: "encodeMinimalNumber (timeout prm) = bytesToHex bs" "0 < length bs" "length bs \<le> 8"
    using encode_shape[OF t64(2,1)] t64(3) by auto
  have len: "length (bytesToHex bs) = 2 * length bs" by (simp add: length_bytesToHex)
  have k16: "length bs < 16" using bs(3) by simp
  have "prm = \<lparr> swapHash = swapHash prm, recipientHash = recipientHash prm,
                 refundHash = refundHash prm, timeout = timeout prm \<rparr>" by simp
  then show ?thesis
    using createHTLCScript_template[OF assms(1-4) bs(1) len bs(2) k16, of P] by metis
qed

lemma createHTLC_succeeds:
  assumes "\<exists>s. createHTLCScript P prm = Inr s"
  shows "\<exists>h. createHTLC P prm ch = Inr h"
  using assms by (auto simp: createHTLC_def)

lemma installHTLC_succeeds:
  "ch \<noteq> SOL \<Longrightarrow> \<exists>hi'. installHTLC L ch h sp hi = Inr hi'"
  by (cases ch) (simp_all add: installHTLC_def)


text \<open>
  What the claim operations guarantee about secrets. A claim is broadcast only after the
  adapter's \<^verbatim>\<open>buildClaimTransaction\<close> has parsed the escrow script and found both
  secrets to hash to the script's swap hash and recipient hash; a successful claim has
  broadcast; and the responder's claim rejects a wrong supplied swap secret before any
  ledger call, with the store unchanged.
\<close>

lemma buildClaimTransaction_Inr:
  assumes "buildClaimTransaction P L ch u ss rs scr dest = Inr tx"
  shows "\<exists>s r script d. ss = Some s \<and> rs = Some r \<and> scr = Some script \<and>
           parseHTLCScript script = Inr d \<and>
           sha256Hex P (Hex s) = p_swapHash d \<and> sha256Hex P (Hex r) = p_recipientHash d"
  using assms
  by (auto simp: buildClaimTransaction_def split: if_splits option.splits sum.splits)

lemma escrowUTXOs_trace: "Broadcast c tx \<notin> set (snd (escrowUTXOs L ch hi))"
  by (simp add: escrowUTXOs_def)

lemma initiatorClaim_broadcast_verified:
  assumes "Broadcast c tx \<in> set (trace (initiatorClaim P L sw p))"
  shows "\<exists>s script d. sw (sp_swapId p) = Some s \<and>
           lockingScript (responderHTLC s) = Some script \<and> parseHTLCScript script = Inr d \<and>
           sha256Hex P (Hex (swap_secret (initiator s))) = p_swapHash d \<and>
           sha256Hex P (Hex (claim_secret (initiator s))) = p_recipientHash d"
proof -
  obtain s where s: "sw (sp_swapId p) = Some s"
    using assms by (cases "sw (sp_swapId p)") (simp_all add: initiatorClaim_def)
  have st: "status s = FULLY_FUNDED"
    using assms s by (cases "status s = FULLY_FUNDED") (simp_all add: initiatorClaim_def)
  obtain q tr where e: "escrowUTXOs L (toChain s) (responderHTLC s) = (q, tr)" by force
  have ntr: "Broadcast c tx \<notin> set tr" using escrowUTXOs_trace[of c tx L "toChain s" "responderHTLC s"] e by simp
  obtain u us where q: "q = Inr (Some (u # us))"
    using assms s st e ntr
    by (cases q; cases "projr q"; cases "the (projr q)")
       (auto simp: initiatorClaim_def Let_def)
  let ?b = "buildClaimTransaction P L (toChain s) u (Some (swap_secret (initiator s)))
              (Some (claim_secret (initiator s))) (lockingScript (responderHTLC s))
              (orElse (sp_toAddress p) (Some (toAddress s)))"
  obtain txh where b: "?b = Inr txh"
    using assms s st e ntr q by (cases ?b) (auto simp: initiatorClaim_def Let_def)
  from buildClaimTransaction_Inr[OF b] show ?thesis using s by auto
qed

lemma responderClaim_broadcast_verified:
  assumes "Broadcast c tx \<in> set (trace (responderClaim P L sw p))"
  shows "\<exists>s script d rsec. sw (rc_swapId p) = Some s \<and>
           sha256Hex P (Hex (rc_swapSecret p)) = swap_hash (initiator s) \<and>
           lockingScript (initiatorHTLC s) = Some script \<and> parseHTLCScript script = Inr d \<and>
           recipient_secret (responder s) = Some rsec \<and>
           sha256Hex P (Hex (rc_swapSecret p)) = p_swapHash d \<and>
           sha256Hex P (Hex rsec) = p_recipientHash d"
proof -
  obtain s where s: "sw (rc_swapId p) = Some s"
    using assms by (cases "sw (rc_swapId p)") (simp_all add: responderClaim_def)
  have st: "sha256Hex P (Hex (rc_swapSecret p)) = swap_hash (initiator s)"
    using assms s
    by (cases "sha256Hex P (Hex (rc_swapSecret p)) = swap_hash (initiator s)")
       (simp_all add: responderClaim_def)
  obtain q tr where e: "escrowUTXOs L (fromChain s) (initiatorHTLC s) = (q, tr)" by force
  have ntr: "Broadcast c tx \<notin> set tr" using escrowUTXOs_trace[of c tx L "fromChain s" "initiatorHTLC s"] e by simp
  obtain u us where q: "q = Inr (Some (u # us))"
    using assms s st e ntr
    by (cases q; cases "projr q"; cases "the (projr q)")
       (auto simp: responderClaim_def Let_def)
  let ?b = "buildClaimTransaction P L (fromChain s) u (Some (rc_swapSecret p))
              (recipient_secret (responder s)) (lockingScript (initiatorHTLC s))
              (orElse (rc_toAddress p) (r_toAddress (responder s)))"
  obtain txh where b: "?b = Inr txh"
    using assms s st e ntr q by (cases ?b) (auto simp: responderClaim_def Let_def)
  from buildClaimTransaction_Inr[OF b] show ?thesis using s st by auto
qed

lemma claim_success_broadcasts:
  "res (initiatorClaim P L sw p) = Inr r \<Longrightarrow> \<exists>c tx. Broadcast c tx \<in> set (trace (initiatorClaim P L sw p))"
  "res (responderClaim P L sw rp) = Inr r \<Longrightarrow> \<exists>c tx. Broadcast c tx \<in> set (trace (responderClaim P L sw rp))"
  by (auto simp: initiatorClaim_def responderClaim_def Let_def
      split: option.splits sum.splits list.splits prod.splits if_splits)

lemma responderClaim_wrong_secret:
  "sw (rc_swapId p) = Some s \<Longrightarrow> sha256Hex P (Hex (rc_swapSecret p)) \<noteq> swap_hash (initiator s) \<Longrightarrow>
   responderClaim P L sw p = \<lparr> res = Inl InvalidSwapSecret, store = sw, trace = [] \<rparr>"
  by (simp add: responderClaim_def)

lemma parse_test_responder_script:
  "parseHTLCScript (scriptTemplate (concat (replicate 32 ''20'')) (concat (replicate 32 ''40''))
                      (concat (replicate 32 ''a0'')) 4 ''c0995465'')
     = Inr \<lparr> valid = True, p_swapHash = concat (replicate 32 ''20''),
              p_recipientHash = concat (replicate 32 ''40''),
              p_refundHash = concat (replicate 32 ''a0''),
              p_timeout = 1700043200, p_timeoutHex = ''c0995465'' \<rparr>"
proof -
  have dec: "decodeMinimalNumber ''c0995465'' = 1700043200" by code_simp
  show ?thesis
    unfolding scriptTemplate_def
    using parse_template[of "concat (replicate 32 ''20'')" "concat (replicate 32 ''40'')"
            "concat (replicate 32 ''a0'')" "''c0995465''" 4 "[]"]
    by (simp add: dec length_concat_replicate del: concat.simps replicate.simps)
qed

lemma test_digests:
  "sha256Hex testPrims (Hex (replicate 64 CHR ''0'')) = concat (replicate 32 ''00'')"
  "sha256Hex testPrims (Hex (replicate 64 CHR ''1'')) = concat (replicate 32 ''20'')"
  "sha256Hex testPrims (Hex (replicate 64 CHR ''2'')) = concat (replicate 32 ''40'')"
  "concat (replicate 32 ''00'') \<noteq> concat (replicate 32 ''20'')"
  by code_simp+

lemma testLedger_fields:
  "bsvUTXOsByScriptHash testLedger h = Inr [\<lparr> u_txid = ''f0'', u_vout = 0, u_satoshis = 95000 \<rparr>]"
  "sweepTransaction testLedger c p = Inr ''01000000''"
  "broadcast testLedger c tx = Inr ''txid-1''"
  by (simp_all add: testLedger_def)

text \<open>
  The model run on the consistent test swap: the initiator's claim verifies both stored
  secrets against the responder escrow's script, broadcasts and completes.
\<close>

lemma example_claim_succeeds:
  "res (initiatorClaim testPrims testLedger testStore testSpend)
     = Inr \<lparr> sr_swapId = ''qswap_test'', sr_status = COMPLETED, sr_txid = ''txid-1'',
              sr_chain = BSV, sr_revealedSecret = Some (replicate 64 CHR ''1'') \<rparr> \<and>
   trace (initiatorClaim testPrims testLedger testStore testSpend)
     = [BalanceQuery BSV, Broadcast BSV ''01000000'']"
proof -
  have b: "\<And>u d. buildClaimTransaction testPrims testLedger BSV u (Some (replicate 64 CHR ''1''))
          (Some (replicate 64 CHR ''2''))
          (Some (scriptTemplate (concat (replicate 32 ''20'')) (concat (replicate 32 ''40''))
                      (concat (replicate 32 ''a0'')) 4 ''c0995465'')) d = Inr ''01000000''"
    unfolding buildClaimTransaction_def createClaimScriptSig_def
    by (simp add: parse_test_responder_script test_digests pushData_hash testLedger_fields
        del: concat.simps replicate.simps)
  show ?thesis
    unfolding initiatorClaim_def testStore_def testSpend_def testSwap_def
    by (simp add: b escrowUTXOs_def getHTLCBalance_def utxoBalance_def testLedger_fields Let_def
        del: concat.simps replicate.simps)
qed



text \<open>The range of \<^verbatim>\<open>Date\<close> in seconds.\<close>

lemma dateThrows_bound: "dateThrows t \<longleftrightarrow> 8640000000000 < \<bar>t\<bar>"
proof -
  have "\<bar>t * 1000\<bar> = \<bar>t\<bar> * 1000" by (simp add: abs_mult)
  then show ?thesis unfolding dateThrows_def by linarith
qed

text \<open>
  Rounding to a double: integers below \<open>2^53\<close> in magnitude are kept; above, the value
  is rounded to 53 significant bits, ties to even.
\<close>

lemma roundToDouble_small: "\<bar>n\<bar> < 2 ^ 53 \<Longrightarrow> roundToDouble n = Finite n"
  by (simp add: roundToDouble_def)

lemma roundToDouble_examples:
  "roundToDouble 9007199254740993 = Finite 9007199254740992"
  "roundToDouble 9007199254740995 = Finite 9007199254740996"
  by (simp_all add: roundToDouble_def Let_def bitLength.simps)

text \<open>
  \<^verbatim>\<open>parseInt\<close> at some inputs: it stops at the first character that is not a
  digit, so \<^verbatim>\<open>parseInt("1e21")\<close> is \<open>1\<close> and \<^verbatim>\<open>parseInt("12.7")\<close> is \<open>12\<close>; it
  accepts a sign and a hexadecimal prefix; it yields \<^verbatim>\<open>NaN\<close> without digits.
\<close>

lemma parseInt_examples:
  "parseInt ''0'' = Finite 0"
  "parseInt ''-5'' = Finite (- 5)"
  "parseInt ''100000'' = Finite 100000"
  "parseInt ''1e21'' = Finite 1"
  "parseInt ''12.7'' = Finite 12"
  "parseInt '' +0x1F'' = Finite 31"
  "parseInt ''abc'' = NaN"
  "parseInt [] = NaN"
  by (simp_all add: parseInt_def parseIntDigits_def isWhiteSpace_def decVal_def hexVal_def
        digitsValue_def roundToDouble_small Let_def)

text \<open>
  The script of a successful \<^verbatim>\<open>createHTLCScript\<close> written out: for a time-out below
  \<open>2^63\<close> it is the fixed opcode layout around the three hashes and the minimally
  encoded time-out with its one-byte push length.
\<close>

lemma createHTLCScript_layout:
  assumes ok: "createHTLCScript P prm = Inr s" and t: "timeout prm < 2 ^ 63"
  shows "redeemScript s =
           scriptTemplate (swapHash prm) (recipientHash prm) (refundHash prm)
             (length (specMinimalEncoding (nat (timeout prm))) div 2)
             (specMinimalEncoding (nat (timeout prm)))"
proof -
  have l: "length (swapHash prm) = 64" "length (recipientHash prm) = 64"
    "length (refundHash prm) = 64" "1 \<le> timeout prm"
    using ok by (auto simp: createHTLCScript_def split: if_splits)
  have n: "nat (timeout prm) < 2 ^ 63" "0 < nat (timeout prm)" "nat (timeout prm) < 2 ^ 64"
    "int (nat (timeout prm)) = timeout prm"
    using l(4) t by auto
  have e: "encodeMinimalNumber (timeout prm) = specMinimalEncoding (nat (timeout prm))"
    using encode_eq_spec[OF n(1)] n(4) by simp
  obtain bs where bs: "encodeMinimalNumber (timeout prm) = bytesToHex bs" "0 < length bs" "length bs \<le> 8"
    using encode_shape[OF n(2,3)] n(4) by auto
  have len: "length (specMinimalEncoding (nat (timeout prm))) = 2 * length bs"
  proof -
    have "specMinimalEncoding (nat (timeout prm)) = bytesToHex bs" using e bs(1) by simp
    then show ?thesis by (simp only: length_bytesToHex)
  qed
  then have k: "length (specMinimalEncoding (nat (timeout prm))) div 2 = length bs" by simp
  have k16: "length bs < 16" using bs(3) by simp
  have p: "prm = \<lparr> swapHash = swapHash prm, recipientHash = recipientHash prm,
                 refundHash = refundHash prm, timeout = timeout prm \<rparr>" by simp
  have "createHTLCScript P \<lparr> swapHash = swapHash prm, recipientHash = recipientHash prm,
                 refundHash = refundHash prm, timeout = timeout prm \<rparr> = Inr s"
    using ok p by metis
  then show ?thesis
    using createHTLCScript_template[OF l(1-4) e len bs(2) k16, of P] k by auto
qed

lemma installHTLC_timeout:
  "installHTLC L ch h sp hi = Inr hi' \<Longrightarrow> hi_timeout hi' = hi_timeout hi"
  by (auto simp: installHTLC_def split: if_splits sum.splits prod.splits)

lemma specMinimalEncoding_examples:
  "specMinimalEncoding 1700086400 = ''80425565''"
  "specMinimalEncoding 1700043200 = ''c0995465''"
proof -
  have "encodeMinimalNumber 1700086400 = ''80425565''" by code_simp
  then show "specMinimalEncoding 1700086400 = ''80425565''"
    using encode_eq_spec[of 1700086400] by simp
  have "encodeMinimalNumber 1700043200 = ''c0995465''" by code_simp
  then show "specMinimalEncoding 1700043200 = ''c0995465''"
    using encode_eq_spec[of 1700043200] by simp
qed

section \<open>Secrets and commitments in reachable stores\<close>

text \<open>The encoder's output has between one and eight bytes for every positive number.\<close>

lemma length_bufSet: "length (bufSet buf i v) = length buf"
  by (simp add: bufSet_def)

lemma encodeLoop_props:
  "encodeLoop buf i n = (buf', i') \<Longrightarrow>
     length buf' = length buf \<and> i \<le> i' \<and> (0 < n \<longrightarrow> i < i')"
proof (induction buf i n arbitrary: buf' i' rule: encodeLoop.induct)
  case (1 buf i n)
  show ?case
  proof (cases "n > 0")
    case True
    have e: "encodeLoop (bufSet buf i (word_of_int (n AND 255))) (i + 1) (n div 256) = (buf', i')"
      using "1.prems" True by (subst (asm) encodeLoop.simps) simp
    from "1.IH"[OF True e] show ?thesis by (simp add: length_bufSet)
  next
    case False
    then show ?thesis using "1.prems" by (subst (asm) encodeLoop.simps) simp
  qed
qed

lemma encode_shape_all:
  assumes "1 \<le> t"
  shows "\<exists>bs. encodeMinimalNumber t = bytesToHex bs \<and> 0 < length bs \<and> length bs \<le> 8"
proof -
  obtain buf i where e: "encodeLoop (replicate 8 0) 0 t = (buf, i)" by force
  have p: "length buf = 8" "0 < i" using encodeLoop_props[OF e] assms by auto
  obtain buf' i' where
    q: "(case bufGet buf (int i - 1) of
           Some b \<Rightarrow> if b AND 0x80 \<noteq> 0 then (bufSet buf i 0, i + 1) else (buf, i)
         | None \<Rightarrow> (buf, i)) = (buf', i')" by force
  have r: "length buf' = 8" "0 < i'"
    using q p by (auto simp: length_bufSet split: option.splits if_splits)
  have "encodeMinimalNumber t = bytesToHex (take i' buf')"
    using assms e q by (simp add: encodeMinimalNumber_def)
  moreover have "0 < length (take i' buf')" "length (take i' buf') \<le> 8" using r by simp_all
  ultimately show ?thesis by blast
qed

text \<open>
  Parsing a script that \<^verbatim>\<open>createHTLCScript\<close> built gives back the swap hash and the
  recipient hash it was built from, whenever the parser returns.
\<close>

lemma createHTLCScript_parse_hashes:
  assumes ok: "createHTLCScript P prm = Inr rh" and pr: "parseHTLCScript (redeemScript rh) = Inr d"
  shows "p_swapHash d = swapHash prm \<and> p_recipientHash d = recipientHash prm"
proof -
  have l: "length (swapHash prm) = 64" "length (recipientHash prm) = 64"
    "length (refundHash prm) = 64" "1 \<le> timeout prm"
    using ok by (auto simp: createHTLCScript_def split: if_splits)
  obtain bs where bs: "encodeMinimalNumber (timeout prm) = bytesToHex bs" "0 < length bs" "length bs \<le> 8"
    using encode_shape_all[OF l(4)] by blast
  have len: "length (bytesToHex bs) = 2 * length bs" by (simp only: length_bytesToHex)
  have k16: "length bs < 16" using bs(3) by simp
  have p: "prm = \<lparr> swapHash = swapHash prm, recipientHash = recipientHash prm,
                 refundHash = refundHash prm, timeout = timeout prm \<rparr>" by simp
  have "createHTLCScript P \<lparr> swapHash = swapHash prm, recipientHash = recipientHash prm,
                 refundHash = refundHash prm, timeout = timeout prm \<rparr> = Inr rh"
    using ok p by metis
  then have rs: "redeemScript rh = scriptTemplate (swapHash prm) (recipientHash prm) (refundHash prm)
                    (length bs) (bytesToHex bs)"
    using createHTLCScript_template[OF l(1-4) bs(1) len bs(2) k16, of P] by auto
  have "parseHTLCScript (redeemScript rh) =
          (if decodeMinimalNumber (bytesToHex bs) * 1000 > 8640000000000000 then Inl InvalidTimeValue
            else Inr \<lparr> valid = True, p_swapHash = swapHash prm, p_recipientHash = recipientHash prm,
                       p_refundHash = refundHash prm,
                       p_timeout = decodeMinimalNumber (bytesToHex bs), p_timeoutHex = bytesToHex bs \<rparr>)"
    unfolding rs scriptTemplate_def
    using parse_template[OF l(1-3) len k16, of "[]"] by simp
  then show ?thesis using pr by (auto split: if_splits)
qed

lemma secretsConsistent_checks:
  assumes c: "secretsConsistent P s"
    and scr: "lockingScript (responderHTLC s) = Some scr" and pr: "parseHTLCScript scr = Inr d"
  shows "sha256Hex P (Hex (swap_secret (initiator s))) = p_swapHash d \<and>
         sha256Hex P (Hex (claim_secret (initiator s))) = p_recipientHash d"
proof -
  obtain fH t rh where rh: "createHTLCScript P \<lparr> swapHash = swap_hash (initiator s),
                                       recipientHash = claim_hash (initiator s),
                                       refundHash = fH, timeout = t \<rparr> = Inr rh"
      "scr = redeemScript rh"
    using c scr unfolding secretsConsistent_def by blast
  from createHTLCScript_parse_hashes[OF rh(1)] pr rh(2)
  have "p_swapHash d = swap_hash (initiator s) \<and> p_recipientHash d = claim_hash (initiator s)"
    by simp
  then show ?thesis using c unfolding secretsConsistent_def by simp
qed

text \<open>A generated secret is the preimage of the generated hash.\<close>

lemma generated_preimage:
  "sha256Hex P (Hex (publicKeyPreimage (generateWinternitzKeypair P rnd)))
     = publicKeyHash (generateWinternitzKeypair P rnd)"
  by (simp add: generateWinternitzKeypair_def Let_def sha256Hex_def sha256_def hexToBytes_bytesToHex)

lemma generateInitiatorSecrets_preimage:
  "sha256Hex P (Hex (is_swap_secret (generateInitiatorSecrets P rnd)))
     = is_swap_hash (generateInitiatorSecrets P rnd)"
  "sha256Hex P (Hex (is_claim_secret (generateInitiatorSecrets P rnd)))
     = is_claim_hash (generateInitiatorSecrets P rnd)"
  by (simp_all add: generateInitiatorSecrets_def Let_def generated_preimage)

text \<open>Each operation keeps every stored record consistent.\<close>

lemma secretsConsistent_cong:
  "initiator s' = initiator s \<Longrightarrow>
   lockingScript (responderHTLC s') = lockingScript (responderHTLC s) \<Longrightarrow>
   secretsConsistent P s \<Longrightarrow> secretsConsistent P s'"
  by (simp add: secretsConsistent_def)

lemma initiateSwap_consistent:
  assumes "\<forall>k s. sw k = Some s \<longrightarrow> secretsConsistent P s"
    and "store (initiateSwap P L cfg rnd uuid now sw ip) k = Some s'"
  shows "secretsConsistent P s'"
  using assms
  by (auto simp: initiateSwap_def Let_def secretsConsistent_def generateInitiatorSecrets_preimage
      split: option.splits if_splits)

lemma installHTLC_script:
  assumes "createHTLC P prm ch = Inr h" "installHTLC L ch h sp hi = Inr hi'"
  shows "lockingScript hi' = lockingScript hi \<or>
         (\<exists>c. createHTLCScript P prm = Inr c \<and> lockingScript hi' = Some (redeemScript c))"
  using assms createHTLC_Inr[OF assms(1)]
  by (cases ch) (auto simp: installHTLC_def split: if_splits sum.splits prod.splits)

lemma joinSwap_consistent:
  assumes inv: "\<forall>k s. sw k = Some s \<longrightarrow> secretsConsistent P s"
    and st: "store (joinSwap P L rnd now sw jp) k = Some s'"
  shows "secretsConsistent P s'"
proof (cases "sw (jp_swapId jp)")
  case None
  then have "store (joinSwap P L rnd now sw jp) = sw" by (simp add: joinSwap_def)
  then show ?thesis using inv st by simp
next
  case (Some s)
  have cs: "secretsConsistent P s" using inv Some by blast
  have same: "store (joinSwap P L rnd now sw jp) = sw \<Longrightarrow> secretsConsistent P s'"
    using inv st by simp
  have upd: "\<And>x. store (joinSwap P L rnd now sw jp) = sw(jp_swapId jp \<mapsto> x) \<Longrightarrow>
                 secretsConsistent P x \<Longrightarrow> secretsConsistent P s'"
  proof -
    fix x
    assume x: "store (joinSwap P L rnd now sw jp) = sw(jp_swapId jp \<mapsto> x)" "secretsConsistent P x"
    show "secretsConsistent P s'"
    proof (cases "k = jp_swapId jp")
      case True
      then have "s' = x" using st x(1) by simp
      then show "secretsConsistent P s'" using x(2) by simp
    next
      case False
      then have "sw k = Some s'" using st x(1) by simp
      then show "secretsConsistent P s'" using inv by blast
    qed
  qed
  let ?RS = "generateResponderSecrets P rnd"
  let ?s1 = "s\<lparr> responder :=
                      \<lparr> recipient_secret = Some (rs_recipient_secret ?RS),
                        recipient_hash = Some (rs_recipient_hash ?RS),
                        r_refund_secret = Some (rs_refund_secret ?RS),
                        r_refund_hash = Some (rs_refund_hash ?RS),
                        r_toAddress = Some (jp_toAddress jp),
                        r_refundAddress = Some (jp_refundAddress jp) \<rparr> \<rparr>"
  let ?prm1 = "\<lparr> swapHash = swap_hash (initiator s),
              recipientHash = rs_recipient_hash ?RS,
              refundHash = refund_hash (initiator s),
              timeout = hi_timeout (initiatorHTLC s) \<rparr>"
  let ?prm2 = "\<lparr> swapHash = swap_hash (initiator s),
              recipientHash = claim_hash (initiator s),
              refundHash = rs_refund_hash ?RS,
              timeout = hi_timeout (responderHTLC s) \<rparr>"
  let ?sp1 = "\<lparr> sol_swapHash = swap_hash (initiator s),
                 sol_recipientHash = rs_recipient_hash ?RS,
                 sol_refundHash = refund_hash (initiator s),
                 sol_initiator = refundAddress s,
                 sol_recipient = jp_toAddress jp,
                 sol_lamports = fromAmount s,
                 sol_timeoutSeconds = hi_timeout (initiatorHTLC s) - now \<rparr>"
  let ?sp2 = "\<lparr> sol_swapHash = swap_hash (initiator s),
                 sol_recipientHash = claim_hash (initiator s),
                 sol_refundHash = rs_refund_hash ?RS,
                 sol_initiator = jp_refundAddress jp,
                 sol_recipient = toAddress s,
                 sol_lamports = toAmount s,
                 sol_timeoutSeconds = hi_timeout (responderHTLC s) - now \<rparr>"
  have c1: "secretsConsistent P ?s1"
    using secretsConsistent_cong[OF _ _ cs, of ?s1] by simp
  show ?thesis
  proof (cases "status s = INITIATED \<and>
                v_valid (validateAddressOf L (fromChain s) (jp_toAddress jp)) \<and>
                v_valid (validateAddressOf L (toChain s) (jp_refundAddress jp))")
    case False
    then have "store (joinSwap P L rnd now sw jp) = sw"
      using Some by (auto simp: joinSwap_def Let_def)
    then show ?thesis by (rule same)
  next
    case v: True
    show ?thesis
    proof (cases "createHTLC P ?prm1 (fromChain s)")
      case (Inl e)
      then have "store (joinSwap P L rnd now sw jp) = sw(jp_swapId jp \<mapsto> ?s1)"
        using Some v by (simp add: joinSwap_def Let_def)
      then show ?thesis using c1 by (rule upd)
    next
      case h1: (Inr h1)
      show ?thesis
      proof (cases "installHTLC L (fromChain s) h1 ?sp1 (initiatorHTLC s)")
        case (Inl e)
        then have "store (joinSwap P L rnd now sw jp) = sw(jp_swapId jp \<mapsto> ?s1)"
          using Some v h1 by (simp add: joinSwap_def Let_def)
        then show ?thesis using c1 by (rule upd)
      next
        case i1: (Inr i1)
        let ?s2 = "?s1\<lparr> initiatorHTLC := i1 \<rparr>"
        have c2: "secretsConsistent P ?s2"
          using secretsConsistent_cong[OF _ _ cs, of ?s2] by simp
        show ?thesis
        proof (cases "createHTLC P ?prm2 (toChain s)")
          case (Inl e)
          then have "store (joinSwap P L rnd now sw jp) = sw(jp_swapId jp \<mapsto> ?s2)"
            using Some v h1 i1 by (simp add: joinSwap_def Let_def)
          then show ?thesis using c2 by (rule upd)
        next
          case h2: (Inr h2)
          show ?thesis
          proof (cases "installHTLC L (toChain s) h2 ?sp2 (responderHTLC s)")
            case (Inl e)
            then have "store (joinSwap P L rnd now sw jp) = sw(jp_swapId jp \<mapsto> ?s2)"
              using Some v h1 i1 h2 by (simp add: joinSwap_def Let_def)
            then show ?thesis using c2 by (rule upd)
          next
            case i2: (Inr i2)
            let ?s3 = "?s2\<lparr> responderHTLC := i2, status := COUNTERPARTY_JOINED \<rparr>"
            have c3: "secretsConsistent P ?s3"
              using installHTLC_script[OF h2 i2]
            proof
              assume "lockingScript i2 = lockingScript (responderHTLC s)"
              then show ?thesis using secretsConsistent_cong[OF _ _ cs, of ?s3] by simp
            next
              assume "\<exists>c. createHTLCScript P ?prm2 = Inr c \<and> lockingScript i2 = Some (redeemScript c)"
              then obtain c where c: "createHTLCScript P ?prm2 = Inr c"
                "lockingScript i2 = Some (redeemScript c)" by blast
              have "\<exists>fH t rh. createHTLCScript P \<lparr> swapHash = swap_hash (initiator s),
                                       recipientHash = claim_hash (initiator s),
                                       refundHash = fH, timeout = t \<rparr> = Inr rh \<and>
                      redeemScript c = redeemScript rh"
                using c(1) by blast
              then show ?thesis using cs c(2) unfolding secretsConsistent_def by simp
            qed
            have "store (joinSwap P L rnd now sw jp) = sw(jp_swapId jp \<mapsto> ?s3)"
              using Some v h1 i1 h2 i2 by (simp add: joinSwap_def Let_def)
            then show ?thesis using c3 by (rule upd)
          qed
        qed
      qed
    qed
  qed
qed

lemma other_operations_keep_commitments:
  "store (recordInitiatorFunding L sw fp) k = Some s' \<Longrightarrow>
     \<exists>s. sw k = Some s \<and> initiator s' = initiator s \<and>
         lockingScript (responderHTLC s') = lockingScript (responderHTLC s)"
  "store (recordResponderFunding L sw fp) k = Some s' \<Longrightarrow>
     \<exists>s. sw k = Some s \<and> initiator s' = initiator s \<and>
         lockingScript (responderHTLC s') = lockingScript (responderHTLC s)"
  "store (initiatorClaim P L sw sp) k = Some s' \<Longrightarrow>
     \<exists>s. sw k = Some s \<and> initiator s' = initiator s \<and>
         lockingScript (responderHTLC s') = lockingScript (responderHTLC s)"
  "store (responderClaim P L sw rp) k = Some s' \<Longrightarrow>
     \<exists>s. sw k = Some s \<and> initiator s' = initiator s \<and>
         lockingScript (responderHTLC s') = lockingScript (responderHTLC s)"
  "store (initiatorRefund P L now now' sw sp) k = Some s' \<Longrightarrow>
     \<exists>s. sw k = Some s \<and> initiator s' = initiator s \<and>
         lockingScript (responderHTLC s') = lockingScript (responderHTLC s)"
  "store (responderRefund P L now now' sw sp) k = Some s' \<Longrightarrow>
     \<exists>s. sw k = Some s \<and> initiator s' = initiator s \<and>
         lockingScript (responderHTLC s') = lockingScript (responderHTLC s)"
  by (auto simp: recordInitiatorFunding_def recordResponderFunding_def initiatorClaim_def
        responderClaim_def initiatorRefund_def responderRefund_def Let_def
      split: option.splits sum.splits list.splits prod.splits if_splits)

lemma reachable_consistent:
  "reachable P sw \<Longrightarrow> \<forall>k s. sw k = Some s \<longrightarrow> secretsConsistent P s"
proof (induction rule: reachable.induct)
  case reachable_empty
  show ?case by simp
next
  case (reachable_initiateSwap sw L cfg rnd uuid now ip)
  then show ?case using initiateSwap_consistent by blast
next
  case (reachable_joinSwap sw L rnd now jp)
  then show ?case using joinSwap_consistent by blast
next
  case (reachable_recordInitiatorFunding sw L fp)
  then show ?case
    using other_operations_keep_commitments(1) secretsConsistent_cong by metis
next
  case (reachable_recordResponderFunding sw L fp)
  then show ?case
    using other_operations_keep_commitments(2) secretsConsistent_cong by metis
next
  case (reachable_initiatorClaim sw L sp)
  then show ?case
    using other_operations_keep_commitments(3) secretsConsistent_cong by metis
next
  case (reachable_responderClaim sw L rp)
  then show ?case
    using other_operations_keep_commitments(4) secretsConsistent_cong by metis
next
  case (reachable_initiatorRefund sw L now now' sp)
  then show ?case
    using other_operations_keep_commitments(5) secretsConsistent_cong by metis
next
  case (reachable_responderRefund sw L now now' sp)
  then show ?case
    using other_operations_keep_commitments(6) secretsConsistent_cong by metis
qed

text \<open>Facts for the examples: a join that returns, and the two-step history.\<close>

lemma generateInitiatorSecrets_length:
  assumes "\<forall>x. length (sha256Raw P x) = 32"
  shows "length (is_swap_hash (generateInitiatorSecrets P rnd)) = 64"
    "length (is_refund_hash (generateInitiatorSecrets P rnd)) = 64"
    "length (is_claim_hash (generateInitiatorSecrets P rnd)) = 64"
  using assms
  by (simp_all add: generateInitiatorSecrets_def generateWinternitzKeypair_def Let_def
      length_bytesToHex sha256_def)

lemma createHTLCScript_parse_ok:
  assumes ok: "createHTLCScript P prm = Inr rh" and t: "timeout prm \<le> 8640000000000"
  shows "\<exists>d. parseHTLCScript (redeemScript rh) = Inr d"
proof -
  have l: "length (swapHash prm) = 64" "length (recipientHash prm) = 64"
    "length (refundHash prm) = 64" "1 \<le> timeout prm"
    using ok by (auto simp: createHTLCScript_def split: if_splits)
  obtain bs where bs: "encodeMinimalNumber (timeout prm) = bytesToHex bs" "0 < length bs" "length bs \<le> 8"
    using encode_shape_all[OF l(4)] by blast
  have len: "length (bytesToHex bs) = 2 * length bs" by (simp only: length_bytesToHex)
  have k16: "length bs < 16" using bs(3) by simp
  have n: "nat (timeout prm) < 2 ^ 64" "int (nat (timeout prm)) = timeout prm"
    using l(4) t by auto
  have dec: "decodeMinimalNumber (bytesToHex bs) = timeout prm"
    using decode_encode_nat[OF n(1)] n(2) bs(1) by simp
  have p: "prm = \<lparr> swapHash = swapHash prm, recipientHash = recipientHash prm,
                 refundHash = refundHash prm, timeout = timeout prm \<rparr>" by simp
  have "createHTLCScript P \<lparr> swapHash = swapHash prm, recipientHash = recipientHash prm,
                 refundHash = refundHash prm, timeout = timeout prm \<rparr> = Inr rh"
    using ok p by metis
  then have rs: "redeemScript rh = scriptTemplate (swapHash prm) (recipientHash prm) (refundHash prm)
                    (length bs) (bytesToHex bs)"
    using createHTLCScript_template[OF l(1-4) bs(1) len bs(2) k16, of P] by auto
  have "parseHTLCScript (redeemScript rh) =
          (if decodeMinimalNumber (bytesToHex bs) * 1000 > 8640000000000000 then Inl InvalidTimeValue
            else Inr \<lparr> valid = True, p_swapHash = swapHash prm, p_recipientHash = recipientHash prm,
                       p_refundHash = refundHash prm,
                       p_timeout = decodeMinimalNumber (bytesToHex bs), p_timeoutHex = bytesToHex bs \<rparr>)"
    unfolding rs scriptTemplate_def
    using parse_template[OF l(1-3) len k16, of "[]"] by simp
  then show ?thesis using dec t by simp
qed

lemma joinSwap_joined:
  assumes s: "sw (jp_swapId p) = Some s" and st: "status s = INITIATED"
    and v: "v_valid (validateAddressOf L (fromChain s) (jp_toAddress p))"
           "v_valid (validateAddressOf L (toChain s) (jp_refundAddress p))"
    and ch: "fromChain s \<noteq> SOL" "toChain s \<noteq> SOL"
    and dg: "\<forall>x. length (sha256Raw P x) = 32"
    and ln: "length (swap_hash (initiator s)) = 64" "length (refund_hash (initiator s)) = 64"
            "length (claim_hash (initiator s)) = 64"
    and t: "1 \<le> hi_timeout (initiatorHTLC s)" "hi_timeout (initiatorHTLC s) \<le> 8640000000000"
           "1 \<le> hi_timeout (responderHTLC s)" "hi_timeout (responderHTLC s) \<le> 8640000000000"
  shows "\<exists>s' c. store (joinSwap P L rnd now sw p) (jp_swapId p) = Some s' \<and>
               status s' = COUNTERPARTY_JOINED \<and>
               createHTLCScript P \<lparr> swapHash = swap_hash (initiator s),
                                    recipientHash = claim_hash (initiator s),
                                    refundHash = rs_refund_hash (generateResponderSecrets P rnd),
                                    timeout = hi_timeout (responderHTLC s) \<rparr> = Inr c \<and>
               lockingScript (responderHTLC s') = Some (redeemScript c)"
proof -
  let ?RS = "generateResponderSecrets P rnd"
  have g: "length (rs_recipient_hash ?RS) = 64" "length (rs_refund_hash ?RS) = 64"
    using generated_hash_length[OF dg, of rnd] by auto
  have t64: "hi_timeout (initiatorHTLC s) < 2 ^ 64" "hi_timeout (responderHTLC s) < 2 ^ 64"
    using t by auto
  let ?prm1 = "\<lparr> swapHash = swap_hash (initiator s),
              recipientHash = rs_recipient_hash ?RS,
              refundHash = refund_hash (initiator s),
              timeout = hi_timeout (initiatorHTLC s) \<rparr>"
  let ?prm2 = "\<lparr> swapHash = swap_hash (initiator s),
              recipientHash = claim_hash (initiator s),
              refundHash = rs_refund_hash ?RS,
              timeout = hi_timeout (responderHTLC s) \<rparr>"
  obtain h1 where h1: "createHTLC P ?prm1 (fromChain s) = Inr h1"
    using createHTLC_succeeds[OF createHTLCScript_succeeds[of ?prm1 P]] ln g t t64 by auto
  obtain h2 where h2: "createHTLC P ?prm2 (toChain s) = Inr h2"
    using createHTLC_succeeds[OF createHTLCScript_succeeds[of ?prm2 P]] ln g t t64 by auto
  obtain j1 where j1: "installHTLC L (fromChain s) h1
               \<lparr> sol_swapHash = swap_hash (initiator s),
                 sol_recipientHash = rs_recipient_hash ?RS,
                 sol_refundHash = refund_hash (initiator s),
                 sol_initiator = refundAddress s,
                 sol_recipient = jp_toAddress p,
                 sol_lamports = fromAmount s,
                 sol_timeoutSeconds = hi_timeout (initiatorHTLC s) - now \<rparr>
               (initiatorHTLC s) = Inr j1"
    using installHTLC_succeeds[of "fromChain s" L h1] ch by blast
  obtain j2 where j2: "installHTLC L (toChain s) h2
               \<lparr> sol_swapHash = swap_hash (initiator s),
                 sol_recipientHash = claim_hash (initiator s),
                 sol_refundHash = rs_refund_hash ?RS,
                 sol_initiator = jp_refundAddress p,
                 sol_recipient = toAddress s,
                 sol_lamports = toAmount s,
                 sol_timeoutSeconds = hi_timeout (responderHTLC s) - now \<rparr>
               (responderHTLC s) = Inr j2"
    using installHTLC_succeeds[of "toChain s" L h2] ch by blast
  have tj: "hi_timeout j1 = hi_timeout (initiatorHTLC s)" "hi_timeout j2 = hi_timeout (responderHTLC s)"
    using installHTLC_timeout[OF j1] installHTLC_timeout[OF j2] by simp_all
  have nd: "\<not> dateThrows (hi_timeout j1)" "\<not> dateThrows (hi_timeout j2)"
    using t tj by (simp_all add: dateThrows_bound)
  obtain c where c: "createHTLCScript P ?prm2 = Inr c" "redeemScript h2 = redeemScript c"
    using createHTLC_Inr[OF h2] by blast
  have l2: "lockingScript j2 = Some (redeemScript c)"
    using installHTLC_lockingScript[OF h2 j2 ch(2)] c(2) by simp
  have "\<exists>s'. store (joinSwap P L rnd now sw p) (jp_swapId p) = Some s' \<and>
             status s' = COUNTERPARTY_JOINED \<and> responderHTLC s' = j2"
    using s st v h1 h2 j1 j2 nd by (simp add: joinSwap_def Let_def)
  then show ?thesis using c(1) l2 by auto
qed

lemma historyInitiated_swap:
  "\<exists>s. historyInitiated ''qswap_0123456789abcdef'' = Some s \<and> status s = INITIATED \<and>
       fromChain s = BTC \<and> toChain s = BSV \<and>
       swap_hash (initiator s) = is_swap_hash (generateInitiatorSecrets testPrims testEntropy) \<and>
       refund_hash (initiator s) = is_refund_hash (generateInitiatorSecrets testPrims testEntropy) \<and>
       claim_hash (initiator s) = is_claim_hash (generateInitiatorSecrets testPrims testEntropy) \<and>
       hi_timeout (initiatorHTLC s) = 1700086400 \<and> hi_timeout (responderHTLC s) = 1700043200"
proof -
  have ne: "toUpperCase ''btc'' \<noteq> toUpperCase ''BSV''" by code_simp
  have id: "''qswap_'' @ take 16 (filter (\<lambda>c. c \<noteq> CHR ''-'') ''01234567-89ab-cdef-0123-456789abcdef'')
              = ''qswap_0123456789abcdef''" by simp
  have d: "\<not> dateThrows 1700086400" "\<not> dateThrows 1700043200"
    by (simp_all add: dateThrows_def)
  show ?thesis
    unfolding historyInitiated_def initiateSwap_def testInitiate_def
    by (simp add: supportedChain_examples ne id d testLedger_def testConfig_def Let_def
             del: append.simps filter.simps)
qed

lemma historyJoined_script:
  "\<exists>s scr d. historyJoined ''qswap_0123456789abcdef'' = Some s \<and>
             status s = COUNTERPARTY_JOINED \<and>
             lockingScript (responderHTLC s) = Some scr \<and> parseHTLCScript scr = Inr d"
proof -
  obtain s0 where s0: "historyInitiated ''qswap_0123456789abcdef'' = Some s0" "status s0 = INITIATED"
       "fromChain s0 = BTC" "toChain s0 = BSV"
       "swap_hash (initiator s0) = is_swap_hash (generateInitiatorSecrets testPrims testEntropy)"
       "refund_hash (initiator s0) = is_refund_hash (generateInitiatorSecrets testPrims testEntropy)"
       "claim_hash (initiator s0) = is_claim_hash (generateInitiatorSecrets testPrims testEntropy)"
       "hi_timeout (initiatorHTLC s0) = 1700086400" "hi_timeout (responderHTLC s0) = 1700043200"
    using historyInitiated_swap by blast
  have dg: "\<forall>x. length (sha256Raw testPrims x) = 32" by (simp add: testPrims_def)
  have id: "jp_swapId historyJoin = ''qswap_0123456789abcdef''" by (simp add: historyJoin_def)
  have a: "historyInitiated (jp_swapId historyJoin) = Some s0" using s0(1) id by simp
  have v: "v_valid (validateAddressOf testLedger (fromChain s0) (jp_toAddress historyJoin))"
    "v_valid (validateAddressOf testLedger (toChain s0) (jp_refundAddress historyJoin))"
    by (simp_all add: testLedger_def historyJoin_def)
  have ch: "fromChain s0 \<noteq> SOL" "toChain s0 \<noteq> SOL" using s0(3,4) by simp_all
  have ln: "length (swap_hash (initiator s0)) = 64" "length (refund_hash (initiator s0)) = 64"
            "length (claim_hash (initiator s0)) = 64"
    using generateInitiatorSecrets_length[OF dg, of testEntropy] s0(5-7) by simp_all
  have t: "1 \<le> hi_timeout (initiatorHTLC s0)" "hi_timeout (initiatorHTLC s0) \<le> 8640000000000"
           "1 \<le> hi_timeout (responderHTLC s0)" "hi_timeout (responderHTLC s0) \<le> 8640000000000"
    using s0(8,9) by simp_all
  obtain s' c where j:
      "store (joinSwap testPrims testLedger (\<lambda>i. testEntropy (96 + i)) 1700000100
                historyInitiated historyJoin) (jp_swapId historyJoin) = Some s'"
      "status s' = COUNTERPARTY_JOINED"
      "createHTLCScript testPrims
         \<lparr> swapHash = swap_hash (initiator s0), recipientHash = claim_hash (initiator s0),
           refundHash = rs_refund_hash (generateResponderSecrets testPrims (\<lambda>i. testEntropy (96 + i))),
           timeout = hi_timeout (responderHTLC s0) \<rparr> = Inr c"
      "lockingScript (responderHTLC s') = Some (redeemScript c)"
    using joinSwap_joined[where sw = historyInitiated and p = historyJoin and s = s0
            and L = testLedger and P = testPrims and rnd = "\<lambda>i. testEntropy (96 + i)"
            and now = 1700000100, OF a s0(2) v ch dg ln t]
    by blast
  obtain d where d: "parseHTLCScript (redeemScript c) = Inr d"
    using createHTLCScript_parse_ok[OF j(3)] t(4) by auto
  have "historyJoined ''qswap_0123456789abcdef'' = Some s'"
    using j(1) id by (simp add: historyJoined_def)
  then show ?thesis using j(2,4) d by blast
qed

lemma historyJoined_reachable: "reachable testPrims historyJoined"
  unfolding historyJoined_def historyInitiated_def
  by (intro reachable_joinSwap reachable_initiateSwap reachable_empty)
section \<open>Claims about the script model\<close>

text \<open>
  C4 (as amended). For three hashes of 64 characters (32 bytes in hex) and a timeout
  \<open>t\<close> with \<open>1 \<le> t \<le> 8640000000000\<close>, \<^verbatim>\<open>createHTLCScript\<close> succeeds and
  \<^verbatim>\<open>parseHTLCScript\<close> of its \<^verbatim>\<open>redeemScript\<close> succeeds and returns exactly the
  original swap hash, recipient hash, refund hash and timeout (and the same encoded
  timeout). The upper bound is the largest number of seconds whose millisecond value is
  still a valid \<^verbatim>\<open>Date\<close>: the parser computes
  \<^verbatim>\<open>new Date(timeout * 1000).toISOString()\<close>.
\<close>

theorem createHTLCScript_parse_roundtrip:
  assumes "length sH = 64" "length rH = 64" "length fH = 64" "1 \<le> t" "t \<le> 8640000000000"
  shows "\<exists>r. createHTLCScript P \<lparr> swapHash = sH, recipientHash = rH, refundHash = fH, timeout = t \<rparr> = Inr r
           \<and> parseHTLCScript (redeemScript r)
               = Inr \<lparr> valid = True, p_swapHash = sH, p_recipientHash = rH, p_refundHash = fH,
                        p_timeout = t, p_timeoutHex = timeoutHex r \<rparr>"
proof -
  have t64: "nat t < 2 ^ 64" "0 < nat t" "int (nat t) = t" using assms(4,5) by auto
  obtain bs where bs: "encodeMinimalNumber t = bytesToHex bs" "0 < length bs" "length bs \<le> 8"
    using encode_shape[OF t64(2,1)] t64(3) by auto
  let ?tHex = "bytesToHex bs" and ?k = "length bs"
  have len: "length ?tHex = 2 * ?k" by (simp add: length_bytesToHex)
  have k16: "?k < 16" using bs(3) by simp
  have dec: "decodeMinimalNumber ?tHex = t"
    using decode_encode_nat[OF t64(1)] t64(3) bs(1) by simp
  note c = createHTLCScript_template[OF assms(1-4) bs(1) len bs(2) k16, of P]
  have "parseHTLCScript (scriptTemplate sH rH fH ?k ?tHex) =
          Inr \<lparr> valid = True, p_swapHash = sH, p_recipientHash = rH, p_refundHash = fH,
                 p_timeout = decodeMinimalNumber ?tHex, p_timeoutHex = ?tHex \<rparr>"
    unfolding scriptTemplate_def
    using parse_template[OF assms(1-3) len k16, of "[]"] dec assms(5) by simp
  then show ?thesis unfolding c using dec by simp
qed

text \<open>
  Witness for C4: the round trip at the parameters \<open>testParams 1700000000\<close>.
\<close>

theorem createHTLCScript_parse_roundtrip_witness:
  "\<exists>r. createHTLCScript testPrims (testParams 1700000000) = Inr r
       \<and> parseHTLCScript (redeemScript r)
            = Inr \<lparr> valid = True, p_swapHash = replicate 64 CHR ''a'',
                     p_recipientHash = replicate 64 CHR ''b'', p_refundHash = replicate 64 CHR ''c'',
                     p_timeout = 1700000000, p_timeoutHex = timeoutHex r \<rparr>"
  using createHTLCScript_parse_roundtrip
          [of "replicate 64 CHR ''a''" "replicate 64 CHR ''b''" "replicate 64 CHR ''c''"
              1700000000 testPrims]
  by (simp add: testParams_def)

text \<open>
  Counterexample to C4 as stated (every positive timeout): for the timeout
  \<open>8640000000001\<close> the builder succeeds, and parsing its script fails with the
  \<^verbatim>\<open>RangeError\<close> of \<^verbatim>\<open>toISOString\<close>.
\<close>

theorem createHTLCScript_parse_roundtrip_counterexample:
  "\<not> isl (createHTLCScript testPrims (testParams 8640000000001)) \<and>
   parseHTLCScript (redeemScript (projr (createHTLCScript testPrims (testParams 8640000000001))))
     = Inl InvalidTimeValue"
proof -
  have enc: "encodeMinimalNumber 8640000000001 = ''018021a8db07''" by code_simp
  have dec: "decodeMinimalNumber ''018021a8db07'' = 8640000000001" by code_simp
  have c: "createHTLCScript testPrims (testParams 8640000000001) =
        Inr \<lparr> swapHash = replicate 64 CHR ''a'', recipientHash = replicate 64 CHR ''b'',
              refundHash = replicate 64 CHR ''c'', timeout = 8640000000001,
              redeemScript = scriptTemplate (replicate 64 CHR ''a'') (replicate 64 CHR ''b'')
                               (replicate 64 CHR ''c'') 6 ''018021a8db07'',
              redeemScriptHash = bytesToHex (hash160 testPrims (Buf (hexToBytes
                  (scriptTemplate (replicate 64 CHR ''a'') (replicate 64 CHR ''b'')
                     (replicate 64 CHR ''c'') 6 ''018021a8db07'')))),
              sha256Hash = bytesToHex (sha256 testPrims (Buf (hexToBytes
                  (scriptTemplate (replicate 64 CHR ''a'') (replicate 64 CHR ''b'')
                     (replicate 64 CHR ''c'') 6 ''018021a8db07'')))),
              timeoutHex = ''018021a8db07'',
              scriptSize = length (hexToBytes
                  (scriptTemplate (replicate 64 CHR ''a'') (replicate 64 CHR ''b'')
                     (replicate 64 CHR ''c'') 6 ''018021a8db07'')) \<rparr>"
    unfolding testParams_def
    by (rule createHTLCScript_template[OF _ _ _ _ enc]) simp_all
  have p: "parseHTLCScript (scriptTemplate (replicate 64 CHR ''a'') (replicate 64 CHR ''b'')
                     (replicate 64 CHR ''c'') 6 ''018021a8db07'') = Inl InvalidTimeValue"
    unfolding scriptTemplate_def
    using parse_template[of "replicate 64 CHR ''a''" "replicate 64 CHR ''b''"
            "replicate 64 CHR ''c''" "''018021a8db07''" 6 "[]"]
    by (simp add: dec)
  show ?thesis unfolding c by (simp add: p)
qed

text \<open>
  C5 (the code at the failing input). \<open>testScript\<close> is the script of
  \<open>testParams 1700000000\<close>; with the extra byte \<^verbatim>\<open>ff\<close> appended after
  \<^verbatim>\<open>OP_ENDIF\<close> the parser still returns a parsed result, where the claim demands a
  malformed-program error for trailing bytes.
\<close>

theorem parseHTLCScript_accepts_trailing_bytes:
  "parseHTLCScript (testScript @ ''ff'')
     = Inr \<lparr> valid = True, p_swapHash = replicate 64 CHR ''a'',
              p_recipientHash = replicate 64 CHR ''b'', p_refundHash = replicate 64 CHR ''c'',
              p_timeout = 1700000000, p_timeoutHex = ''00f15365'' \<rparr>"
proof -
  have dec: "decodeMinimalNumber ''00f15365'' = 1700000000" by code_simp
  have h4: "hexDigit 4 = CHR ''4''" by (simp add: hexDigit_def)
  show ?thesis
    unfolding testScript_def
    using parse_template[of "replicate 64 CHR ''a''" "replicate 64 CHR ''b''"
            "replicate 64 CHR ''c''" "''00f15365''" 4 "''ff''"]
    by (simp add: dec h4)
qed

text \<open>
  C6. The four values of the specification, the round trip
  \<^verbatim>\<open>decodeMinimalNumber(encodeMinimalNumber(n)) == n\<close> for every \<open>n\<close> that fits the
  encoder's 8-byte buffer (\<open>0 \<le> n < 2^64\<close>), and the rule of the trailing zero byte: for
  \<open>0 \<le> n < 2^63\<close> (sign byte included, the encoding fits the buffer) the result is the
  minimal little-endian form of \<open>n\<close> with a zero byte appended exactly when the most
  significant used byte has its high bit set.
\<close>

theorem encodeMinimalNumber_roundtrip:
  "encodeMinimalNumber 0 = '''' \<and>
   encodeMinimalNumber 1 = ''01'' \<and>
   encodeMinimalNumber 127 = ''7f'' \<and>
   encodeMinimalNumber 128 = ''8000'' \<and>
   (\<forall>n. 0 \<le> n \<and> n < 2 ^ 64 \<longrightarrow> decodeMinimalNumber (encodeMinimalNumber n) = n) \<and>
   (\<forall>n. 0 \<le> n \<and> n < 2 ^ 63 \<longrightarrow> encodeMinimalNumber n = specMinimalEncoding (nat n))"
proof (intro conjI allI impI)
  show "encodeMinimalNumber 0 = ''''" by (simp add: encodeMinimalNumber_def)
  show "encodeMinimalNumber 1 = ''01''" by code_simp
  show "encodeMinimalNumber 127 = ''7f''" by code_simp
  show "encodeMinimalNumber 128 = ''8000''" by code_simp
next
  fix n :: int assume "0 \<le> n \<and> n < 2 ^ 64"
  then have "nat n < 2 ^ 64" "int (nat n) = n" by auto
  then show "decodeMinimalNumber (encodeMinimalNumber n) = n"
    using decode_encode_nat[of "nat n"] by simp
next
  fix n :: int assume "0 \<le> n \<and> n < 2 ^ 63"
  then have "nat n < 2 ^ 63" "int (nat n) = n" by auto
  then show "encodeMinimalNumber n = specMinimalEncoding (nat n)"
    using encode_eq_spec[of "nat n"] by simp
qed

text \<open>
  Witness for C6: the round trip and the specified form at the time stamp \<open>1700000000\<close>,
  whose encoding is \<^verbatim>\<open>00f15365\<close>.
\<close>

theorem encodeMinimalNumber_roundtrip_witness:
  "decodeMinimalNumber (encodeMinimalNumber 1700000000) = 1700000000 \<and>
   encodeMinimalNumber 1700000000 = specMinimalEncoding 1700000000 \<and>
   encodeMinimalNumber 1700000000 = ''00f15365''"
proof -
  have e: "encodeMinimalNumber 1700000000 = ''00f15365''" by code_simp
  have r: "\<forall>n. 0 \<le> n \<and> n < 2 ^ 64 \<longrightarrow> decodeMinimalNumber (encodeMinimalNumber n) = n"
    and m: "\<forall>n. 0 \<le> n \<and> n < 2 ^ 63 \<longrightarrow> encodeMinimalNumber n = specMinimalEncoding (nat n)"
    using encodeMinimalNumber_roundtrip by blast+
  have "decodeMinimalNumber (encodeMinimalNumber 1700000000) = 1700000000"
    using r[rule_format, of 1700000000] by simp
  moreover have "encodeMinimalNumber 1700000000 = specMinimalEncoding 1700000000"
    using m[rule_format, of 1700000000] by simp
  ultimately show ?thesis using e by blast
qed

section \<open>Claims about the cryptographic core\<close>

text \<open>
  C7. \<^verbatim>\<open>signWinternitz\<close> fails unless the message is exactly 32 bytes. For a 32-byte
  message and a key pair produced by \<^verbatim>\<open>generateWinternitzKeypair\<close> (from any
  entropy \<open>rnd\<close>) it returns a signature with 32 chunks whose chunk \<open>i\<close> reveals the
  chain hash (SHA-256 applied twice) applied \<open>256 - m[i]\<close> times to private scalar \<open>i\<close>,
  paired with the offset \<open>m[i]\<close>, and \<^verbatim>\<open>verifyWinternitz\<close> accepts that signature
  under the key pair's public key, whose commitment \<open>i\<close> is the chain hash applied 256
  times to private scalar \<open>i\<close>.
\<close>

theorem signWinternitz_verifyWinternitz:
  "(length (toBuffer msg) \<noteq> 32 \<longrightarrow>
      signWinternitz P msg pk = Inl (MessageSize (length (toBuffer msg)))) \<and>
   (length (toBuffer msg) = 32 \<longrightarrow>
      (\<exists>sig. signWinternitz P msg (privateKey (generateWinternitzKeypair P rnd)) = Inr sig
         \<and> length (chunks sig) = 32
         \<and> (\<forall>i < 32. revealed (chunks sig ! i)
                         = ((\<lambda>x. sha256Raw P (sha256Raw P x)) ^^ (256 - unat (toBuffer msg ! i)))
                             (scalars (privateKey (generateWinternitzKeypair P rnd)) ! i)
                     \<and> offset (chunks sig ! i) = unat (toBuffer msg ! i)
                     \<and> commitments (publicKey (generateWinternitzKeypair P rnd)) ! i
                         = ((\<lambda>x. sha256Raw P (sha256Raw P x)) ^^ 256)
                             (scalars (privateKey (generateWinternitzKeypair P rnd)) ! i))
         \<and> verifyWinternitz P msg sig (publicKey (generateWinternitzKeypair P rnd)) = Inr True))"
proof (intro conjI impI)
  assume "length (toBuffer msg) \<noteq> 32"
  then show "signWinternitz P msg pk = Inl (MessageSize (length (toBuffer msg)))"
    by (simp add: signWinternitz_def)
next
  assume len: "length (toBuffer msg) = 32"
  let ?m = "toBuffer msg"
  let ?k = "generateWinternitzKeypair P rnd"
  let ?sc = "scalars (privateKey ?k)"
  let ?cs = "map (\<lambda>i. \<lparr> revealed = iteratedHash256 P (?sc ! i) (WOTS_ITERATIONS - unat (?m ! i)),
                      offset = unat (?m ! i),
                      revealedHex = bytesToHex (iteratedHash256 P (?sc ! i) (WOTS_ITERATIONS - unat (?m ! i))) \<rparr>) [0..<WOTS_CHUNKS]"
  let ?sig = "\<lparr> chunks = ?cs, message = bytesToHex ?m,
                signaturePreimage = bytesToHex (concat (map revealed ?cs)),
                offsets = map offset ?cs \<rparr>"
  have lsc: "length ?sc = 32"
    by (simp add: generateWinternitzKeypair_def WOTS_CHUNKS_def Let_def)
  have sc: "\<And>i. i < 32 \<Longrightarrow> ?sc ! i = rnd i"
    by (simp add: generateWinternitzKeypair_def WOTS_CHUNKS_def Let_def)
  have cm: "\<And>i. i < 32 \<Longrightarrow> commitments (publicKey ?k) ! i = iteratedHash256 P (rnd i) 256"
    by (simp add: generateWinternitzKeypair_def WOTS_CHUNKS_def WOTS_ITERATIONS_def Let_def)
  have lcm: "length (commitments (publicKey ?k)) = 32"
    by (simp add: generateWinternitzKeypair_def WOTS_CHUNKS_def Let_def)
  have sgn: "signWinternitz P msg (privateKey ?k) = Inr ?sig"
    using len lsc signChunks_ok[of "[0..<WOTS_CHUNKS]" ?sc P ?m]
    by (simp add: signWinternitz_def WOTS_CHUNKS_def Let_def)
  have lcs: "length ?cs = 32" by (simp add: WOTS_CHUNKS_def)
  have ch: "\<And>i. i < 32 \<Longrightarrow> ?cs ! i = \<lparr> revealed = iteratedHash256 P (?sc ! i) (256 - unat (?m ! i)),
                      offset = unat (?m ! i),
                      revealedHex = bytesToHex (iteratedHash256 P (?sc ! i) (256 - unat (?m ! i))) \<rparr>"
    by (simp add: WOTS_CHUNKS_def WOTS_ITERATIONS_def)
  have ver: "verifyWinternitz P msg ?sig (publicKey ?k) = Inr True"
  proof -
    have "verifyChunks P ?m ?cs (commitments (publicKey ?k)) [0..<WOTS_CHUNKS] = Inr True"
    proof (rule verifyChunks_ok, intro ballI)
      fix i assume "i \<in> set [0..<WOTS_CHUNKS]"
      then have i: "i < 32" by (simp add: WOTS_CHUNKS_def)
      have "256 - unat (?m ! i) + unat (?m ! i) = 256" using unat_byte_le[of "?m ! i"] by simp
      then show "i < length ?cs \<and> i < length (commitments (publicKey ?k)) \<and>
            offset (?cs ! i) = unat (?m ! i) \<and>
            iteratedHash256 P (revealed (?cs ! i)) (unat (?m ! i)) = commitments (publicKey ?k) ! i"
        using i lcs lcm by (simp add: ch[OF i] cm[OF i] sc[OF i] iteratedHash256_add)
    qed
    then show ?thesis using len by (simp add: verifyWinternitz_def)
  qed
  show "\<exists>sig. signWinternitz P msg (privateKey ?k) = Inr sig
         \<and> length (chunks sig) = 32
         \<and> (\<forall>i < 32. revealed (chunks sig ! i)
                         = ((\<lambda>x. sha256Raw P (sha256Raw P x)) ^^ (256 - unat (?m ! i))) (?sc ! i)
                     \<and> offset (chunks sig ! i) = unat (?m ! i)
                     \<and> commitments (publicKey ?k) ! i
                         = ((\<lambda>x. sha256Raw P (sha256Raw P x)) ^^ 256) (?sc ! i))
         \<and> verifyWinternitz P msg sig (publicKey ?k) = Inr True"
    using sgn lcs ch ver cm sc
    by (intro exI[of _ ?sig]) (simp add: iteratedHash256_funpow)
qed


text \<open>
  Witness for C7: a two-byte message is refused with its size, and the signature of the
  32-byte message \<open>07 07 ... 07\<close> under the key pair generated from \<open>testEntropy\<close>
  verifies; its first chunk reveals the 249-fold chain hash of the first scalar.
\<close>

theorem signWinternitz_verifyWinternitz_witness:
  "signWinternitz testPrims (Hex ''abcd'') (privateKey (generateWinternitzKeypair testPrims testEntropy))
     = Inl (MessageSize 2) \<and>
   (\<exists>sig. signWinternitz testPrims (Buf (replicate 32 7))
             (privateKey (generateWinternitzKeypair testPrims testEntropy)) = Inr sig
        \<and> revealed (chunks sig ! 0)
            = ((\<lambda>x. sha256Raw testPrims (sha256Raw testPrims x)) ^^ 249) (testEntropy 0)
        \<and> offset (chunks sig ! 0) = 7
        \<and> verifyWinternitz testPrims (Buf (replicate 32 7)) sig
             (publicKey (generateWinternitzKeypair testPrims testEntropy)) = Inr True)"
proof -
  have l2: "length (toBuffer (Hex ''abcd'')) = 2" by (simp add: hexVal_def)
  have a: "signWinternitz testPrims (Hex ''abcd'')
             (privateKey (generateWinternitzKeypair testPrims testEntropy)) = Inl (MessageSize 2)"
    using signWinternitz_verifyWinternitz
            [of "Hex ''abcd''" testPrims "privateKey (generateWinternitzKeypair testPrims testEntropy)"]
            l2
    by simp
  have l: "length (toBuffer (Buf (replicate 32 (7 :: byte)))) = 32" by simp
  have s0: "scalars (privateKey (generateWinternitzKeypair testPrims testEntropy)) ! 0 = testEntropy 0"
    by (simp add: generateWinternitzKeypair_def WOTS_CHUNKS_def Let_def)
  have m0: "256 - unat (toBuffer (Buf (replicate 32 (7 :: byte))) ! 0) = 249"
    "unat (toBuffer (Buf (replicate 32 (7 :: byte))) ! 0) = 7"
    by simp_all
  obtain sig where
    sg: "signWinternitz testPrims (Buf (replicate 32 7))
             (privateKey (generateWinternitzKeypair testPrims testEntropy)) = Inr sig"
    and ch: "\<forall>i < 32. revealed (chunks sig ! i)
                = ((\<lambda>x. sha256Raw testPrims (sha256Raw testPrims x))
                     ^^ (256 - unat (toBuffer (Buf (replicate 32 (7 :: byte))) ! i)))
                    (scalars (privateKey (generateWinternitzKeypair testPrims testEntropy)) ! i)
              \<and> offset (chunks sig ! i) = unat (toBuffer (Buf (replicate 32 (7 :: byte))) ! i)
              \<and> commitments (publicKey (generateWinternitzKeypair testPrims testEntropy)) ! i
                  = ((\<lambda>x. sha256Raw testPrims (sha256Raw testPrims x)) ^^ 256)
                      (scalars (privateKey (generateWinternitzKeypair testPrims testEntropy)) ! i)"
    and vf: "verifyWinternitz testPrims (Buf (replicate 32 7)) sig
             (publicKey (generateWinternitzKeypair testPrims testEntropy)) = Inr True"
    using signWinternitz_verifyWinternitz
            [of "Buf (replicate 32 7)" testPrims _ testEntropy, THEN conjunct2, rule_format, OF l]
    by blast
  have c0: "revealed (chunks sig ! 0)
            = ((\<lambda>x. sha256Raw testPrims (sha256Raw testPrims x)) ^^ 249) (testEntropy 0)"
    "offset (chunks sig ! 0) = 7"
    using ch[rule_format, of 0] s0 m0 by simp_all
  show ?thesis using a sg c0 vf by blast
qed

text \<open>
  C10. \<^verbatim>\<open>verifyPreimage(secret, expectedHash)\<close> is true exactly when the lower-cased
  hex SHA-256 of the secret equals the lower-cased expected hash. The digest is already
  lower case, so this is equality of the digest with the lower-cased expected hash; two
  expected hashes that differ only in letter case give the same answer, and the digest
  written in upper case validates against its preimage.
\<close>

theorem verifyPreimage_case_insensitive:
  "(verifyPreimage P secret e \<longleftrightarrow> toLowerCase (sha256Hex P secret) = toLowerCase e) \<and>
   (verifyPreimage P secret e \<longleftrightarrow> sha256Hex P secret = toLowerCase e) \<and>
   (toLowerCase e' = toLowerCase e \<longrightarrow> verifyPreimage P secret e' = verifyPreimage P secret e) \<and>
   verifyPreimage P secret (toUpperCase (sha256Hex P secret))"
  by (simp add: verifyPreimage_def sha256Hex_def toLowerCase_bytesToHex toLowerCase_toUpperCase)

text \<open>
  Witness for C10: under the stand-in digest the secret \<^verbatim>\<open>ab\<close> hashes to \<^verbatim>\<open>ab\<close>
  repeated 32 times; the commitment written as \<^verbatim>\<open>AB\<close> repeated 32 times lower-cases to
  the same string and validates.
\<close>

theorem verifyPreimage_case_insensitive_witness:
  "toLowerCase (concat (replicate 32 ''AB'')) = toLowerCase (concat (replicate 32 ''ab'')) \<and>
   verifyPreimage testPrims (Hex ''ab'') (concat (replicate 32 ''ab'')) \<and>
   verifyPreimage testPrims (Hex ''ab'') (concat (replicate 32 ''AB''))"
proof -
  have lc: "toLowerCase (concat (replicate 32 ''AB'')) = toLowerCase (concat (replicate 32 ''ab''))"
    by code_simp
  have d: "sha256Hex testPrims (Hex ''ab'') = concat (replicate 32 ''ab'')"
    by code_simp
  have low: "toLowerCase (concat (replicate 32 ''ab'')) = concat (replicate 32 ''ab'')"
    by code_simp
  have v: "verifyPreimage testPrims (Hex ''ab'') (concat (replicate 32 ''ab''))"
    using verifyPreimage_case_insensitive[of testPrims "Hex ''ab''" "concat (replicate 32 ''ab'')"] d low
    by simp
  have "verifyPreimage testPrims (Hex ''ab'') (concat (replicate 32 ''AB''))
          = verifyPreimage testPrims (Hex ''ab'') (concat (replicate 32 ''ab''))"
    using verifyPreimage_case_insensitive
            [of testPrims "Hex ''ab''" "concat (replicate 32 ''ab'')" "concat (replicate 32 ''AB'')"] lc
    by blast
  then show ?thesis using lc v by blast
qed

section \<open>Claims about the swap coordinator\<close>

text \<open>
  C9. For every stored swap and every refund attempt (initiator or responder) at a time
  \<open>now\<close> strictly before the time-out of the corresponding escrow, the operation fails
  with the time-out-not-reached error whose remaining seconds are \<open>timeout - now\<close>; it
  makes no ledger call and the store is unchanged.
\<close>

theorem refund_before_timeout:
  "(\<forall>s. sw (sp_swapId p) = Some s \<and> now < hi_timeout (initiatorHTLC s) \<longrightarrow>
        initiatorRefund P L now now' sw p =
          \<lparr> res = Inl (TimeoutNotReached (hi_timeout (initiatorHTLC s) - now)), store = sw, trace = [] \<rparr>) \<and>
   (\<forall>s. sw (sp_swapId p) = Some s \<and> now < hi_timeout (responderHTLC s) \<longrightarrow>
        responderRefund P L now now' sw p =
          \<lparr> res = Inl (TimeoutNotReached (hi_timeout (responderHTLC s) - now)), store = sw, trace = [] \<rparr>)"
  by (simp add: initiatorRefund_def responderRefund_def)

text \<open>
  Witness for C9: both refunds on the stored test swap at time \<open>1700000000\<close>, before the
  time-outs \<open>1700086400\<close> and \<open>1700043200\<close>.
\<close>

theorem refund_before_timeout_witness:
  "initiatorRefund testPrims testLedger 1700000000 1700000001 testStore testSpend =
     \<lparr> res = Inl (TimeoutNotReached 86400), store = testStore, trace = [] \<rparr> \<and>
   responderRefund testPrims testLedger 1700000000 1700000001 testStore testSpend =
     \<lparr> res = Inl (TimeoutNotReached 43200), store = testStore, trace = [] \<rparr>"
proof -
  have s: "testStore (sp_swapId testSpend) = Some testSwap"
    by (simp add: testStore_def testSpend_def)
  have t: "hi_timeout (initiatorHTLC testSwap) = 1700086400" "hi_timeout (responderHTLC testSwap) = 1700043200"
    by (simp_all add: testSwap_def)
  show ?thesis
    using refund_before_timeout[of testStore testSpend 1700000000 testPrims testLedger 1700000001] s t
    by simp
qed

text \<open>
  C1 (the code at the failing input). The test swap is \<open>FULLY_FUNDED\<close>; the initiator
  claims while the BSV balance query fails. The operation throws the ledger error after one
  balance query and no broadcast, and the stored status is \<open>CLAIMING\<close>, not the
  pre-attempt \<open>FULLY_FUNDED\<close>; a second attempt on a working ledger is refused by the
  status check.
\<close>

theorem initiatorClaim_failure_leaves_claiming:
  "res (initiatorClaim testPrims downLedger testStore testSpend)
     = Inl (LedgerFailure ''Failed to fetch HTLC balance: timeout'') \<and>
   trace (initiatorClaim testPrims downLedger testStore testSpend) = [BalanceQuery BSV] \<and>
   map_option status (testStore ''qswap_test'') = Some FULLY_FUNDED \<and>
   map_option status (store (initiatorClaim testPrims downLedger testStore testSpend) ''qswap_test'')
     = Some CLAIMING \<and>
   res (initiatorClaim testPrims testLedger
          (store (initiatorClaim testPrims downLedger testStore testSpend)) testSpend)
     = Inl (CannotClaimInStatus CLAIMING)"
  by (simp add: initiatorClaim_def testStore_def testSpend_def testSwap_def downLedger_def
      testLedger_def escrowUTXOs_def getHTLCBalance_def Let_def)


text \<open>
  C8 (as amended). \<^verbatim>\<open>initiateSwap\<close> fails with a validation error and leaves the store
  unchanged (no swap record is created) whenever the two chain names are equal after
  upper-casing, whenever a chain name is not one of the supported three, and whenever the
  refund address fails the validator of the source chain's adapter or the destination
  address fails the validator of the destination chain's adapter. It does not check the
  amounts: with two different supported chains and two valid addresses it stores, under
  the new swap id, a record in the state \<open>INITIATED\<close> whose amounts are
  \<^verbatim>\<open>parseInt(fromAmount)\<close> and \<^verbatim>\<open>parseInt(toAmount)\<close>, whatever their sign (or
  \<^verbatim>\<open>NaN\<close>). It then returns successfully when both time-outs (the clock plus the
  configured number of seconds) are at most \<open>8640000000000\<close> in magnitude; otherwise
  formatting the time-out dates throws and the record stays in the store.
\<close>

theorem initiateSwap_validation:
  "(toUpperCase (ip_fromChain p) = toUpperCase (ip_toChain p) \<longrightarrow>
      res (initiateSwap P L cfg rnd uuid now sw p) \<in> {Inl InvalidFromChain, Inl ChainsMustDiffer} \<and>
      store (initiateSwap P L cfg rnd uuid now sw p) = sw) \<and>
   (supportedChain (ip_fromChain p) = None \<longrightarrow>
      res (initiateSwap P L cfg rnd uuid now sw p) = Inl InvalidFromChain \<and>
      store (initiateSwap P L cfg rnd uuid now sw p) = sw) \<and>
   (supportedChain (ip_toChain p) = None \<longrightarrow>
      isl (res (initiateSwap P L cfg rnd uuid now sw p)) \<and>
      store (initiateSwap P L cfg rnd uuid now sw p) = sw) \<and>
   (\<forall>fc. supportedChain (ip_fromChain p) = Some fc \<and>
         \<not> v_valid (validateAddressOf L fc (ip_refundAddress p)) \<longrightarrow>
      isl (res (initiateSwap P L cfg rnd uuid now sw p)) \<and>
      store (initiateSwap P L cfg rnd uuid now sw p) = sw) \<and>
   (\<forall>tc. supportedChain (ip_toChain p) = Some tc \<and>
         \<not> v_valid (validateAddressOf L tc (ip_toAddress p)) \<longrightarrow>
      isl (res (initiateSwap P L cfg rnd uuid now sw p)) \<and>
      store (initiateSwap P L cfg rnd uuid now sw p) = sw) \<and>
   (\<forall>fc tc. supportedChain (ip_fromChain p) = Some fc \<and> supportedChain (ip_toChain p) = Some tc \<and>
         fc \<noteq> tc \<and>
         v_valid (validateAddressOf L fc (ip_refundAddress p)) \<and>
         v_valid (validateAddressOf L tc (ip_toAddress p)) \<longrightarrow>
      (\<exists>s. store (initiateSwap P L cfg rnd uuid now sw p)
               (''qswap_'' @ take 16 (filter (\<lambda>c. c \<noteq> CHR ''-'') uuid)) = Some s \<and>
           status s = INITIATED \<and>
           fromAmount s = parseInt (ip_fromAmount p) \<and> toAmount s = parseInt (ip_toAmount p)) \<and>
      (\<bar>now + initiatorTimeoutSeconds cfg\<bar> \<le> 8640000000000 \<and>
       \<bar>now + responderTimeoutSeconds cfg\<bar> \<le> 8640000000000 \<longrightarrow>
         (\<exists>r. res (initiateSwap P L cfg rnd uuid now sw p) = Inr r \<and>
              ir_swapId r = ''qswap_'' @ take 16 (filter (\<lambda>c. c \<noteq> CHR ''-'') uuid) \<and>
              ir_status r = INITIATED \<and>
              ir_fromAmount r = parseInt (ip_fromAmount p) \<and>
              ir_toAmount r = parseInt (ip_toAmount p))) \<and>
      (8640000000000 < \<bar>now + initiatorTimeoutSeconds cfg\<bar> \<or>
       8640000000000 < \<bar>now + responderTimeoutSeconds cfg\<bar> \<longrightarrow>
         res (initiateSwap P L cfg rnd uuid now sw p) = Inl InvalidTimeValue))"
proof (intro conjI impI allI)
  assume eq: "toUpperCase (ip_fromChain p) = toUpperCase (ip_toChain p)"
  show "res (initiateSwap P L cfg rnd uuid now sw p) \<in> {Inl InvalidFromChain, Inl ChainsMustDiffer}"
    using eq supportedChain_None_upper[OF eq]
    by (auto simp: initiateSwap_def split: option.splits)
  show "store (initiateSwap P L cfg rnd uuid now sw p) = sw"
    using eq by (auto simp: initiateSwap_def split: option.splits)
next
  assume "supportedChain (ip_fromChain p) = None"
  then show "res (initiateSwap P L cfg rnd uuid now sw p) = Inl InvalidFromChain"
    "store (initiateSwap P L cfg rnd uuid now sw p) = sw"
    by (simp_all add: initiateSwap_def)
next
  assume "supportedChain (ip_toChain p) = None"
  then show "isl (res (initiateSwap P L cfg rnd uuid now sw p))"
    "store (initiateSwap P L cfg rnd uuid now sw p) = sw"
    by (simp_all add: initiateSwap_def split: option.splits)
next
  fix fc assume "supportedChain (ip_fromChain p) = Some fc \<and>
         \<not> v_valid (validateAddressOf L fc (ip_refundAddress p))"
  then show "isl (res (initiateSwap P L cfg rnd uuid now sw p))"
    "store (initiateSwap P L cfg rnd uuid now sw p) = sw"
    by (simp_all add: initiateSwap_def Let_def split: option.splits)
next
  fix tc assume "supportedChain (ip_toChain p) = Some tc \<and>
         \<not> v_valid (validateAddressOf L tc (ip_toAddress p))"
  then show "isl (res (initiateSwap P L cfg rnd uuid now sw p))"
    "store (initiateSwap P L cfg rnd uuid now sw p) = sw"
    by (simp_all add: initiateSwap_def Let_def split: option.splits)
next
  fix fc tc
  assume h: "supportedChain (ip_fromChain p) = Some fc \<and> supportedChain (ip_toChain p) = Some tc \<and>
         fc \<noteq> tc \<and>
         v_valid (validateAddressOf L fc (ip_refundAddress p)) \<and>
         v_valid (validateAddressOf L tc (ip_toAddress p))"
  then have ne: "toUpperCase (ip_fromChain p) \<noteq> toUpperCase (ip_toChain p)"
    using supportedChain_upper[of "ip_fromChain p" fc "ip_toChain p" tc] by simp
  show "\<exists>s. store (initiateSwap P L cfg rnd uuid now sw p)
               (''qswap_'' @ take 16 (filter (\<lambda>c. c \<noteq> CHR ''-'') uuid)) = Some s \<and>
           status s = INITIATED \<and>
           fromAmount s = parseInt (ip_fromAmount p) \<and> toAmount s = parseInt (ip_toAmount p)"
    using h ne by (simp add: initiateSwap_def Let_def)
  {
    assume "\<bar>now + initiatorTimeoutSeconds cfg\<bar> \<le> 8640000000000 \<and>
            \<bar>now + responderTimeoutSeconds cfg\<bar> \<le> 8640000000000"
    then have "\<not> dateThrows (now + initiatorTimeoutSeconds cfg)"
      "\<not> dateThrows (now + responderTimeoutSeconds cfg)"
      by (simp_all add: dateThrows_bound)
    then show "\<exists>r. res (initiateSwap P L cfg rnd uuid now sw p) = Inr r \<and>
              ir_swapId r = ''qswap_'' @ take 16 (filter (\<lambda>c. c \<noteq> CHR ''-'') uuid) \<and>
              ir_status r = INITIATED \<and>
              ir_fromAmount r = parseInt (ip_fromAmount p) \<and>
              ir_toAmount r = parseInt (ip_toAmount p)"
      using h ne by (simp add: initiateSwap_def Let_def)
  }
  {
    assume "8640000000000 < \<bar>now + initiatorTimeoutSeconds cfg\<bar> \<or>
            8640000000000 < \<bar>now + responderTimeoutSeconds cfg\<bar>"
    then have "dateThrows (now + initiatorTimeoutSeconds cfg) \<or>
               dateThrows (now + responderTimeoutSeconds cfg)"
      by (simp add: dateThrows_bound)
    then show "res (initiateSwap P L cfg rnd uuid now sw p) = Inl InvalidTimeValue"
      using h ne by (auto simp add: initiateSwap_def Let_def)
  }
qed

text \<open>
  Witness for C8: on a store holding the test swap, a request from \<^verbatim>\<open>btc\<close> to
  \<^verbatim>\<open>Btc\<close> is rejected, a request with the refund address \<^verbatim>\<open>bad\<close> is rejected with
  the store unchanged, and the request \<open>testInitiate\<close> at the clock \<open>1700000000\<close> returns
  successfully with the amounts \<open>0\<close> and \<open>-5\<close>.
\<close>

theorem initiateSwap_validation_witness:
  "res (initiateSwap testPrims testLedger testConfig testEntropy ''u'' 1700000000 testStore
          (testInitiate\<lparr> ip_toChain := ''Btc'' \<rparr>))
     \<in> {Inl InvalidFromChain, Inl ChainsMustDiffer} \<and>
   isl (res (initiateSwap testPrims testLedger testConfig testEntropy ''u'' 1700000000 testStore
          (testInitiate\<lparr> ip_refundAddress := ''bad'' \<rparr>))) \<and>
   store (initiateSwap testPrims testLedger testConfig testEntropy ''u'' 1700000000 testStore
          (testInitiate\<lparr> ip_refundAddress := ''bad'' \<rparr>)) = testStore \<and>
   (\<exists>r. res (initiateSwap testPrims testLedger testConfig testEntropy ''u'' 1700000000 testStore
               testInitiate) = Inr r \<and>
        ir_status r = INITIATED \<and> ir_fromAmount r = Finite 0 \<and> ir_toAmount r = Finite (- 5))"
proof -
  have u: "toUpperCase (ip_fromChain (testInitiate\<lparr> ip_toChain := ''Btc'' \<rparr>))
         = toUpperCase (ip_toChain (testInitiate\<lparr> ip_toChain := ''Btc'' \<rparr>))"
    unfolding testInitiate_def by code_simp
  have a: "res (initiateSwap testPrims testLedger testConfig testEntropy ''u'' 1700000000 testStore
          (testInitiate\<lparr> ip_toChain := ''Btc'' \<rparr>))
     \<in> {Inl InvalidFromChain, Inl ChainsMustDiffer}"
    using initiateSwap_validation[of "testInitiate\<lparr> ip_toChain := ''Btc'' \<rparr>" testPrims testLedger
            testConfig testEntropy "''u''" 1700000000 testStore] u
    by blast
  have f: "supportedChain (ip_fromChain (testInitiate\<lparr> ip_refundAddress := ''bad'' \<rparr>)) = Some BTC"
    by (simp add: testInitiate_def supportedChain_examples)
  have v: "\<not> v_valid (validateAddressOf testLedger BTC
              (ip_refundAddress (testInitiate\<lparr> ip_refundAddress := ''bad'' \<rparr>)))"
    by (simp add: testLedger_def)
  have b: "isl (res (initiateSwap testPrims testLedger testConfig testEntropy ''u'' 1700000000 testStore
          (testInitiate\<lparr> ip_refundAddress := ''bad'' \<rparr>))) \<and>
   store (initiateSwap testPrims testLedger testConfig testEntropy ''u'' 1700000000 testStore
          (testInitiate\<lparr> ip_refundAddress := ''bad'' \<rparr>)) = testStore"
    using initiateSwap_validation[of "testInitiate\<lparr> ip_refundAddress := ''bad'' \<rparr>" testPrims testLedger
            testConfig testEntropy "''u''" 1700000000 testStore] f v
    by blast
  have g: "supportedChain (ip_fromChain testInitiate) = Some BTC \<and>
           supportedChain (ip_toChain testInitiate) = Some BSV \<and> BTC \<noteq> BSV \<and>
           v_valid (validateAddressOf testLedger BTC (ip_refundAddress testInitiate)) \<and>
           v_valid (validateAddressOf testLedger BSV (ip_toAddress testInitiate))"
    by (simp add: testInitiate_def supportedChain_examples testLedger_def)
  have t: "\<bar>1700000000 + initiatorTimeoutSeconds testConfig\<bar> \<le> 8640000000000 \<and>
           \<bar>1700000000 + responderTimeoutSeconds testConfig\<bar> \<le> 8640000000000"
    by (simp add: testConfig_def)
  have am: "parseInt (ip_fromAmount testInitiate) = Finite 0"
    "parseInt (ip_toAmount testInitiate) = Finite (- 5)"
    by (simp_all add: testInitiate_def parseInt_examples)
  have c: "\<exists>r. res (initiateSwap testPrims testLedger testConfig testEntropy ''u'' 1700000000 testStore
               testInitiate) = Inr r \<and>
        ir_status r = INITIATED \<and> ir_fromAmount r = Finite 0 \<and> ir_toAmount r = Finite (- 5)"
    using initiateSwap_validation[of testInitiate testPrims testLedger
            testConfig testEntropy "''u''" 1700000000 testStore] g t am
    by (metis (no_types, lifting))
  show ?thesis using a b c by blast
qed


text \<open>
  Counterexample to C8 as stated (non-positive amounts are rejected): the request
  \<open>testInitiate\<close> has \<open>fromAmount = 0\<close> and \<open>toAmount = -5\<close>, two different supported
  chains and valid addresses; \<^verbatim>\<open>initiateSwap\<close> succeeds and stores an \<open>INITIATED\<close>
  record with these amounts.
\<close>

theorem initiateSwap_validation_counterexample:
  "\<not> isl (res (initiateSwap testPrims testLedger testConfig testEntropy
                 ''01234567-89ab-cdef-0123-456789abcdef'' 1700000000 Map.empty testInitiate)) \<and>
   map_option (\<lambda>s. (status s, fromAmount s, toAmount s))
     (store (initiateSwap testPrims testLedger testConfig testEntropy
                 ''01234567-89ab-cdef-0123-456789abcdef'' 1700000000 Map.empty testInitiate)
        ''qswap_0123456789abcdef'')
     = Some (INITIATED, Finite 0, Finite (- 5))"
proof -
  have ne: "toUpperCase ''btc'' \<noteq> toUpperCase ''BSV''" by code_simp
  have id: "''qswap_'' @ take 16 (filter (\<lambda>c. c \<noteq> CHR ''-'') ''01234567-89ab-cdef-0123-456789abcdef'')
              = ''qswap_0123456789abcdef''" by simp
  have d: "\<not> dateThrows (1700000000 + initiatorTimeoutSeconds testConfig)"
    "\<not> dateThrows (1700000000 + responderTimeoutSeconds testConfig)"
    by (simp_all add: dateThrows_def testConfig_def)
  show ?thesis
    unfolding initiateSwap_def testInitiate_def
    by (simp add: supportedChain_examples ne id d testLedger_def Let_def parseInt_examples
             del: append.simps filter.simps)
qed
text \<open>
  C3. \<^verbatim>\<open>joinSwap\<close> on a stored swap whose status is not \<open>INITIATED\<close> fails with the
  state error and changes nothing. Whenever it succeeds, the swap was \<open>INITIATED\<close>, the
  stored swap is \<open>COUNTERPARTY_JOINED\<close>, the initiator's escrow script is the one
  \<^verbatim>\<open>createHTLCScript\<close> derives from (initiator swap hash, responder recipient hash,
  initiator refund hash, initiator time-out), the responder's escrow script is the one
  derived from (initiator swap hash, initiator claim hash, responder refund hash, responder
  time-out), and each is stored as the escrow's locking script on the script ledgers BSV
  and BTC. Written out, each script is
  \<^verbatim>\<open>63 a8 20 <swap hash> 88 a8 20 <recipient hash> 87 67 <push of the time-out> b1 75 a8 20 <refund hash> 87 68\<close>
  with exactly these operands, the time-out in its minimal little-endian encoding, so both
  scripts carry the same swap hash at the same position. Success is not an empty case:
  for an \<open>INITIATED\<close> swap between BSV and BTC with valid addresses, 64-character
  initiator hashes, a 32-byte digest function and time-outs between \<open>1\<close> and
  \<open>8640000000000\<close>, \<^verbatim>\<open>joinSwap\<close> returns. With a time-out above \<open>8640000000000\<close>
  formatting the time-out date of the returned object throws after the swap has become
  \<open>COUNTERPARTY_JOINED\<close>.
\<close>

theorem joinSwap_spec:
  "(\<forall>s. sw (jp_swapId p) = Some s \<and> status s \<noteq> INITIATED \<longrightarrow>
       joinSwap P L rnd now sw p =
         \<lparr> res = Inl (CannotJoinInStatus (status s)), store = sw, trace = [] \<rparr>) \<and>
   (\<forall>r. res (joinSwap P L rnd now sw p) = Inr r \<longrightarrow>
       (\<exists>s s' ih rh.
          sw (jp_swapId p) = Some s \<and> status s = INITIATED \<and>
          store (joinSwap P L rnd now sw p) (jp_swapId p) = Some s' \<and>
          status s' = COUNTERPARTY_JOINED \<and> jr_status r = COUNTERPARTY_JOINED \<and>
          recipient_hash (responder s') = Some (rs_recipient_hash (generateResponderSecrets P rnd)) \<and>
          r_refund_hash (responder s') = Some (rs_refund_hash (generateResponderSecrets P rnd)) \<and>
          initiator s' = initiator s \<and>
          createHTLCScript P
            \<lparr> swapHash = swap_hash (initiator s),
              recipientHash = rs_recipient_hash (generateResponderSecrets P rnd),
              refundHash = refund_hash (initiator s),
              timeout = hi_timeout (initiatorHTLC s) \<rparr> = Inr ih \<and>
          createHTLCScript P
            \<lparr> swapHash = swap_hash (initiator s),
              recipientHash = claim_hash (initiator s),
              refundHash = rs_refund_hash (generateResponderSecrets P rnd),
              timeout = hi_timeout (responderHTLC s) \<rparr> = Inr rh \<and>
          redeemScript ih =
            ''63a820'' @ swap_hash (initiator s) @ ''88a820''
              @ rs_recipient_hash (generateResponderSecrets P rnd) @ ''8767''
              @ [CHR ''0'', hexDigit (length (specMinimalEncoding (nat (hi_timeout (initiatorHTLC s)))) div 2)]
              @ specMinimalEncoding (nat (hi_timeout (initiatorHTLC s)))
              @ ''b175a820'' @ refund_hash (initiator s) @ ''8768'' \<and>
          redeemScript rh =
            ''63a820'' @ swap_hash (initiator s) @ ''88a820''
              @ claim_hash (initiator s) @ ''8767''
              @ [CHR ''0'', hexDigit (length (specMinimalEncoding (nat (hi_timeout (responderHTLC s)))) div 2)]
              @ specMinimalEncoding (nat (hi_timeout (responderHTLC s)))
              @ ''b175a820'' @ rs_refund_hash (generateResponderSecrets P rnd) @ ''8768'' \<and>
          (fromChain s \<noteq> SOL \<longrightarrow> lockingScript (initiatorHTLC s') = Some (redeemScript ih)) \<and>
          (toChain s \<noteq> SOL \<longrightarrow> lockingScript (responderHTLC s') = Some (redeemScript rh)) \<and>
          substring (redeemScript ih) 6 70 = swap_hash (initiator s) \<and>
          substring (redeemScript rh) 6 70 = swap_hash (initiator s))) \<and>
   (\<forall>s. sw (jp_swapId p) = Some s \<and> status s = INITIATED \<and>
        v_valid (validateAddressOf L (fromChain s) (jp_toAddress p)) \<and>
        v_valid (validateAddressOf L (toChain s) (jp_refundAddress p)) \<and>
        fromChain s \<noteq> SOL \<and> toChain s \<noteq> SOL \<and>
        (\<forall>x. length (sha256Raw P x) = 32) \<and>
        length (swap_hash (initiator s)) = 64 \<and> length (refund_hash (initiator s)) = 64 \<and>
        length (claim_hash (initiator s)) = 64 \<and>
        1 \<le> hi_timeout (initiatorHTLC s) \<and> 1 \<le> hi_timeout (responderHTLC s) \<and>
        hi_timeout (initiatorHTLC s) \<le> 8640000000000 \<and>
        hi_timeout (responderHTLC s) \<le> 8640000000000 \<longrightarrow>
        (\<exists>r. res (joinSwap P L rnd now sw p) = Inr r)) \<and>
   (\<forall>s. sw (jp_swapId p) = Some s \<and> status s = INITIATED \<and>
        v_valid (validateAddressOf L (fromChain s) (jp_toAddress p)) \<and>
        v_valid (validateAddressOf L (toChain s) (jp_refundAddress p)) \<and>
        fromChain s \<noteq> SOL \<and> toChain s \<noteq> SOL \<and>
        (\<forall>x. length (sha256Raw P x) = 32) \<and>
        length (swap_hash (initiator s)) = 64 \<and> length (refund_hash (initiator s)) = 64 \<and>
        length (claim_hash (initiator s)) = 64 \<and>
        1 \<le> hi_timeout (initiatorHTLC s) \<and> 1 \<le> hi_timeout (responderHTLC s) \<and>
        hi_timeout (initiatorHTLC s) < 2 ^ 64 \<and> hi_timeout (responderHTLC s) < 2 ^ 64 \<and>
        (8640000000000 < hi_timeout (initiatorHTLC s) \<or>
         8640000000000 < hi_timeout (responderHTLC s)) \<longrightarrow>
        res (joinSwap P L rnd now sw p) = Inl InvalidTimeValue \<and>
        (\<exists>s'. store (joinSwap P L rnd now sw p) (jp_swapId p) = Some s' \<and>
              status s' = COUNTERPARTY_JOINED))"
proof (intro conjI allI impI)
  fix s assume "sw (jp_swapId p) = Some s \<and> status s \<noteq> INITIATED"
  then show "joinSwap P L rnd now sw p =
         \<lparr> res = Inl (CannotJoinInStatus (status s)), store = sw, trace = [] \<rparr>"
    by (simp add: joinSwap_def)
next
  fix r assume ok: "res (joinSwap P L rnd now sw p) = Inr r"
  let ?RS = "generateResponderSecrets P rnd"
  obtain s where s: "sw (jp_swapId p) = Some s"
    using ok by (cases "sw (jp_swapId p)") (simp_all add: joinSwap_def)
  have st: "status s = INITIATED"
    using ok s by (cases "status s = INITIATED") (simp_all add: joinSwap_def)
  have v1: "v_valid (validateAddressOf L (fromChain s) (jp_toAddress p))"
    using ok s st
    by (cases "v_valid (validateAddressOf L (fromChain s) (jp_toAddress p))")
       (simp_all add: joinSwap_def)
  have v2: "v_valid (validateAddressOf L (toChain s) (jp_refundAddress p))"
    using ok s st v1
    by (cases "v_valid (validateAddressOf L (toChain s) (jp_refundAddress p))")
       (simp_all add: joinSwap_def)
  let ?s1 = "s\<lparr> responder :=
                      \<lparr> recipient_secret = Some (rs_recipient_secret ?RS),
                        recipient_hash = Some (rs_recipient_hash ?RS),
                        r_refund_secret = Some (rs_refund_secret ?RS),
                        r_refund_hash = Some (rs_refund_hash ?RS),
                        r_toAddress = Some (jp_toAddress p),
                        r_refundAddress = Some (jp_refundAddress p) \<rparr> \<rparr>"
  let ?prm1 = "\<lparr> swapHash = swap_hash (initiator s),
              recipientHash = rs_recipient_hash ?RS,
              refundHash = refund_hash (initiator s),
              timeout = hi_timeout (initiatorHTLC s) \<rparr>"
  let ?prm2 = "\<lparr> swapHash = swap_hash (initiator s),
              recipientHash = claim_hash (initiator s),
              refundHash = rs_refund_hash ?RS,
              timeout = hi_timeout (responderHTLC s) \<rparr>"
  let ?sp1 = "\<lparr> sol_swapHash = swap_hash (initiator s),
                 sol_recipientHash = rs_recipient_hash ?RS,
                 sol_refundHash = refund_hash (initiator s),
                 sol_initiator = refundAddress s,
                 sol_recipient = jp_toAddress p,
                 sol_lamports = fromAmount s,
                 sol_timeoutSeconds = hi_timeout (initiatorHTLC s) - now \<rparr>"
  let ?sp2 = "\<lparr> sol_swapHash = swap_hash (initiator s),
                 sol_recipientHash = claim_hash (initiator s),
                 sol_refundHash = rs_refund_hash ?RS,
                 sol_initiator = jp_refundAddress p,
                 sol_recipient = toAddress s,
                 sol_lamports = toAmount s,
                 sol_timeoutSeconds = hi_timeout (responderHTLC s) - now \<rparr>"
  obtain h1 where h1: "createHTLC P ?prm1 (fromChain s) = Inr h1"
    using ok s st v1 v2
    by (cases "createHTLC P ?prm1 (fromChain s)") (simp_all add: joinSwap_def Let_def)
  obtain i1 where i1: "installHTLC L (fromChain s) h1 ?sp1 (initiatorHTLC s) = Inr i1"
    using ok s st v1 v2 h1
    by (cases "installHTLC L (fromChain s) h1 ?sp1 (initiatorHTLC s)")
       (simp_all add: joinSwap_def Let_def)
  obtain h2 where h2: "createHTLC P ?prm2 (toChain s) = Inr h2"
    using ok s st v1 v2 h1 i1
    by (cases "createHTLC P ?prm2 (toChain s)") (simp_all add: joinSwap_def Let_def)
  obtain i2 where i2: "installHTLC L (toChain s) h2 ?sp2 (responderHTLC s) = Inr i2"
    using ok s st v1 v2 h1 i1 h2
    by (cases "installHTLC L (toChain s) h2 ?sp2 (responderHTLC s)")
       (simp_all add: joinSwap_def Let_def)
  have nd: "\<not> (dateThrows (hi_timeout i1) \<or> dateThrows (hi_timeout i2))"
    using ok s st v1 v2 h1 i1 h2 i2
    by (cases "dateThrows (hi_timeout i1) \<or> dateThrows (hi_timeout i2)")
       (simp_all add: joinSwap_def Let_def)
  have ti: "hi_timeout i1 = hi_timeout (initiatorHTLC s)" "hi_timeout i2 = hi_timeout (responderHTLC s)"
    using installHTLC_timeout[OF i1] installHTLC_timeout[OF i2] by simp_all
  have na: "\<not> 8640000000000 < \<bar>hi_timeout (initiatorHTLC s)\<bar>"
    "\<not> 8640000000000 < \<bar>hi_timeout (responderHTLC s)\<bar>"
    using nd ti by (simp_all add: dateThrows_bound)
  have tb0: "hi_timeout (initiatorHTLC s) \<le> 8640000000000"
    "hi_timeout (responderHTLC s) \<le> 8640000000000"
    using na by linarith+
  have tb: "hi_timeout (initiatorHTLC s) < 2 ^ 63" "hi_timeout (responderHTLC s) < 2 ^ 63"
    using tb0 by simp_all
  let ?s3 = "?s1\<lparr> initiatorHTLC := i1, responderHTLC := i2, status := COUNTERPARTY_JOINED \<rparr>"
  have X: "joinSwap P L rnd now sw p =
             \<lparr> res = Inr \<lparr> jr_swapId = jp_swapId p, jr_status = COUNTERPARTY_JOINED,
                           jr_initiatorHTLC = i1, jr_responderHTLC = i2,
                           jr_recipient_secret = rs_recipient_secret ?RS,
                           jr_refund_secret = rs_refund_secret ?RS \<rparr>,
               store = sw(jp_swapId p \<mapsto> ?s3), trace = [] \<rparr>"
    using s st v1 v2 h1 i1 h2 i2 nd by (simp add: joinSwap_def Let_def)
  obtain c1 where c1: "createHTLCScript P ?prm1 = Inr c1" "redeemScript h1 = redeemScript c1"
    using createHTLC_Inr[OF h1] by blast
  obtain c2 where c2: "createHTLCScript P ?prm2 = Inr c2" "redeemScript h2 = redeemScript c2"
    using createHTLC_Inr[OF h2] by blast
  have l1: "fromChain s \<noteq> SOL \<longrightarrow> lockingScript i1 = Some (redeemScript c1)"
    using installHTLC_lockingScript[OF h1 i1] c1(2) by simp
  have l2: "toChain s \<noteq> SOL \<longrightarrow> lockingScript i2 = Some (redeemScript c2)"
    using installHTLC_lockingScript[OF h2 i2] c2(2) by simp
  have e1: "substring (redeemScript c1) 6 70 = swap_hash (initiator s)"
    using createHTLCScript_swapHash_position[OF c1(1)] by simp
  have e2: "substring (redeemScript c2) 6 70 = swap_hash (initiator s)"
    using createHTLCScript_swapHash_position[OF c2(1)] by simp
  have y1: "redeemScript c1 =
            ''63a820'' @ swap_hash (initiator s) @ ''88a820''
              @ rs_recipient_hash (generateResponderSecrets P rnd) @ ''8767''
              @ [CHR ''0'', hexDigit (length (specMinimalEncoding (nat (hi_timeout (initiatorHTLC s)))) div 2)]
              @ specMinimalEncoding (nat (hi_timeout (initiatorHTLC s)))
              @ ''b175a820'' @ refund_hash (initiator s) @ ''8768''"
    using createHTLCScript_layout[OF c1(1)] tb(1) by (simp add: scriptTemplate_def)
  have y2: "redeemScript c2 =
            ''63a820'' @ swap_hash (initiator s) @ ''88a820''
              @ claim_hash (initiator s) @ ''8767''
              @ [CHR ''0'', hexDigit (length (specMinimalEncoding (nat (hi_timeout (responderHTLC s)))) div 2)]
              @ specMinimalEncoding (nat (hi_timeout (responderHTLC s)))
              @ ''b175a820'' @ rs_refund_hash (generateResponderSecrets P rnd) @ ''8768''"
    using createHTLCScript_layout[OF c2(1)] tb(2) by (simp add: scriptTemplate_def)
  have r: "jr_status r = COUNTERPARTY_JOINED" using ok X by auto
  have st3: "store (joinSwap P L rnd now sw p) (jp_swapId p) = Some ?s3" by (simp add: X)
  show "\<exists>s s' ih rh.
          sw (jp_swapId p) = Some s \<and> status s = INITIATED \<and>
          store (joinSwap P L rnd now sw p) (jp_swapId p) = Some s' \<and>
          status s' = COUNTERPARTY_JOINED \<and> jr_status r = COUNTERPARTY_JOINED \<and>
          recipient_hash (responder s') = Some (rs_recipient_hash (generateResponderSecrets P rnd)) \<and>
          r_refund_hash (responder s') = Some (rs_refund_hash (generateResponderSecrets P rnd)) \<and>
          initiator s' = initiator s \<and>
          createHTLCScript P
            \<lparr> swapHash = swap_hash (initiator s),
              recipientHash = rs_recipient_hash (generateResponderSecrets P rnd),
              refundHash = refund_hash (initiator s),
              timeout = hi_timeout (initiatorHTLC s) \<rparr> = Inr ih \<and>
          createHTLCScript P
            \<lparr> swapHash = swap_hash (initiator s),
              recipientHash = claim_hash (initiator s),
              refundHash = rs_refund_hash (generateResponderSecrets P rnd),
              timeout = hi_timeout (responderHTLC s) \<rparr> = Inr rh \<and>
          redeemScript ih =
            ''63a820'' @ swap_hash (initiator s) @ ''88a820''
              @ rs_recipient_hash (generateResponderSecrets P rnd) @ ''8767''
              @ [CHR ''0'', hexDigit (length (specMinimalEncoding (nat (hi_timeout (initiatorHTLC s)))) div 2)]
              @ specMinimalEncoding (nat (hi_timeout (initiatorHTLC s)))
              @ ''b175a820'' @ refund_hash (initiator s) @ ''8768'' \<and>
          redeemScript rh =
            ''63a820'' @ swap_hash (initiator s) @ ''88a820''
              @ claim_hash (initiator s) @ ''8767''
              @ [CHR ''0'', hexDigit (length (specMinimalEncoding (nat (hi_timeout (responderHTLC s)))) div 2)]
              @ specMinimalEncoding (nat (hi_timeout (responderHTLC s)))
              @ ''b175a820'' @ rs_refund_hash (generateResponderSecrets P rnd) @ ''8768'' \<and>
          (fromChain s \<noteq> SOL \<longrightarrow> lockingScript (initiatorHTLC s') = Some (redeemScript ih)) \<and>
          (toChain s \<noteq> SOL \<longrightarrow> lockingScript (responderHTLC s') = Some (redeemScript rh)) \<and>
          substring (redeemScript ih) 6 70 = swap_hash (initiator s) \<and>
          substring (redeemScript rh) 6 70 = swap_hash (initiator s)"
  proof (intro exI conjI)
    show "sw (jp_swapId p) = Some s" by (rule s)
    show "status s = INITIATED" by (rule st)
    show "store (joinSwap P L rnd now sw p) (jp_swapId p) = Some ?s3" by (rule st3)
    show "status ?s3 = COUNTERPARTY_JOINED" by simp
    show "jr_status r = COUNTERPARTY_JOINED" by (rule r)
    show "recipient_hash (responder ?s3) = Some (rs_recipient_hash (generateResponderSecrets P rnd))"
      by simp
    show "r_refund_hash (responder ?s3) = Some (rs_refund_hash (generateResponderSecrets P rnd))"
      by simp
    show "initiator ?s3 = initiator s" by simp
    show "createHTLCScript P ?prm1 = Inr c1" by (rule c1(1))
    show "createHTLCScript P ?prm2 = Inr c2" by (rule c2(1))
    show "redeemScript c1 =
            ''63a820'' @ swap_hash (initiator s) @ ''88a820''
              @ rs_recipient_hash (generateResponderSecrets P rnd) @ ''8767''
              @ [CHR ''0'', hexDigit (length (specMinimalEncoding (nat (hi_timeout (initiatorHTLC s)))) div 2)]
              @ specMinimalEncoding (nat (hi_timeout (initiatorHTLC s)))
              @ ''b175a820'' @ refund_hash (initiator s) @ ''8768''" by (rule y1)
    show "redeemScript c2 =
            ''63a820'' @ swap_hash (initiator s) @ ''88a820''
              @ claim_hash (initiator s) @ ''8767''
              @ [CHR ''0'', hexDigit (length (specMinimalEncoding (nat (hi_timeout (responderHTLC s)))) div 2)]
              @ specMinimalEncoding (nat (hi_timeout (responderHTLC s)))
              @ ''b175a820'' @ rs_refund_hash (generateResponderSecrets P rnd) @ ''8768''" by (rule y2)
    show "fromChain s \<noteq> SOL \<longrightarrow> lockingScript (initiatorHTLC ?s3) = Some (redeemScript c1)"
      using l1 by simp
    show "toChain s \<noteq> SOL \<longrightarrow> lockingScript (responderHTLC ?s3) = Some (redeemScript c2)"
      using l2 by simp
    show "substring (redeemScript c1) 6 70 = swap_hash (initiator s)" by (rule e1)
    show "substring (redeemScript c2) 6 70 = swap_hash (initiator s)" by (rule e2)
  qed
next
  fix s
  assume h: "sw (jp_swapId p) = Some s \<and> status s = INITIATED \<and>
        v_valid (validateAddressOf L (fromChain s) (jp_toAddress p)) \<and>
        v_valid (validateAddressOf L (toChain s) (jp_refundAddress p)) \<and>
        fromChain s \<noteq> SOL \<and> toChain s \<noteq> SOL \<and>
        (\<forall>x. length (sha256Raw P x) = 32) \<and>
        length (swap_hash (initiator s)) = 64 \<and> length (refund_hash (initiator s)) = 64 \<and>
        length (claim_hash (initiator s)) = 64 \<and>
        1 \<le> hi_timeout (initiatorHTLC s) \<and> 1 \<le> hi_timeout (responderHTLC s) \<and>
        hi_timeout (initiatorHTLC s) \<le> 8640000000000 \<and>
        hi_timeout (responderHTLC s) \<le> 8640000000000"
  let ?RS = "generateResponderSecrets P rnd"
  have g: "length (rs_recipient_hash ?RS) = 64" "length (rs_refund_hash ?RS) = 64"
    using generated_hash_length[of P rnd] h by auto
  have t64: "hi_timeout (initiatorHTLC s) < 2 ^ 64" "hi_timeout (responderHTLC s) < 2 ^ 64"
    using h by auto
  let ?prm1 = "\<lparr> swapHash = swap_hash (initiator s),
              recipientHash = rs_recipient_hash ?RS,
              refundHash = refund_hash (initiator s),
              timeout = hi_timeout (initiatorHTLC s) \<rparr>"
  let ?prm2 = "\<lparr> swapHash = swap_hash (initiator s),
              recipientHash = claim_hash (initiator s),
              refundHash = rs_refund_hash ?RS,
              timeout = hi_timeout (responderHTLC s) \<rparr>"
  obtain h1 where h1: "createHTLC P ?prm1 (fromChain s) = Inr h1"
    using createHTLC_succeeds[OF createHTLCScript_succeeds[of ?prm1 P]] h g t64 by auto
  obtain h2 where h2: "createHTLC P ?prm2 (toChain s) = Inr h2"
    using createHTLC_succeeds[OF createHTLCScript_succeeds[of ?prm2 P]] h g t64 by auto
  obtain j1 where j1: "installHTLC L (fromChain s) h1
               \<lparr> sol_swapHash = swap_hash (initiator s),
                 sol_recipientHash = rs_recipient_hash ?RS,
                 sol_refundHash = refund_hash (initiator s),
                 sol_initiator = refundAddress s,
                 sol_recipient = jp_toAddress p,
                 sol_lamports = fromAmount s,
                 sol_timeoutSeconds = hi_timeout (initiatorHTLC s) - now \<rparr>
               (initiatorHTLC s) = Inr j1"
    using installHTLC_succeeds[of "fromChain s" L h1] h by blast
  obtain j2 where j2: "installHTLC L (toChain s) h2
               \<lparr> sol_swapHash = swap_hash (initiator s),
                 sol_recipientHash = claim_hash (initiator s),
                 sol_refundHash = rs_refund_hash ?RS,
                 sol_initiator = jp_refundAddress p,
                 sol_recipient = toAddress s,
                 sol_lamports = toAmount s,
                 sol_timeoutSeconds = hi_timeout (responderHTLC s) - now \<rparr>
               (responderHTLC s) = Inr j2"
    using installHTLC_succeeds[of "toChain s" L h2] h by blast
  have tj: "hi_timeout j1 = hi_timeout (initiatorHTLC s)" "hi_timeout j2 = hi_timeout (responderHTLC s)"
    using installHTLC_timeout[OF j1] installHTLC_timeout[OF j2] by simp_all
  have nd: "\<not> dateThrows (hi_timeout j1)" "\<not> dateThrows (hi_timeout j2)"
    using h tj by (simp_all add: dateThrows_bound)
  show "\<exists>r. res (joinSwap P L rnd now sw p) = Inr r"
    using h h1 h2 j1 j2 nd by (simp add: joinSwap_def Let_def)
next
  fix s
  assume h: "sw (jp_swapId p) = Some s \<and> status s = INITIATED \<and>
        v_valid (validateAddressOf L (fromChain s) (jp_toAddress p)) \<and>
        v_valid (validateAddressOf L (toChain s) (jp_refundAddress p)) \<and>
        fromChain s \<noteq> SOL \<and> toChain s \<noteq> SOL \<and>
        (\<forall>x. length (sha256Raw P x) = 32) \<and>
        length (swap_hash (initiator s)) = 64 \<and> length (refund_hash (initiator s)) = 64 \<and>
        length (claim_hash (initiator s)) = 64 \<and>
        1 \<le> hi_timeout (initiatorHTLC s) \<and> 1 \<le> hi_timeout (responderHTLC s) \<and>
        hi_timeout (initiatorHTLC s) < 2 ^ 64 \<and> hi_timeout (responderHTLC s) < 2 ^ 64 \<and>
        (8640000000000 < hi_timeout (initiatorHTLC s) \<or>
         8640000000000 < hi_timeout (responderHTLC s))"
  let ?RS = "generateResponderSecrets P rnd"
  have g: "length (rs_recipient_hash ?RS) = 64" "length (rs_refund_hash ?RS) = 64"
    using generated_hash_length[of P rnd] h by auto
  have t64: "hi_timeout (initiatorHTLC s) < 2 ^ 64" "hi_timeout (responderHTLC s) < 2 ^ 64"
    using h by auto
  let ?prm1 = "\<lparr> swapHash = swap_hash (initiator s),
              recipientHash = rs_recipient_hash ?RS,
              refundHash = refund_hash (initiator s),
              timeout = hi_timeout (initiatorHTLC s) \<rparr>"
  let ?prm2 = "\<lparr> swapHash = swap_hash (initiator s),
              recipientHash = claim_hash (initiator s),
              refundHash = rs_refund_hash ?RS,
              timeout = hi_timeout (responderHTLC s) \<rparr>"
  obtain h1 where h1: "createHTLC P ?prm1 (fromChain s) = Inr h1"
    using createHTLC_succeeds[OF createHTLCScript_succeeds[of ?prm1 P]] h g t64 by auto
  obtain h2 where h2: "createHTLC P ?prm2 (toChain s) = Inr h2"
    using createHTLC_succeeds[OF createHTLCScript_succeeds[of ?prm2 P]] h g t64 by auto
  obtain j1 where j1: "installHTLC L (fromChain s) h1
               \<lparr> sol_swapHash = swap_hash (initiator s),
                 sol_recipientHash = rs_recipient_hash ?RS,
                 sol_refundHash = refund_hash (initiator s),
                 sol_initiator = refundAddress s,
                 sol_recipient = jp_toAddress p,
                 sol_lamports = fromAmount s,
                 sol_timeoutSeconds = hi_timeout (initiatorHTLC s) - now \<rparr>
               (initiatorHTLC s) = Inr j1"
    using installHTLC_succeeds[of "fromChain s" L h1] h by blast
  obtain j2 where j2: "installHTLC L (toChain s) h2
               \<lparr> sol_swapHash = swap_hash (initiator s),
                 sol_recipientHash = claim_hash (initiator s),
                 sol_refundHash = rs_refund_hash ?RS,
                 sol_initiator = jp_refundAddress p,
                 sol_recipient = toAddress s,
                 sol_lamports = toAmount s,
                 sol_timeoutSeconds = hi_timeout (responderHTLC s) - now \<rparr>
               (responderHTLC s) = Inr j2"
    using installHTLC_succeeds[of "toChain s" L h2] h by blast
  have tj: "hi_timeout j1 = hi_timeout (initiatorHTLC s)" "hi_timeout j2 = hi_timeout (responderHTLC s)"
    using installHTLC_timeout[OF j1] installHTLC_timeout[OF j2] by simp_all
  have d: "dateThrows (hi_timeout j1) \<or> dateThrows (hi_timeout j2)"
    using h tj by (auto simp add: dateThrows_bound)
  show "res (joinSwap P L rnd now sw p) = Inl InvalidTimeValue"
    using h h1 h2 j1 j2 d by (auto simp add: joinSwap_def Let_def)
  show "\<exists>s'. store (joinSwap P L rnd now sw p) (jp_swapId p) = Some s' \<and>
              status s' = COUNTERPARTY_JOINED"
    using h h1 h2 j1 j2 d by (auto simp add: joinSwap_def Let_def)
qed


text \<open>
  Witness for C3: joining the fully funded test swap is refused with the state error; joining
  the \<open>INITIATED\<close> test swap (time-outs \<open>1700086400\<close> and \<open>1700043200\<close>) succeeds, the
  stored swap is \<open>COUNTERPARTY_JOINED\<close> and the two stored locking scripts are the
  written-out layouts around the swap hash \<^verbatim>\<open>2020...20\<close>; joining the swap whose
  initiator time-out is \<open>8640000000001\<close> fails on the time-out date and leaves the swap
  \<open>COUNTERPARTY_JOINED\<close>.
\<close>

theorem joinSwap_spec_witness:
  "joinSwap testPrims testLedger testEntropy 1700000000 testStore testJoin =
     \<lparr> res = Inl (CannotJoinInStatus FULLY_FUNDED), store = testStore, trace = [] \<rparr> \<and>
   (\<exists>r s'.
      res (joinSwap testPrims testLedger testEntropy 1700000000 initiatedStore testJoin) = Inr r \<and>
      store (joinSwap testPrims testLedger testEntropy 1700000000 initiatedStore testJoin)
        ''qswap_test'' = Some s' \<and>
      status s' = COUNTERPARTY_JOINED \<and>
      lockingScript (initiatorHTLC s') =
        Some (''63a820'' @ concat (replicate 32 ''20'') @ ''88a820''
                @ rs_recipient_hash (generateResponderSecrets testPrims testEntropy)
                @ ''87670480425565b175a820'' @ concat (replicate 32 ''60'') @ ''8768'') \<and>
      lockingScript (responderHTLC s') =
        Some (''63a820'' @ concat (replicate 32 ''20'') @ ''88a820''
                @ concat (replicate 32 ''40'')
                @ ''876704c0995465b175a820''
                @ rs_refund_hash (generateResponderSecrets testPrims testEntropy) @ ''8768'')) \<and>
   (res (joinSwap testPrims testLedger testEntropy 1700000000 lateStore testJoin)
        = Inl InvalidTimeValue \<and>
      (\<exists>s'. store (joinSwap testPrims testLedger testEntropy 1700000000 lateStore testJoin)
               (jp_swapId testJoin) = Some s' \<and> status s' = COUNTERPARTY_JOINED))"
proof -
  note J = joinSwap_spec[of testStore testJoin testPrims testLedger testEntropy 1700000000]
  have a: "testStore (jp_swapId testJoin) = Some testSwap \<and> status testSwap \<noteq> INITIATED"
    by (simp add: testStore_def testJoin_def testSwap_def)
  have A: "joinSwap testPrims testLedger testEntropy 1700000000 testStore testJoin =
     \<lparr> res = Inl (CannotJoinInStatus FULLY_FUNDED), store = testStore, trace = [] \<rparr>"
    using J[THEN conjunct1, rule_format, OF a] by (simp add: testSwap_def)
  note K = joinSwap_spec[of initiatedStore testJoin testPrims testLedger testEntropy 1700000000]
  have l: "length (concat (replicate 32 ''20'')) = 64" "length (concat (replicate 32 ''60'')) = 64"
    "length (concat (replicate 32 ''40'')) = 64" by (simp_all add: length_concat_replicate)
  have b: "initiatedStore (jp_swapId testJoin) = Some testInitiated \<and> status testInitiated = INITIATED \<and>
        v_valid (validateAddressOf testLedger (fromChain testInitiated) (jp_toAddress testJoin)) \<and>
        v_valid (validateAddressOf testLedger (toChain testInitiated) (jp_refundAddress testJoin)) \<and>
        fromChain testInitiated \<noteq> SOL \<and> toChain testInitiated \<noteq> SOL \<and>
        (\<forall>x. length (sha256Raw testPrims x) = 32) \<and>
        length (swap_hash (initiator testInitiated)) = 64 \<and>
        length (refund_hash (initiator testInitiated)) = 64 \<and>
        length (claim_hash (initiator testInitiated)) = 64 \<and>
        1 \<le> hi_timeout (initiatorHTLC testInitiated) \<and> 1 \<le> hi_timeout (responderHTLC testInitiated) \<and>
        hi_timeout (initiatorHTLC testInitiated) \<le> 8640000000000 \<and>
        hi_timeout (responderHTLC testInitiated) \<le> 8640000000000"
    unfolding initiatedStore_def testJoin_def testInitiated_def testSwap_def testLedger_def testPrims_def
    using l by simp
  obtain r where r: "res (joinSwap testPrims testLedger testEntropy 1700000000 initiatedStore testJoin) = Inr r"
    using K[THEN conjunct2, THEN conjunct2, THEN conjunct1, rule_format, OF b] by blast
  note K2 = K[THEN conjunct2, THEN conjunct1, rule_format, OF r]
  then obtain s s' and ih rh :: htlc_script where p:
      "initiatedStore (jp_swapId testJoin) = Some s"
      "store (joinSwap testPrims testLedger testEntropy 1700000000 initiatedStore testJoin) (jp_swapId testJoin) = Some s'"
      "status s' = COUNTERPARTY_JOINED"
      "redeemScript ih =
            ''63a820'' @ swap_hash (initiator s) @ ''88a820''
              @ rs_recipient_hash (generateResponderSecrets testPrims testEntropy) @ ''8767''
              @ [CHR ''0'', hexDigit (length (specMinimalEncoding (nat (hi_timeout (initiatorHTLC s)))) div 2)]
              @ specMinimalEncoding (nat (hi_timeout (initiatorHTLC s)))
              @ ''b175a820'' @ refund_hash (initiator s) @ ''8768''"
      "redeemScript rh =
            ''63a820'' @ swap_hash (initiator s) @ ''88a820''
              @ claim_hash (initiator s) @ ''8767''
              @ [CHR ''0'', hexDigit (length (specMinimalEncoding (nat (hi_timeout (responderHTLC s)))) div 2)]
              @ specMinimalEncoding (nat (hi_timeout (responderHTLC s)))
              @ ''b175a820'' @ rs_refund_hash (generateResponderSecrets testPrims testEntropy) @ ''8768''"
      "fromChain s \<noteq> SOL \<longrightarrow> lockingScript (initiatorHTLC s') = Some (redeemScript ih)"
      "toChain s \<noteq> SOL \<longrightarrow> lockingScript (responderHTLC s') = Some (redeemScript rh)"
    by (elim exE conjE) (rule that, assumption+)
  have s: "s = testInitiated" using p(1) b by simp
  have c: "fromChain testInitiated \<noteq> SOL" "toChain testInitiated \<noteq> SOL"
    "swap_hash (initiator testInitiated) = concat (replicate 32 ''20'')"
    "refund_hash (initiator testInitiated) = concat (replicate 32 ''60'')"
    "claim_hash (initiator testInitiated) = concat (replicate 32 ''40'')"
    "nat (hi_timeout (initiatorHTLC testInitiated)) = 1700086400"
    "nat (hi_timeout (responderHTLC testInitiated)) = 1700043200"
    "jp_swapId testJoin = ''qswap_test''"
    by (simp_all add: testInitiated_def testSwap_def testJoin_def)
  have d: "hexDigit 4 = CHR ''4''" "hexDigit (Suc (Suc (Suc (Suc 0)))) = CHR ''4''"
    by code_simp+
  have i: "redeemScript ih = ''63a820'' @ concat (replicate 32 ''20'') @ ''88a820''
                @ rs_recipient_hash (generateResponderSecrets testPrims testEntropy)
                @ ''87670480425565b175a820'' @ concat (replicate 32 ''60'') @ ''8768''"
    unfolding p(4) s c specMinimalEncoding_examples
    by (simp add: d del: concat.simps replicate.simps)
  have j: "redeemScript rh = ''63a820'' @ concat (replicate 32 ''20'') @ ''88a820''
                @ concat (replicate 32 ''40'')
                @ ''876704c0995465b175a820''
                @ rs_refund_hash (generateResponderSecrets testPrims testEntropy) @ ''8768''"
    unfolding p(5) s c specMinimalEncoding_examples
    by (simp add: d del: concat.simps replicate.simps)
  have B: "\<exists>r s'.
      res (joinSwap testPrims testLedger testEntropy 1700000000 initiatedStore testJoin) = Inr r \<and>
      store (joinSwap testPrims testLedger testEntropy 1700000000 initiatedStore testJoin)
        ''qswap_test'' = Some s' \<and>
      status s' = COUNTERPARTY_JOINED \<and>
      lockingScript (initiatorHTLC s') =
        Some (''63a820'' @ concat (replicate 32 ''20'') @ ''88a820''
                @ rs_recipient_hash (generateResponderSecrets testPrims testEntropy)
                @ ''87670480425565b175a820'' @ concat (replicate 32 ''60'') @ ''8768'') \<and>
      lockingScript (responderHTLC s') =
        Some (''63a820'' @ concat (replicate 32 ''20'') @ ''88a820''
                @ concat (replicate 32 ''40'')
                @ ''876704c0995465b175a820''
                @ rs_refund_hash (generateResponderSecrets testPrims testEntropy) @ ''8768'')"
  proof (intro exI conjI)
    show "res (joinSwap testPrims testLedger testEntropy 1700000000 initiatedStore testJoin) = Inr r"
      by (rule r)
    show "store (joinSwap testPrims testLedger testEntropy 1700000000 initiatedStore testJoin)
            ''qswap_test'' = Some s'" using p(2) c(8) by simp
    show "status s' = COUNTERPARTY_JOINED" by (rule p(3))
    show "lockingScript (initiatorHTLC s') =
        Some (''63a820'' @ concat (replicate 32 ''20'') @ ''88a820''
                @ rs_recipient_hash (generateResponderSecrets testPrims testEntropy)
                @ ''87670480425565b175a820'' @ concat (replicate 32 ''60'') @ ''8768'')"
      using p(6) s c(1) i by simp
    show "lockingScript (responderHTLC s') =
        Some (''63a820'' @ concat (replicate 32 ''20'') @ ''88a820''
                @ concat (replicate 32 ''40'')
                @ ''876704c0995465b175a820''
                @ rs_refund_hash (generateResponderSecrets testPrims testEntropy) @ ''8768'')"
      using p(7) s c(2) j by simp
  qed
  note M = joinSwap_spec[of lateStore testJoin testPrims testLedger testEntropy 1700000000]
  have m: "lateStore (jp_swapId testJoin) = Some lateInitiated \<and> status lateInitiated = INITIATED \<and>
        v_valid (validateAddressOf testLedger (fromChain lateInitiated) (jp_toAddress testJoin)) \<and>
        v_valid (validateAddressOf testLedger (toChain lateInitiated) (jp_refundAddress testJoin)) \<and>
        fromChain lateInitiated \<noteq> SOL \<and> toChain lateInitiated \<noteq> SOL \<and>
        (\<forall>x. length (sha256Raw testPrims x) = 32) \<and>
        length (swap_hash (initiator lateInitiated)) = 64 \<and>
        length (refund_hash (initiator lateInitiated)) = 64 \<and>
        length (claim_hash (initiator lateInitiated)) = 64 \<and>
        1 \<le> hi_timeout (initiatorHTLC lateInitiated) \<and> 1 \<le> hi_timeout (responderHTLC lateInitiated) \<and>
        hi_timeout (initiatorHTLC lateInitiated) < 2 ^ 64 \<and>
        hi_timeout (responderHTLC lateInitiated) < 2 ^ 64 \<and>
        (8640000000000 < hi_timeout (initiatorHTLC lateInitiated) \<or>
         8640000000000 < hi_timeout (responderHTLC lateInitiated))"
    unfolding lateStore_def lateInitiated_def testJoin_def testInitiated_def testSwap_def
      testLedger_def testPrims_def
    using l by simp
  have C: "res (joinSwap testPrims testLedger testEntropy 1700000000 lateStore testJoin)
        = Inl InvalidTimeValue \<and>
      (\<exists>s'. store (joinSwap testPrims testLedger testEntropy 1700000000 lateStore testJoin)
               (jp_swapId testJoin) = Some s' \<and> status s' = COUNTERPARTY_JOINED)"
    using M[THEN conjunct2, THEN conjunct2, THEN conjunct2, rule_format, OF m] .
  show ?thesis using A B C by blast
qed
section \<open>Claims about the claim operations\<close>

text \<open>
  C2. Both claim operations hand their secrets to the adapter's
  \<^verbatim>\<open>buildClaimTransaction\<close>, which compares the SHA-256 of each secret with the swap
  hash and the recipient hash parsed from the escrow script before it builds the unlocking
  script and the transaction: a swap secret that does not match gives the swap-secret
  mismatch error and a recipient secret that does not match gives the recipient-secret
  mismatch error, whatever the ledger would answer. Hence a broadcast in the trace of
  \<^verbatim>\<open>initiatorClaim\<close> or \<^verbatim>\<open>responderClaim\<close> means that both secrets matched the
  commitments of the escrow script. \<^verbatim>\<open>responderClaim\<close>, the one operation that takes
  a secret from its caller, first compares it with the stored swap hash and on a mismatch
  returns the invalid-secret error with the store and the ledger untouched; whenever it
  fails, for any reason, the store is unchanged. \<^verbatim>\<open>initiatorClaim\<close> takes no secret
  from its caller: it uses the stored secrets of the initiator, and in every store the
  coordinator can reach these hash to the swap hash and recipient hash of the responder
  escrow's script whenever that script parses, so its preimage check cannot fail there.
\<close>

theorem claim_operations_verify_secrets:
  "(\<forall>ss rs scr d. ch \<noteq> SOL \<and> parseHTLCScript scr = Inr d \<and>
        sha256Hex P (Hex ss) \<noteq> p_swapHash d \<longrightarrow>
        buildClaimTransaction P L ch u (Some ss) rs (Some scr) dest = Inl SwapSecretMismatch) \<and>
   (\<forall>ss r scr d. ch \<noteq> SOL \<and> parseHTLCScript scr = Inr d \<and>
        sha256Hex P (Hex ss) = p_swapHash d \<and> sha256Hex P (Hex r) \<noteq> p_recipientHash d \<longrightarrow>
        buildClaimTransaction P L ch u (Some ss) (Some r) (Some scr) dest
          = Inl RecipientSecretMismatch) \<and>
   (\<forall>c tx. Broadcast c tx \<in> set (trace (initiatorClaim P L sw p)) \<longrightarrow>
        (\<exists>s script d. sw (sp_swapId p) = Some s \<and>
           lockingScript (responderHTLC s) = Some script \<and> parseHTLCScript script = Inr d \<and>
           sha256Hex P (Hex (swap_secret (initiator s))) = p_swapHash d \<and>
           sha256Hex P (Hex (claim_secret (initiator s))) = p_recipientHash d)) \<and>
   (\<forall>c tx. Broadcast c tx \<in> set (trace (responderClaim P L sw rp)) \<longrightarrow>
        (\<exists>s script d rsec. sw (rc_swapId rp) = Some s \<and>
           sha256Hex P (Hex (rc_swapSecret rp)) = swap_hash (initiator s) \<and>
           lockingScript (initiatorHTLC s) = Some script \<and> parseHTLCScript script = Inr d \<and>
           recipient_secret (responder s) = Some rsec \<and>
           sha256Hex P (Hex (rc_swapSecret rp)) = p_swapHash d \<and>
           sha256Hex P (Hex rsec) = p_recipientHash d)) \<and>
   (\<forall>s. sw (rc_swapId rp) = Some s \<and>
        sha256Hex P (Hex (rc_swapSecret rp)) \<noteq> swap_hash (initiator s) \<longrightarrow>
        responderClaim P L sw rp = \<lparr> res = Inl InvalidSwapSecret, store = sw, trace = [] \<rparr>) \<and>
   (isl (res (responderClaim P L sw rp)) \<longrightarrow> store (responderClaim P L sw rp) = sw) \<and>
   (reachable P sw \<longrightarrow>
      (\<forall>k s scr d. sw k = Some s \<and> lockingScript (responderHTLC s) = Some scr \<and>
          parseHTLCScript scr = Inr d \<longrightarrow>
          sha256Hex P (Hex (swap_secret (initiator s))) = p_swapHash d \<and>
          sha256Hex P (Hex (claim_secret (initiator s))) = p_recipientHash d))"
proof (intro conjI allI impI)
  fix ss rs scr d
  assume "ch \<noteq> SOL \<and> parseHTLCScript scr = Inr d \<and> sha256Hex P (Hex ss) \<noteq> p_swapHash d"
  then show "buildClaimTransaction P L ch u (Some ss) rs (Some scr) dest = Inl SwapSecretMismatch"
    by (simp add: buildClaimTransaction_def)
next
  fix ss r scr d
  assume "ch \<noteq> SOL \<and> parseHTLCScript scr = Inr d \<and>
        sha256Hex P (Hex ss) = p_swapHash d \<and> sha256Hex P (Hex r) \<noteq> p_recipientHash d"
  then show "buildClaimTransaction P L ch u (Some ss) (Some r) (Some scr) dest
          = Inl RecipientSecretMismatch"
    by (simp add: buildClaimTransaction_def)
next
  fix c tx assume "Broadcast c tx \<in> set (trace (initiatorClaim P L sw p))"
  then show "\<exists>s script d. sw (sp_swapId p) = Some s \<and>
           lockingScript (responderHTLC s) = Some script \<and> parseHTLCScript script = Inr d \<and>
           sha256Hex P (Hex (swap_secret (initiator s))) = p_swapHash d \<and>
           sha256Hex P (Hex (claim_secret (initiator s))) = p_recipientHash d"
    by (rule initiatorClaim_broadcast_verified)
next
  fix c tx assume "Broadcast c tx \<in> set (trace (responderClaim P L sw rp))"
  then show "\<exists>s script d rsec. sw (rc_swapId rp) = Some s \<and>
           sha256Hex P (Hex (rc_swapSecret rp)) = swap_hash (initiator s) \<and>
           lockingScript (initiatorHTLC s) = Some script \<and> parseHTLCScript script = Inr d \<and>
           recipient_secret (responder s) = Some rsec \<and>
           sha256Hex P (Hex (rc_swapSecret rp)) = p_swapHash d \<and>
           sha256Hex P (Hex rsec) = p_recipientHash d"
    by (rule responderClaim_broadcast_verified)
next
  fix s assume "sw (rc_swapId rp) = Some s \<and>
        sha256Hex P (Hex (rc_swapSecret rp)) \<noteq> swap_hash (initiator s)"
  then show "responderClaim P L sw rp = \<lparr> res = Inl InvalidSwapSecret, store = sw, trace = [] \<rparr>"
    using responderClaim_wrong_secret by blast
next
  assume "isl (res (responderClaim P L sw rp))"
  then show "store (responderClaim P L sw rp) = sw" by (rule failure_preserves_store(3))
next
  fix k s scr d
  assume r: "reachable P sw"
    and h: "sw k = Some s \<and> lockingScript (responderHTLC s) = Some scr \<and> parseHTLCScript scr = Inr d"
  have c: "secretsConsistent P s" using reachable_consistent[OF r] h by blast
  from secretsConsistent_checks[OF c] h
  show "sha256Hex P (Hex (swap_secret (initiator s))) = p_swapHash d"
    "sha256Hex P (Hex (claim_secret (initiator s))) = p_recipientHash d"
    by blast+
qed

text \<open>
  Witness for C2: the adapter refuses the swap secret \<^verbatim>\<open>00...0\<close> against the test
  swap's responder script; the responder's claim with that secret returns the
  invalid-secret error with the store unchanged; the initiator's claim on the test store
  broadcasts, so its secrets match the script; and in the store reached by an initiation
  and a join, the stored secrets match the parsed responder script.
\<close>

theorem claim_operations_verify_secrets_witness:
  "buildClaimTransaction testPrims testLedger BSV
       \<lparr> u_txid = ''f0'', u_vout = 0, u_satoshis = 95000 \<rparr>
       (Some (replicate 64 CHR ''0'')) (Some (replicate 64 CHR ''2''))
       (Some (scriptTemplate (concat (replicate 32 ''20'')) (concat (replicate 32 ''40''))
                      (concat (replicate 32 ''a0'')) 4 ''c0995465'')) None
     = Inl SwapSecretMismatch \<and>
   responderClaim testPrims testLedger testStore wrongResponderClaim =
     \<lparr> res = Inl InvalidSwapSecret, store = testStore, trace = [] \<rparr> \<and>
   store (responderClaim testPrims testLedger testStore wrongResponderClaim) = testStore \<and>
   (\<exists>s script d. testStore ''qswap_test'' = Some s \<and>
           lockingScript (responderHTLC s) = Some script \<and> parseHTLCScript script = Inr d \<and>
           sha256Hex testPrims (Hex (swap_secret (initiator s))) = p_swapHash d \<and>
           sha256Hex testPrims (Hex (claim_secret (initiator s))) = p_recipientHash d) \<and>
   (\<exists>s scr d. historyJoined ''qswap_0123456789abcdef'' = Some s \<and>
           lockingScript (responderHTLC s) = Some scr \<and> parseHTLCScript scr = Inr d \<and>
           sha256Hex testPrims (Hex (swap_secret (initiator s))) = p_swapHash d \<and>
           sha256Hex testPrims (Hex (claim_secret (initiator s))) = p_recipientHash d)"
proof -
  note T = claim_operations_verify_secrets[where P = testPrims and L = testLedger
             and sw = testStore and p = testSpend and rp = wrongResponderClaim and ch = BSV
             and u = "\<lparr> u_txid = ''f0'', u_vout = 0, u_satoshis = 95000 \<rparr>" and dest = None]
  have h1: "BSV \<noteq> SOL \<and>
            parseHTLCScript (scriptTemplate (concat (replicate 32 ''20'')) (concat (replicate 32 ''40''))
                      (concat (replicate 32 ''a0'')) 4 ''c0995465'') =
              Inr \<lparr> valid = True, p_swapHash = concat (replicate 32 ''20''),
                    p_recipientHash = concat (replicate 32 ''40''),
                    p_refundHash = concat (replicate 32 ''a0''),
                    p_timeout = 1700043200, p_timeoutHex = ''c0995465'' \<rparr> \<and>
            sha256Hex testPrims (Hex (replicate 64 CHR ''0''))
              \<noteq> p_swapHash \<lparr> valid = True, p_swapHash = concat (replicate 32 ''20''),
                    p_recipientHash = concat (replicate 32 ''40''),
                    p_refundHash = concat (replicate 32 ''a0''),
                    p_timeout = 1700043200, p_timeoutHex = ''c0995465'' \<rparr>"
    using parse_test_responder_script test_digests(1,4)
    by (simp del: concat.simps replicate.simps)
  have A: "buildClaimTransaction testPrims testLedger BSV
       \<lparr> u_txid = ''f0'', u_vout = 0, u_satoshis = 95000 \<rparr>
       (Some (replicate 64 CHR ''0'')) (Some (replicate 64 CHR ''2''))
       (Some (scriptTemplate (concat (replicate 32 ''20'')) (concat (replicate 32 ''40''))
                      (concat (replicate 32 ''a0'')) 4 ''c0995465'')) None
     = Inl SwapSecretMismatch"
    using T[THEN conjunct1, rule_format, OF h1] .
  have h2: "testStore (rc_swapId wrongResponderClaim) = Some testSwap \<and>
            sha256Hex testPrims (Hex (rc_swapSecret wrongResponderClaim))
              \<noteq> swap_hash (initiator testSwap)"
    using test_digests(1,4)
    by (simp add: testStore_def wrongResponderClaim_def testSwap_def
             del: concat.simps replicate.simps)
  have B: "responderClaim testPrims testLedger testStore wrongResponderClaim =
     \<lparr> res = Inl InvalidSwapSecret, store = testStore, trace = [] \<rparr>"
    using T[THEN conjunct2, THEN conjunct2, THEN conjunct2, THEN conjunct2, THEN conjunct1,
            rule_format, OF h2] .
  have h3: "isl (res (responderClaim testPrims testLedger testStore wrongResponderClaim))"
    using B by simp
  have C: "store (responderClaim testPrims testLedger testStore wrongResponderClaim) = testStore"
    using T[THEN conjunct2, THEN conjunct2, THEN conjunct2, THEN conjunct2, THEN conjunct2,
            THEN conjunct1, rule_format, OF h3] .
  have h4: "Broadcast BSV ''01000000''
              \<in> set (trace (initiatorClaim testPrims testLedger testStore testSpend))"
    using example_claim_succeeds by simp
  have id: "sp_swapId testSpend = ''qswap_test''" by (simp add: testSpend_def)
  have D: "\<exists>s script d. testStore ''qswap_test'' = Some s \<and>
           lockingScript (responderHTLC s) = Some script \<and> parseHTLCScript script = Inr d \<and>
           sha256Hex testPrims (Hex (swap_secret (initiator s))) = p_swapHash d \<and>
           sha256Hex testPrims (Hex (claim_secret (initiator s))) = p_recipientHash d"
    using T[THEN conjunct2, THEN conjunct2, THEN conjunct1, rule_format, OF h4]
    unfolding id .
  note U = claim_operations_verify_secrets[where P = testPrims and sw = historyJoined]
  obtain s scr d where j: "historyJoined ''qswap_0123456789abcdef'' = Some s"
      "lockingScript (responderHTLC s) = Some scr" "parseHTLCScript scr = Inr d"
    using historyJoined_script by blast
  have h5: "historyJoined ''qswap_0123456789abcdef'' = Some s \<and>
            lockingScript (responderHTLC s) = Some scr \<and> parseHTLCScript scr = Inr d"
    using j by simp
  have "sha256Hex testPrims (Hex (swap_secret (initiator s))) = p_swapHash d \<and>
        sha256Hex testPrims (Hex (claim_secret (initiator s))) = p_recipientHash d"
    using U[THEN conjunct2, THEN conjunct2, THEN conjunct2, THEN conjunct2, THEN conjunct2,
            THEN conjunct2, rule_format, OF historyJoined_reachable h5] .
  then have E: "\<exists>s scr d. historyJoined ''qswap_0123456789abcdef'' = Some s \<and>
           lockingScript (responderHTLC s) = Some scr \<and> parseHTLCScript scr = Inr d \<and>
           sha256Hex testPrims (Hex (swap_secret (initiator s))) = p_swapHash d \<and>
           sha256Hex testPrims (Hex (claim_secret (initiator s))) = p_recipientHash d"
    using j by blast
  show ?thesis using A B C D E by blast
qed
end
